theory Spec2Isabelle
  imports Complex_Main "HOL-Library.Monad_Syntax"
begin

section \<open>Conventions of the embedding\<close>

text \<open>
  The theory embeds the worm-algorithm move engine (\<^verbatim>\<open>move.cpp\<close>) and the classical
  Monte Carlo variant (\<^verbatim>\<open>cmc.cpp\<close>) of the path integral Monte Carlo code.

  \<^item> A C++ \<^verbatim>\<open>double\<close> is a \<^typ>\<open>real\<close>: arithmetic is exact, rounding, overflow and
    NaN are outside the model.  A \<^verbatim>\<open>dVec\<close> (\<^verbatim>\<open>TinyVector<double,NDIM>\<close>) is a list of
    \<^verbatim>\<open>NDIM\<close> reals.
  \<^item> A C++ \<^verbatim>\<open>int\<close> is an \<^typ>\<open>int\<close>; the values met here (slice numbers, bead numbers,
    particle numbers) are far from the 32 bit limits.
  \<^item> The random number generator \<^verbatim>\<open>MTRand\<close> is not part of the sources at hand.  It is
    a parameter: the \<open>i\<close>-th call made to the generator returns the \<open>i\<close>-th entry of a
    stream, and the state carries the number \<open>rng\<close> of calls made so far.
  \<^item> The potentials, the container, the action and the constants are parameters as well:
    they are collaborators of the code under study, given by records of functions.
  \<^item> A loop whose end depends on the links of the path (\<^verbatim>\<open>do ... while\<close> along a
    worldline) is a recursive function with fuel: the first argument bounds the number of
    iterations.  A function that contains such a loop returns an option; \<open>None\<close> says
    that the call has no defined return: a loop did not end within the fuel, or the
    program left the function through an exception or read outside an array.
\<close>

type_synonym dVec = "real list"

definition vadd :: "dVec \<Rightarrow> dVec \<Rightarrow> dVec" where
  "vadd a b = map2 (+) a b"

definition vsub :: "dVec \<Rightarrow> dVec \<Rightarrow> dVec" where
  "vsub a b = map2 (-) a b"

definition vscale :: "real \<Rightarrow> dVec \<Rightarrow> dVec" where
  "vscale c a = map (\<lambda>x. c * x) a"

text \<open>The generator: \<^verbatim>\<open>rand()\<close> in \<open>[0,1]\<close>, \<^verbatim>\<open>randInt(n)\<close> in \<open>[0,n]\<close>,
  \<^verbatim>\<open>randNorm(mean,stddev)\<close>; the first argument is the number of the call.\<close>

record MTRand =
  rand :: "nat \<Rightarrow> real"
  randInt :: "nat \<Rightarrow> int \<Rightarrow> int"
  randNorm :: "nat \<Rightarrow> real \<Rightarrow> real \<Rightarrow> real"

text \<open>The container (\<^verbatim>\<open>boxPtr\<close>).  \<^verbatim>\<open>randPosition\<close> and \<^verbatim>\<open>randUpdate\<close> draw from the
  generator; they count as one call each.\<close>

record Container =
  putInBC :: "dVec \<Rightarrow> dVec"
  putInside :: "dVec \<Rightarrow> dVec"
  volume :: real
  side :: "real list"
  periodic :: "nat list"
  randPosition :: "nat \<Rightarrow> dVec"
  randUpdate :: "nat \<Rightarrow> dVec \<Rightarrow> dVec"


section \<open>The classical Monte Carlo variant (\<^verbatim>\<open>cmc.cpp\<close>)\<close>

record cmc_env =
  externalV :: "dVec \<Rightarrow> real"
  interactionV :: "dVec \<Rightarrow> real"
  cmc_random :: MTRand
  cmc_boxPtr :: Container
  cmc_mu :: real
  cmc_T :: real
  cmc_dBWavelength :: real
  cmc_NDIM :: nat

text \<open>The members of \<^verbatim>\<open>ClassicalMonteCarlo\<close>.  \<open>config\<close> is the allocated array (its
  length is \<^verbatim>\<open>config.extent(firstDim)\<close>); only its first \<open>numParticles\<close> entries are
  particles.\<close>

record ClassicalMonteCarlo =
  config :: "dVec list"
  numParticles :: int
  z :: real
  energy :: real
  numUpdateTotal :: int
  numUpdateAccept :: int
  numInsertTotal :: int
  numInsertAccept :: int
  numDeleteTotal :: int
  numDeleteAccept :: int
  cmc_rng :: nat

text \<open>An array is read and written inside its extent only: an access at any other index
  is the error value of the model (the array of the program has no bounds check, and what
  such an access does is undefined).  \<^verbatim>\<open>random.randInt(n)\<close> converts its bound to the unsigned
  type of the generator and returns an integer, which the moves store in an \<^verbatim>\<open>int\<close>; the
  generator is a parameter, and its value at the bound the code writes stands for what it
  returns for the converted bound.\<close>

datatype cmc_error = ConfigIndex int

definition config_at :: "dVec list \<Rightarrow> int \<Rightarrow> cmc_error + dVec" where
  "config_at cfg p =
     (if 0 \<le> p \<and> p < int (length cfg) then Inr (cfg ! nat p) else Inl (ConfigIndex p))"

definition config_set :: "dVec list \<Rightarrow> int \<Rightarrow> dVec \<Rightarrow> cmc_error + dVec list" where
  "config_set cfg p v =
     (if 0 \<le> p \<and> p < int (length cfg) then Inr (cfg[nat p := v]) else Inl (ConfigIndex p))"

text \<open>The loop \<^verbatim>\<open>for (int p2 = 0; p2 < numParticles; p2++)\<close> that adds the interaction
  of a position with the particles.  \<open>skip = Some p\<close> is the test \<^verbatim>\<open>if (p != p2)\<close> of
  \<^verbatim>\<open>updateMove\<close> and \<^verbatim>\<open>deleteMove\<close>; \<^verbatim>\<open>insertMove\<close> has no such test (\<open>skip = None\<close>).
  The fifth argument is \<open>p2\<close>, the sixth the number of iterations left.\<close>

fun interactionLoop ::
  "cmc_env \<Rightarrow> dVec list \<Rightarrow> dVec \<Rightarrow> int option \<Rightarrow> int \<Rightarrow> nat \<Rightarrow> real \<Rightarrow> cmc_error + real" where
  "interactionLoop env cfg pos skip p2 0 E = Inr E"
| "interactionLoop env cfg pos skip p2 (Suc n) E =
     (if skip = Some p2 then interactionLoop env cfg pos skip (p2 + 1) n E
      else (case config_at cfg p2 of
              Inl e \<Rightarrow> Inl e
            | Inr q \<Rightarrow>
                interactionLoop env cfg pos skip (p2 + 1) n
                  (E + interactionV env (putInside (cmc_boxPtr env) (vsub pos q)))))"

definition particleEnergy ::
  "cmc_env \<Rightarrow> ClassicalMonteCarlo \<Rightarrow> dVec \<Rightarrow> int option \<Rightarrow> cmc_error + real" where
  "particleEnergy env s pos skip =
     interactionLoop env (config s) pos skip 0 (nat (numParticles s)) (externalV env pos)"

text \<open>\<^verbatim>\<open>getTotalEnergy\<close>: the outer loop over \<open>part1\<close>, the inner over \<open>part2 > part1\<close>.\<close>

fun totalEnergyLoop ::
  "cmc_env \<Rightarrow> ClassicalMonteCarlo \<Rightarrow> int \<Rightarrow> nat \<Rightarrow> real \<Rightarrow> cmc_error + real" where
  "totalEnergyLoop env s part1 0 E = Inr E"
| "totalEnergyLoop env s part1 (Suc n) E =
     (case config_at (config s) part1 of
        Inl e \<Rightarrow> Inl e
      | Inr q \<Rightarrow>
          (case interactionLoop env (config s) q None (part1 + 1) n (E + externalV env q) of
             Inl e \<Rightarrow> Inl e
           | Inr E' \<Rightarrow> totalEnergyLoop env s (part1 + 1) n E'))"

definition getTotalEnergy :: "cmc_env \<Rightarrow> ClassicalMonteCarlo \<Rightarrow> cmc_error + real" where
  "getTotalEnergy env s = totalEnergyLoop env s 0 (nat (numParticles s)) 0"

text \<open>The constructor: the number of particles, the fugacity, the initial energy.  (The
  counters that the constructor leaves uninitialised start at zero here, as does the count
  of the calls of the generator.)\<close>

definition cmc_construct :: "cmc_env \<Rightarrow> dVec list \<Rightarrow> cmc_error + ClassicalMonteCarlo" where
  "cmc_construct env initialPos =
     (let s = \<lparr> config = initialPos,
                numParticles = int (length initialPos),
                z = exp (cmc_mu env / cmc_T env) / (cmc_dBWavelength env) ^ (cmc_NDIM env),
                energy = 0,
                numUpdateTotal = 0, numUpdateAccept = 0,
                numInsertTotal = 0, numInsertAccept = 0,
                numDeleteTotal = 0, numDeleteAccept = 0,
                cmc_rng = 0 \<rparr>
      in (case getTotalEnergy env s of
            Inl e \<Rightarrow> Inl e
          | Inr E \<Rightarrow> Inr (s\<lparr>energy := E\<rparr>)))"

definition ebind :: "'e + 'a \<Rightarrow> ('a \<Rightarrow> 'e + 'b) \<Rightarrow> 'e + 'b" where
  "ebind m f = (case m of Inl e \<Rightarrow> Inl e | Inr a \<Rightarrow> f a)"

definition updateMove :: "cmc_env \<Rightarrow> ClassicalMonteCarlo \<Rightarrow> cmc_error + ClassicalMonteCarlo" where
  "updateMove env s =
     (let s1 = s\<lparr>numUpdateTotal := numUpdateTotal s + 1\<rparr> in
      (let p = randInt (cmc_random env) (cmc_rng s1) (numParticles s1 - 1);
           s2 = s1\<lparr>cmc_rng := cmc_rng s1 + 1\<rparr> in
      ebind (config_at (config s2) p) (\<lambda>oldPos.
      ebind (particleEnergy env s2 oldPos (Some p)) (\<lambda>oldE.
      (let newPos = randUpdate (cmc_boxPtr env) (cmc_rng s2) oldPos in
      ebind (config_set (config s2) p newPos) (\<lambda>cfg'.
      (let s3 = s2\<lparr>config := cfg', cmc_rng := cmc_rng s2 + 1\<rparr> in
      ebind (particleEnergy env s3 newPos (Some p)) (\<lambda>newE.
      (let deltaE = newE - oldE;
           u = rand (cmc_random env) (cmc_rng s3);
           s4 = s3\<lparr>cmc_rng := cmc_rng s3 + 1\<rparr>
       in if u < exp (- deltaE / cmc_T env)
          then Inr (s4\<lparr>energy := energy s4 + deltaE,
                         numUpdateAccept := numUpdateAccept s4 + 1\<rparr>)
          else ebind (config_set (config s4) p oldPos) (\<lambda>cfg''.
                 Inr (s4\<lparr>config := cfg''\<rparr>)))))))))))"

text \<open>\<^verbatim>\<open>resizeAndPreserve(n)\<close>: the first entries are kept, the new ones are not
  initialised (the empty vector stands for such an entry).\<close>

definition resizeAndPreserve :: "dVec list \<Rightarrow> int \<Rightarrow> dVec list" where
  "resizeAndPreserve cfg n = take (nat n) cfg @ replicate (nat n - length cfg) []"

definition insertMove :: "cmc_env \<Rightarrow> ClassicalMonteCarlo \<Rightarrow> cmc_error + ClassicalMonteCarlo" where
  "insertMove env s =
     (let s1 = s\<lparr>numInsertTotal := numInsertTotal s + 1\<rparr>;
          newPos = randPosition (cmc_boxPtr env) (cmc_rng s1);
          s2 = s1\<lparr>cmc_rng := cmc_rng s1 + 1\<rparr> in
      ebind (particleEnergy env s2 newPos None) (\<lambda>newE.
      (let factor = z s2 * volume (cmc_boxPtr env) / real_of_int (numParticles s2 + 1);
           u = rand (cmc_random env) (cmc_rng s2);
           s3 = s2\<lparr>cmc_rng := cmc_rng s2 + 1\<rparr>
       in if u < factor * exp (- newE / cmc_T env)
          then (let cfg1 = (if int (length (config s3)) < numParticles s3 + 1
                            then resizeAndPreserve (config s3) (numParticles s3 + 1)
                            else config s3)
                in ebind (config_set cfg1 (numParticles s3) newPos) (\<lambda>cfg2.
                     Inr (s3\<lparr>energy := energy s3 + newE, config := cfg2,
                             numParticles := numParticles s3 + 1,
                             numInsertAccept := numInsertAccept s3 + 1\<rparr>)))
          else Inr s3)))"

definition deleteMove :: "cmc_env \<Rightarrow> ClassicalMonteCarlo \<Rightarrow> cmc_error + ClassicalMonteCarlo" where
  "deleteMove env s =
     (let s1 = s\<lparr>numDeleteTotal := numDeleteTotal s + 1\<rparr> in
      (let p = randInt (cmc_random env) (cmc_rng s1) (numParticles s1 - 1);
           s2 = s1\<lparr>cmc_rng := cmc_rng s1 + 1\<rparr> in
      ebind (config_at (config s2) p) (\<lambda>oldPos.
      ebind (particleEnergy env s2 oldPos (Some p)) (\<lambda>oldE.
      (let factor = real_of_int (numParticles s2) / (z s2 * volume (cmc_boxPtr env));
           u = rand (cmc_random env) (cmc_rng s2);
           s3 = s2\<lparr>cmc_rng := cmc_rng s2 + 1\<rparr>
       in if u < factor * exp (oldE / cmc_T env)
          then ebind (config_at (config s3) (numParticles s3 - 1)) (\<lambda>lastPos.
               ebind (config_set (config s3) p lastPos) (\<lambda>cfg'.
                 Inr (s3\<lparr>energy := energy s3 - oldE, config := cfg',
                         numParticles := numParticles s3 - 1,
                         numDeleteAccept := numDeleteAccept s3 + 1\<rparr>)))
          else Inr s3)))))"

text \<open>The energy of one particle as the specification words it: the external potential
  at its position plus the pair potential with every other particle, the separation put
  inside the box.\<close>

definition pairPlusExternal :: "cmc_env \<Rightarrow> dVec list \<Rightarrow> dVec \<Rightarrow> nat set \<Rightarrow> real" where
  "pairPlusExternal env cfg pos others =
     externalV env pos
       + (\<Sum>p2\<in>others. interactionV env (putInside (cmc_boxPtr env) (vsub pos (cfg ! p2))))"

text \<open>The three moves, and a sequence of them in any order, as \<^verbatim>\<open>run\<close> calls them.\<close>

datatype cmc_move = UpdateMove | InsertMove | DeleteMove

fun cmc_apply :: "cmc_env \<Rightarrow> cmc_move \<Rightarrow> ClassicalMonteCarlo \<Rightarrow> cmc_error + ClassicalMonteCarlo" where
  "cmc_apply env UpdateMove s = updateMove env s"
| "cmc_apply env InsertMove s = insertMove env s"
| "cmc_apply env DeleteMove s = deleteMove env s"

fun cmc_moves :: "cmc_env \<Rightarrow> cmc_move list \<Rightarrow> ClassicalMonteCarlo \<Rightarrow> cmc_error + ClassicalMonteCarlo" where
  "cmc_moves env [] s = Inr s"
| "cmc_moves env (mv # mvs) s = ebind (cmc_apply env mv s) (cmc_moves env mvs)"

text \<open>The system the constructor has built from the initial positions, after a sequence of
  moves.\<close>

definition cmc_simulation :: "cmc_env \<Rightarrow> dVec list \<Rightarrow> cmc_move list \<Rightarrow> cmc_error + ClassicalMonteCarlo" where
  "cmc_simulation env initialPos mvs = ebind (cmc_construct env initialPos) (cmc_moves env mvs)"

section \<open>The move engine (\<^verbatim>\<open>move.cpp\<close>): data\<close>

text \<open>A bead locator (\<^verbatim>\<open>TinyVector<int,2>\<close>): the time slice and the bead number on that
  slice.  \<^verbatim>\<open>XXX\<close> is the macro \<open>-1\<close>; a locator is compared with it, and set to it,
  component by component.\<close>

type_synonym beadLocator = "int \<times> int"

definition XXX :: beadLocator where
  "XXX = (- 1, - 1)"

text \<open>\<^verbatim>\<open>EPS\<close> and \<^verbatim>\<open>ipow\<close> of \<^verbatim>\<open>common.h\<close>, and the number of levels
  \<^verbatim>\<open>int(ceil(log(1.0*n) / log(2.0) - EPS))\<close> that the worm moves compute.\<close>

definition EPS :: real where
  "EPS = 1 / 10 ^ 7"

definition ipow :: "int \<Rightarrow> int \<Rightarrow> int" where
  "ipow base pw = \<lfloor>(real_of_int base) powr (real_of_int pw) + EPS\<rfloor>"

definition levelsOf :: "int \<Rightarrow> int" where
  "levelsOf n = \<lceil>ln (real_of_int n) / ln 2 - EPS\<rceil>"

text \<open>The constants \<^verbatim>\<open>constants()->...\<close>.  \<^verbatim>\<open>path.numTimeSlices\<close> is the same number as
  \<^verbatim>\<open>constants()->numTimeSlices()\<close>.  \<^verbatim>\<open>NDIM\<close> is the compile time dimension.\<close>

record Constants =
  Mbar :: int
  numTimeSlices :: int
  const_b :: int
  const_C :: real
  const_mu :: real
  const_tau :: real
  const_lambda :: real
  const_Delta :: real
  attemptProb :: "string \<Rightarrow> real"
  NDIM :: nat

text \<open>One invocation of one of the two helpers of a move; the state keeps the list of
  the invocations made so far (a ghost field: the program has no such member).\<close>

datatype helper_call = KeepMove | UndoMove

text \<open>
  Modelled from the spec: the path store and the worm (\<^verbatim>\<open>path.h\<close> and \<^verbatim>\<open>worm.h\<close> are not
  among the sources), held in one state record with the time step shift of the action,
  the generator, and the members of the move object.

  \<^item> The path store holds, for every locator, a position (\<open>beads\<close>), a forward and a
    backward link (\<open>nextLink\<close>, \<open>prevLink\<close>) and the bead-on bit (\<open>beadOn\<close>), and for every
    slice the number of live beads (\<open>numBeadsAtSlice\<close>); the live beads of slice \<open>t\<close> are
    the locators \<open>(t, 0), \<dots>, (t, numBeadsAtSlice t - 1)\<close>.
  \<^item> The worm: head, tail, length, gap, the two special beads and the diagonality flag.
  \<^item> \<open>fullBeadList\<close> is the list of the lookup table, cut at \<^verbatim>\<open>fullNumBeads\<close>.
  \<^item> Arrays of the move object (\<^verbatim>\<open>originalPos\<close>, \<^verbatim>\<open>newPos\<close>, \<^verbatim>\<open>include\<close>, the counters by
    level) are functions of the index.  The counters are unbounded naturals.
\<close>

record State =
  beads :: "beadLocator \<Rightarrow> dVec"
  nextLink :: "beadLocator \<Rightarrow> beadLocator"
  prevLink :: "beadLocator \<Rightarrow> beadLocator"
  numBeadsAtSlice :: "int \<Rightarrow> int"
  beadOn :: "beadLocator \<Rightarrow> bool"
  worm_head :: beadLocator
  worm_tail :: beadLocator
  worm_length :: int
  worm_gap :: int
  special1 :: beadLocator
  special2 :: beadLocator
  isConfigDiagonal :: bool
  fullBeadList :: "beadLocator list"
  shift :: int
  rng :: nat
  success :: bool
  numAccepted :: nat
  numAttempted :: nat
  totAccepted :: nat
  totAttempted :: nat
  numAcceptedLevel :: "int \<Rightarrow> nat"
  numAttemptedLevel :: "int \<Rightarrow> nat"
  numLevels :: int
  originalPos :: "int \<Rightarrow> dVec"
  newPos :: "int \<Rightarrow> dVec"
  include_flag :: "int \<Rightarrow> bool"
  startBead :: beadLocator
  endBead :: beadLocator
  headBead :: beadLocator
  tailBead :: beadLocator
  pivot :: beadLocator
  swapBead :: beadLocator
  nextSwap :: beadLocator
  prevSwap :: beadLocator
  cumulant :: "real list"
  calls :: "helper_call list"

text \<open>The action (\<^verbatim>\<open>actionPtr\<close>, not among the sources): its queries read the path and
  the shift, so they are functions of the state.  \<open>potentialAction1\<close> is the overload with
  one bead, \<open>potentialAction\<close> the one with two.\<close>

record Action =
  local_action :: bool
  potentialAction :: "State \<Rightarrow> beadLocator \<Rightarrow> beadLocator \<Rightarrow> real"
  potentialAction1 :: "State \<Rightarrow> beadLocator \<Rightarrow> real"
  barePotentialAction :: "State \<Rightarrow> beadLocator \<Rightarrow> real"
  potentialActionCorrection :: "State \<Rightarrow> beadLocator \<Rightarrow> beadLocator \<Rightarrow> real"
  rho0 :: "State \<Rightarrow> beadLocator \<Rightarrow> beadLocator \<Rightarrow> int \<Rightarrow> real"
  ensembleWeight :: "int \<Rightarrow> real"

text \<open>The environment of a move: constants, container, generator, action, and the queries
  of the worm, of the path and of the lookup table that the moves call and whose code is
  not among the sources (\<open>tooCostly2\<close> is \<^verbatim>\<open>worm.tooCostly(sep,gap)\<close>, \<open>tooCostly0\<close> is
  \<^verbatim>\<open>worm.tooCostly()\<close>, \<open>wormLength\<close> the length that \<^verbatim>\<open>worm.update\<close> computes,
  \<open>fullInteractionList\<close> the list that \<^verbatim>\<open>lookup.updateFullInteractionList\<close> builds).\<close>

record Env =
  constants :: Constants
  boxPtr :: Container
  random :: MTRand
  actionPtr :: Action
  foundBead :: "State \<Rightarrow> beadLocator \<Rightarrow> bool"
  tooCostly2 :: "State \<Rightarrow> dVec \<Rightarrow> int \<Rightarrow> bool"
  tooCostly0 :: "State \<Rightarrow> bool"
  getNumBeadsOn :: "State \<Rightarrow> int"
  getTrueNumParticles :: "State \<Rightarrow> int"
  wormLength :: "State \<Rightarrow> beadLocator \<Rightarrow> beadLocator \<Rightarrow> int"
  fullInteractionList :: "State \<Rightarrow> beadLocator \<Rightarrow> int \<Rightarrow> beadLocator list"
  gridNeighbors :: "State \<Rightarrow> beadLocator \<Rightarrow> beadLocator \<Rightarrow> bool"
  gridShare :: "State \<Rightarrow> beadLocator \<Rightarrow> beadLocator \<Rightarrow> bool"

subsection \<open>The generator\<close>

definition draw_rand :: "Env \<Rightarrow> State \<Rightarrow> real \<times> State" where
  "draw_rand env s = (rand (random env) (rng s), s\<lparr>rng := rng s + 1\<rparr>)"

definition draw_randInt :: "Env \<Rightarrow> State \<Rightarrow> int \<Rightarrow> int \<times> State" where
  "draw_randInt env s n = (randInt (random env) (rng s) n, s\<lparr>rng := rng s + 1\<rparr>)"

definition draw_randNorm :: "Env \<Rightarrow> State \<Rightarrow> real \<Rightarrow> real \<Rightarrow> real \<times> State" where
  "draw_randNorm env s m sd = (randNorm (random env) (rng s) m sd, s\<lparr>rng := rng s + 1\<rparr>)"

definition draw_randPosition :: "Env \<Rightarrow> State \<Rightarrow> dVec \<times> State" where
  "draw_randPosition env s = (randPosition (boxPtr env) (rng s), s\<lparr>rng := rng s + 1\<rparr>)"

subsection \<open>The path store\<close>

text \<open>Modelled from the spec: \<^verbatim>\<open>path.next(bead,n)\<close> and \<^verbatim>\<open>path.prev(bead,n)\<close> follow the
  link \<open>n\<close> times; \<^verbatim>\<open>path.getSeparation(a,b)\<close> is the minimum image of the difference of
  the two positions; \<^verbatim>\<open>path.updateBead\<close> stores a position.\<close>

fun nextN :: "State \<Rightarrow> beadLocator \<Rightarrow> nat \<Rightarrow> beadLocator" where
  "nextN s bd 0 = bd"
| "nextN s bd (Suc n) = nextN s (nextLink s bd) n"

fun prevN :: "State \<Rightarrow> beadLocator \<Rightarrow> nat \<Rightarrow> beadLocator" where
  "prevN s bd 0 = bd"
| "prevN s bd (Suc n) = prevN s (prevLink s bd) n"

definition getSeparation :: "Env \<Rightarrow> State \<Rightarrow> beadLocator \<Rightarrow> beadLocator \<Rightarrow> dVec" where
  "getSeparation env s b1 b2 = putInBC (boxPtr env) (vsub (beads s b1) (beads s b2))"

definition updateBead :: "State \<Rightarrow> beadLocator \<Rightarrow> dVec \<Rightarrow> State" where
  "updateBead s bd pos = s\<lparr>beads := (beads s)(bd := pos)\<rparr>"

text \<open>Modelled from the spec: a bead is created at the end of its slice
  (\<^verbatim>\<open>add_bead(slice, pos)\<close>), with no links; \<^verbatim>\<open>add_next_bead\<close> and \<^verbatim>\<open>add_prev_bead\<close> create
  it on the neighbouring slice (modulo the number of slices) and link it to the given bead.\<close>

definition addBead :: "State \<Rightarrow> int \<Rightarrow> dVec \<Rightarrow> beadLocator \<times> State" where
  "addBead s slice pos =
     (let bd = (slice, numBeadsAtSlice s slice)
      in (bd, s\<lparr>beads := (beads s)(bd := pos),
                nextLink := (nextLink s)(bd := XXX),
                prevLink := (prevLink s)(bd := XXX),
                beadOn := (beadOn s)(bd := True),
                numBeadsAtSlice := (numBeadsAtSlice s)(slice := numBeadsAtSlice s slice + 1)\<rparr>))"

definition addNextBead :: "Env \<Rightarrow> State \<Rightarrow> beadLocator \<Rightarrow> dVec \<Rightarrow> beadLocator \<times> State" where
  "addNextBead env s prevIndex pos =
     (let slice = (if fst prevIndex + 1 \<ge> numTimeSlices (constants env)
                   then fst prevIndex + 1 - numTimeSlices (constants env)
                   else fst prevIndex + 1);
          (bd, s1) = addBead s slice pos
      in (bd, s1\<lparr>nextLink := (nextLink s1)(prevIndex := bd),
                 prevLink := (prevLink s1)(bd := prevIndex)\<rparr>))"

definition addPrevBead :: "Env \<Rightarrow> State \<Rightarrow> beadLocator \<Rightarrow> dVec \<Rightarrow> beadLocator \<times> State" where
  "addPrevBead env s nextIndex pos =
     (let slice = (if fst nextIndex - 1 < 0
                   then fst nextIndex - 1 + numTimeSlices (constants env)
                   else fst nextIndex - 1);
          (bd, s1) = addBead s slice pos
      in (bd, s1\<lparr>prevLink := (prevLink s1)(nextIndex := bd),
                 nextLink := (nextLink s1)(bd := nextIndex)\<rparr>))"

text \<open>Modelled from the spec: deletion compacts within a slice.  The neighbours of the
  deleted bead lose their link to it; the last bead of the slice moves into the deleted
  slot (position, links, the links of its neighbours, and the worm's locators that name
  it); the last slot is switched off.\<close>

definition relocate :: "beadLocator \<Rightarrow> beadLocator \<Rightarrow> beadLocator \<Rightarrow> beadLocator" where
  "relocate lastBead bd x = (if x = lastBead then bd else x)"

definition unlinkBead :: "State \<Rightarrow> beadLocator \<Rightarrow> State" where
  "unlinkBead s bd =
     (let s1 = (if nextLink s bd \<noteq> XXX
                then s\<lparr>prevLink := (prevLink s)(nextLink s bd := XXX)\<rparr> else s)
      in if prevLink s1 bd \<noteq> XXX
         then s1\<lparr>nextLink := (nextLink s1)(prevLink s1 bd := XXX)\<rparr> else s1)"

definition relinkNeighbours :: "State \<Rightarrow> beadLocator \<Rightarrow> beadLocator \<Rightarrow> State" where
  "relinkNeighbours s lastBead bd =
     (let s1 = (if nextLink s lastBead \<noteq> XXX
                then s\<lparr>prevLink := (prevLink s)(nextLink s lastBead := bd)\<rparr> else s)
      in if prevLink s1 lastBead \<noteq> XXX
         then s1\<lparr>nextLink := (nextLink s1)(prevLink s1 lastBead := bd)\<rparr> else s1)"

definition moveLastBead :: "State \<Rightarrow> beadLocator \<Rightarrow> beadLocator \<Rightarrow> State" where
  "moveLastBead s lastBead bd =
     (let s1 = s\<lparr>beads := (beads s)(bd := beads s lastBead),
                 prevLink := (prevLink s)(bd := prevLink s lastBead),
                 nextLink := (nextLink s)(bd := nextLink s lastBead)\<rparr>;
          s2 = relinkNeighbours s1 lastBead bd
      in s2\<lparr>worm_head := relocate lastBead bd (worm_head s2),
             worm_tail := relocate lastBead bd (worm_tail s2),
             special1 := relocate lastBead bd (special1 s2),
             special2 := relocate lastBead bd (special2 s2)\<rparr>)"

definition delBead :: "State \<Rightarrow> beadLocator \<Rightarrow> State" where
  "delBead s bd =
     (let n = numBeadsAtSlice s (fst bd) - 1;
          lastBead = (fst bd, n);
          s1 = s\<lparr>numBeadsAtSlice := (numBeadsAtSlice s)(fst bd := n)\<rparr>;
          s2 = unlinkBead s1 bd;
          s3 = (if snd bd < n then moveLastBead s2 lastBead bd else s2)
      in s3\<lparr>nextLink := (nextLink s3)(lastBead := XXX),
             prevLink := (prevLink s3)(lastBead := XXX),
             beadOn := (beadOn s3)(lastBead := False)\<rparr>)"

definition delBeadGetNext :: "State \<Rightarrow> beadLocator \<Rightarrow> beadLocator \<times> State" where
  "delBeadGetNext s bd = (nextLink s bd, delBead s bd)"

definition delBeadGetPrev :: "State \<Rightarrow> beadLocator \<Rightarrow> beadLocator \<times> State" where
  "delBeadGetPrev s bd = (prevLink s bd, delBead s bd)"

subsection \<open>The worm\<close>

text \<open>Modelled from the spec: \<^verbatim>\<open>worm.reset()\<close> forgets the worm; \<^verbatim>\<open>worm.update(path,head,tail)\<close>
  records the new end points, the gap \<open>(tail.slice - head.slice) mod M\<close> and the length,
  ends the links at the head and at the tail, and clears the special beads.\<close>

definition worm_reset :: "State \<Rightarrow> State" where
  "worm_reset s =
     s\<lparr>worm_head := XXX, worm_tail := XXX, special1 := XXX, special2 := XXX,
       worm_length := 0, worm_gap := 0\<rparr>"

definition worm_update :: "Env \<Rightarrow> State \<Rightarrow> beadLocator \<Rightarrow> beadLocator \<Rightarrow> State" where
  "worm_update env s newHead newTail =
     (let g = fst newTail - fst newHead;
          g' = (if g < 0 then g + numTimeSlices (constants env) else g)
      in s\<lparr>worm_head := newHead, worm_tail := newTail, worm_gap := g',
            worm_length := wormLength env s newHead newTail,
            nextLink := (nextLink s)(newHead := XXX),
            prevLink := (prevLink s)(newTail := XXX),
            special1 := XXX, special2 := XXX\<rparr>)"

subsection \<open>The base class\<close>

text \<open>\<^verbatim>\<open>sqrtLambdaTau\<close> and \<^verbatim>\<open>sqrt2LambdaTau\<close>, as the constructor of \<^verbatim>\<open>MoveBase\<close> sets them.\<close>

definition sqrtLambdaTau :: "Env \<Rightarrow> real" where
  "sqrtLambdaTau env = sqrt (const_lambda (constants env) * const_tau (constants env))"

definition sqrt2LambdaTau :: "Env \<Rightarrow> real" where
  "sqrt2LambdaTau env = sqrt 2 * sqrtLambdaTau env"

text \<open>\<^verbatim>\<open>MoveBase::keepMove\<close>.  (\<^verbatim>\<open>checkMove\<close> and \<^verbatim>\<open>printMoveState\<close> do nothing unless the
  code is compiled for debugging; they are left out.)\<close>

definition MoveBase_keepMove :: "State \<Rightarrow> State" where
  "MoveBase_keepMove s =
     s\<lparr>numAccepted := numAccepted s + 1, totAccepted := totAccepted s + 1,
       shift := 1, success := True, calls := calls s @ [KeepMove]\<rparr>"

text \<open>The loop \<^verbatim>\<open>for (int i = 0; i < NDIM; i++) newRanPos[i] = random.randNorm(newRanPos[i],sd)\<close>
  over the components of a vector.\<close>

fun randNormLoop :: "Env \<Rightarrow> real \<Rightarrow> dVec \<Rightarrow> State \<Rightarrow> dVec \<times> State" where
  "randNormLoop env sd [] s = ([], s)"
| "randNormLoop env sd (m # ms) s =
     (let (x, s1) = draw_randNorm env s m sd;
          (xs, s2) = randNormLoop env sd ms s1
      in (x # xs, s2))"

definition newStagingPosition ::
  "Env \<Rightarrow> State \<Rightarrow> beadLocator \<Rightarrow> beadLocator \<Rightarrow> int \<Rightarrow> int \<Rightarrow> dVec \<times> State" where
  "newStagingPosition env s neighborIndex endIndex stageLength k =
     (let f1 = 1 * real_of_int (stageLength - k - 1);
          f2 = 1 / (1 * real_of_int (stageLength - k));
          sqrtLambdaKTau = sqrt2LambdaTau env * sqrt (f1 * f2);
          neighborPos = beads s neighborIndex;
          newRanPos = vsub (beads s endIndex) neighborPos;
          newRanPos = putInBC (boxPtr env) newRanPos;
          newRanPos = vscale f2 newRanPos;
          newRanPos = vadd newRanPos neighborPos;
          (newRanPos, s1) = randNormLoop env sqrtLambdaKTau newRanPos s
      in (putInside (boxPtr env) newRanPos, s1))"

definition newFreeParticlePosition :: "Env \<Rightarrow> State \<Rightarrow> beadLocator \<Rightarrow> dVec \<times> State" where
  "newFreeParticlePosition env s neighborIndex =
     (let (newRanPos, s1) = randNormLoop env (sqrt2LambdaTau env) (beads s neighborIndex) s
      in (putInside (boxPtr env) newRanPos, s1))"

definition newBisectionPosition :: "Env \<Rightarrow> State \<Rightarrow> beadLocator \<Rightarrow> int \<Rightarrow> dVec \<times> State" where
  "newBisectionPosition env s beadIndex lshift =
     (let delta = sqrtLambdaTau env * sqrt (1 * real_of_int lshift);
          nBeadIndex = prevN s beadIndex (nat lshift);
          newRanPos = getSeparation env s (nextN s beadIndex (nat lshift)) nBeadIndex;
          newRanPos = vscale (1 / 2) newRanPos;
          newRanPos = vadd newRanPos (beads s nBeadIndex);
          (newRanPos, s1) = randNormLoop env delta newRanPos s
      in (putInside (boxPtr env) newRanPos, s1))"

section \<open>The move engine: the moves\<close>

text \<open>
  Every \<^verbatim>\<open>attemptMove\<close> takes the environment, the fuel of its loops and the state, and
  returns the boolean the C++ function returns together with the state it leaves.
  \<^verbatim>\<open>keepMove\<close> and \<^verbatim>\<open>undoMove\<close> append themselves to \<open>calls\<close>.
\<close>

text \<open>C++ division of integers truncates towards zero.\<close>

definition cdiv :: "int \<Rightarrow> int \<Rightarrow> int" where
  "cdiv a c = sgn a * sgn c * (\<bar>a\<bar> div \<bar>c\<bar>)"

subsection \<open>\<^verbatim>\<open>CenterOfMassMove\<close>\<close>

text \<open>The loop that measures the worldline:
  \<^verbatim>\<open>do { ++wlLength; beadIndex = path.next(beadIndex); } while (!all(beadIndex==path.next(endBead)))\<close>.\<close>

fun CenterOfMass_wlLength :: "nat \<Rightarrow> State \<Rightarrow> beadLocator \<Rightarrow> int \<Rightarrow> int option" where
  "CenterOfMass_wlLength 0 s beadIndex wlLength = None"
| "CenterOfMass_wlLength (Suc fuel) s beadIndex wlLength =
     (let wlLength' = wlLength + 1;
          beadIndex' = nextLink s beadIndex
      in if beadIndex' \<noteq> nextLink s (endBead s)
         then CenterOfMass_wlLength fuel s beadIndex' wlLength'
         else Some wlLength')"

text \<open>The random shift: \<^verbatim>\<open>originalPos(0)[i] = constants()->Delta()*(-0.5 + random.rand())\<close>
  for the \<^verbatim>\<open>NDIM\<close> components.\<close>

fun CenterOfMass_randomShift :: "Env \<Rightarrow> nat \<Rightarrow> State \<Rightarrow> dVec \<times> State" where
  "CenterOfMass_randomShift env 0 s = ([], s)"
| "CenterOfMass_randomShift env (Suc n) s =
     (let (u, s1) = draw_rand env s;
          (xs, s2) = CenterOfMass_randomShift env n s1
      in (const_Delta (constants env) * (- 0.5 + u) # xs, s2))"

definition outsideBox :: "Env \<Rightarrow> dVec \<Rightarrow> bool" where
  "outsideBox env pos =
     list_ex (\<lambda>(x, L). x < - 0.5 * L \<or> x \<ge> 0.5 * L) (zip pos (side (boxPtr env)))"

text \<open>The test of the shifted beads against the walls; \<open>Some True\<close>: a bead leaves the box.\<close>

fun CenterOfMass_leavesBox :: "Env \<Rightarrow> nat \<Rightarrow> State \<Rightarrow> beadLocator \<Rightarrow> bool option" where
  "CenterOfMass_leavesBox env 0 s beadIndex = None"
| "CenterOfMass_leavesBox env (Suc fuel) s beadIndex =
     (let pos = putInBC (boxPtr env) (vadd (beads s beadIndex) (originalPos s 0))
      in if outsideBox env pos then Some True
         else (let beadIndex' = nextLink s beadIndex
               in if beadIndex' \<noteq> nextLink s (endBead s)
                  then CenterOfMass_leavesBox env fuel s beadIndex'
                  else Some False))"

text \<open>The loop that shifts the beads of the worldline.\<close>

fun CenterOfMass_shiftLoop :: "Env \<Rightarrow> nat \<Rightarrow> State \<Rightarrow> beadLocator \<Rightarrow> State option" where
  "CenterOfMass_shiftLoop env 0 s beadIndex = None"
| "CenterOfMass_shiftLoop env (Suc fuel) s beadIndex =
     (let pos = putInBC (boxPtr env) (vadd (beads s beadIndex) (originalPos s 0));
          s1 = updateBead s beadIndex pos;
          beadIndex' = nextLink s1 beadIndex
      in if beadIndex' \<noteq> nextLink s1 (endBead s1)
         then CenterOfMass_shiftLoop env fuel s1 beadIndex'
         else Some s1)"

fun CenterOfMass_undoLoop :: "Env \<Rightarrow> nat \<Rightarrow> State \<Rightarrow> beadLocator \<Rightarrow> State option" where
  "CenterOfMass_undoLoop env 0 s beadIndex = None"
| "CenterOfMass_undoLoop env (Suc fuel) s beadIndex =
     (let pos = putInBC (boxPtr env) (vsub (beads s beadIndex) (originalPos s 0));
          s1 = updateBead s beadIndex pos;
          beadIndex' = nextLink s1 beadIndex
      in if beadIndex' \<noteq> nextLink s1 (endBead s1)
         then CenterOfMass_undoLoop env fuel s1 beadIndex'
         else Some s1)"

definition CenterOfMass_undoMove :: "Env \<Rightarrow> nat \<Rightarrow> State \<Rightarrow> State option" where
  "CenterOfMass_undoMove env fuel s =
     do { s1 \<leftarrow> CenterOfMass_undoLoop env fuel s (startBead s);
          Some (s1\<lparr>success := False, calls := calls s1 @ [UndoMove]\<rparr>) }"

text \<open>The part of \<^verbatim>\<open>attemptMove\<close> after the worldline has been chosen.\<close>

definition CenterOfMass_propose :: "Env \<Rightarrow> nat \<Rightarrow> State \<Rightarrow> (bool \<times> State) option" where
  "CenterOfMass_propose env fuel s =
     (let s1 = s\<lparr>numAttempted := numAttempted s + 1, totAttempted := totAttempted s + 1\<rparr>;
          (d, s2) = CenterOfMass_randomShift env (NDIM (constants env)) s1;
          s3 = s2\<lparr>originalPos := (originalPos s2)(0 := d)\<rparr>
      in do {
           leaves \<leftarrow> (if int (sum_list (periodic (boxPtr env))) \<noteq> int (NDIM (constants env))
                      then CenterOfMass_leavesBox env fuel s3 (startBead s3)
                      else Some False);
           if leaves then Some (False, s3)
           else (let oldAction = potentialAction (actionPtr env) s3 (startBead s3) (endBead s3)
                 in do {
                      s4 \<leftarrow> CenterOfMass_shiftLoop env fuel s3 (startBead s3);
                      (let newAction = potentialAction (actionPtr env) s4 (startBead s4) (endBead s4);
                           (u, s5) = draw_rand env s4
                       in if u < exp (- (newAction - oldAction))
                          then (let s6 = MoveBase_keepMove s5 in Some (success s6, s6))
                          else do { s6 \<leftarrow> CenterOfMass_undoMove env fuel s5;
                                    Some (success s6, s6) }) }) })"

definition CenterOfMass_attemptMove :: "Env \<Rightarrow> nat \<Rightarrow> State \<Rightarrow> (bool \<times> State) option" where
  "CenterOfMass_attemptMove env fuel s =
     (let s1 = s\<lparr>success := False\<rparr>
      in if numBeadsAtSlice s1 0 = 0 then Some (False, s1)
         else (let (r, s2) = draw_randInt env s1 (numBeadsAtSlice s1 0 - 1);
                   s3 = s2\<lparr>startBead := (0, r)\<rparr>
               in if foundBead env s3 (startBead s3)
                  then (if worm_length s3 \<ge> numTimeSlices (constants env) then Some (False, s3)
                        else CenterOfMass_propose env fuel
                               (s3\<lparr>startBead := worm_tail s3, endBead := worm_head s3\<rparr>))
                  else (let s4 = s3\<lparr>endBead := prevLink s3 (startBead s3)\<rparr>
                        in do {
                             wlLength \<leftarrow> CenterOfMass_wlLength fuel s4 (startBead s4) 0;
                             if wlLength > numTimeSlices (constants env) then Some (False, s4)
                             else CenterOfMass_propose env fuel s4 })))"

subsection \<open>\<^verbatim>\<open>StagingMove\<close>\<close>

text \<open>The loop of \<^verbatim>\<open>StagingMove\<close> and \<^verbatim>\<open>BisectionMove\<close> that walks forward \<open>n\<close> beads and
  leaves the move (\<open>None\<close>: \<^verbatim>\<open>return false\<close>) at a bead that is off or is the worm head;
  otherwise it gives the bead reached.\<close>

fun activeTrajectory :: "State \<Rightarrow> beadLocator \<Rightarrow> nat \<Rightarrow> beadLocator option" where
  "activeTrajectory s beadIndex 0 = Some beadIndex"
| "activeTrajectory s beadIndex (Suc n) =
     (if \<not> beadOn s beadIndex \<or> beadIndex = worm_head s then None
      else activeTrajectory s (nextLink s beadIndex) n)"

fun Staging_loop :: "Env \<Rightarrow> nat \<Rightarrow> State \<Rightarrow> beadLocator \<Rightarrow> int \<Rightarrow> State option" where
  "Staging_loop env 0 s beadIndex k = None"
| "Staging_loop env (Suc fuel) s beadIndex k =
     (let beadIndex' = nextLink s beadIndex;
          s1 = s\<lparr>originalPos := (originalPos s)(k := beads s beadIndex')\<rparr>;
          (pos, s2) = newStagingPosition env s1 (prevLink s1 beadIndex') (endBead s1)
                        (Mbar (constants env)) k;
          s3 = updateBead s2 beadIndex' pos
      in if beadIndex' \<noteq> prevLink s3 (endBead s3)
         then Staging_loop env fuel s3 beadIndex' (k + 1)
         else Some s3)"

fun Staging_undoLoop :: "nat \<Rightarrow> State \<Rightarrow> beadLocator \<Rightarrow> int \<Rightarrow> State option" where
  "Staging_undoLoop 0 s beadIndex k = None"
| "Staging_undoLoop (Suc fuel) s beadIndex k =
     (let beadIndex' = nextLink s beadIndex;
          s1 = updateBead s beadIndex' (originalPos s k)
      in if beadIndex' \<noteq> prevLink s1 (endBead s1)
         then Staging_undoLoop fuel s1 beadIndex' (k + 1)
         else Some s1)"

definition Staging_undoMove :: "nat \<Rightarrow> State \<Rightarrow> State option" where
  "Staging_undoMove fuel s =
     do { s1 \<leftarrow> Staging_undoLoop fuel s (startBead s) 0;
          Some (s1\<lparr>success := False, calls := calls s1 @ [UndoMove]\<rparr>) }"

definition Staging_attemptMove :: "Env \<Rightarrow> nat \<Rightarrow> State \<Rightarrow> (bool \<times> State) option" where
  "Staging_attemptMove env fuel s =
     (let s1 = s\<lparr>success := False\<rparr>
      in if getTrueNumParticles env s1 = 0 then Some (False, s1)
         else (let (r0, s2) = draw_randInt env s1 (numTimeSlices (constants env) - 1);
                   s3 = s2\<lparr>startBead := (r0, snd (startBead s2))\<rparr>
               in if numBeadsAtSlice s3 (fst (startBead s3)) = 0 then Some (False, s3)
                  else (let (r1, s4) = draw_randInt env s3
                                         (numBeadsAtSlice s3 (fst (startBead s3)) - 1);
                            s5 = s4\<lparr>startBead := (fst (startBead s4), r1)\<rparr>
                        in (case activeTrajectory s5 (startBead s5) (nat (Mbar (constants env))) of
                              None \<Rightarrow> Some (False, s5)
                            | Some e \<Rightarrow>
                               (let s6 = s5\<lparr>endBead := e\<rparr>;
                                    s7 = s6\<lparr>numAttempted := numAttempted s6 + 1,
                                            totAttempted := totAttempted s6 + 1\<rparr>;
                                    oldAction = potentialAction (actionPtr env) s7 (startBead s7)
                                                  (prevLink s7 (endBead s7))
                                in do {
                                     s8 \<leftarrow> Staging_loop env fuel s7 (startBead s7) 0;
                                     (let newAction = potentialAction (actionPtr env) s8 (startBead s8)
                                                        (prevLink s8 (endBead s8));
                                          (u, s9) = draw_rand env s8
                                      in if u < exp (- (newAction - oldAction))
                                         then (let s10 = MoveBase_keepMove s9
                                               in Some (success s10, s10))
                                         else do { s10 \<leftarrow> Staging_undoMove fuel s9;
                                                   Some (success s10, s10) }) })))))"

subsection \<open>\<^verbatim>\<open>BisectionMove\<close>\<close>

text \<open>\<^verbatim>\<open>numLevels\<close> is \<^verbatim>\<open>constants()->b()\<close> and \<^verbatim>\<open>numActiveBeads\<close> is \<^verbatim>\<open>ipow(2,numLevels)-1\<close>,
  both set by the constructor.\<close>

definition numActiveBeads :: "Env \<Rightarrow> int" where
  "numActiveBeads env = ipow 2 (const_b (constants env)) - 1"

definition Bisection_keepMove :: "Env \<Rightarrow> State \<Rightarrow> State" where
  "Bisection_keepMove env s =
     s\<lparr>numAccepted := numAccepted s + 1,
       numAcceptedLevel := (numAcceptedLevel s)
          (const_b (constants env) := numAcceptedLevel s (const_b (constants env)) + 1),
       totAccepted := totAccepted s + 1,
       shift := 1, success := True, calls := calls s @ [KeepMove]\<rparr>"

fun Bisection_undoLoop :: "nat \<Rightarrow> State \<Rightarrow> beadLocator \<Rightarrow> int \<Rightarrow> State option" where
  "Bisection_undoLoop 0 s beadIndex k = None"
| "Bisection_undoLoop (Suc fuel) s beadIndex k =
     (let beadIndex' = nextLink s beadIndex;
          s1 = (if \<not> include_flag s k then updateBead s beadIndex' (originalPos s k) else s)
      in if beadIndex' \<noteq> prevLink s1 (endBead s1)
         then Bisection_undoLoop fuel s1 beadIndex' (k + 1)
         else Some s1)"

definition Bisection_undoMove :: "nat \<Rightarrow> State \<Rightarrow> State option" where
  "Bisection_undoMove fuel s =
     do { s1 \<leftarrow> Bisection_undoLoop fuel s (startBead s) 0;
          Some (s1\<lparr>shift := 1, success := False, calls := calls s1 @ [UndoMove]\<rparr>) }"

text \<open>The loop over the beads of one level; \<open>lshift\<close> is the member \<^verbatim>\<open>shift\<close> of the move
  (the distance between the beads of the level), \<open>oldAction\<close> and \<open>newAction\<close> are the two
  sums of the level.\<close>

fun Bisection_levelLoop ::
  "Env \<Rightarrow> nat \<Rightarrow> int \<Rightarrow> int \<Rightarrow> State \<Rightarrow> beadLocator \<Rightarrow> int \<Rightarrow> real \<Rightarrow> real
     \<Rightarrow> (State \<times> real \<times> real) option" where
  "Bisection_levelLoop env 0 level lshift s beadIndex k oldAction newAction = None"
| "Bisection_levelLoop env (Suc fuel) level lshift s beadIndex k oldAction newAction =
     (let n = k * lshift - 1;
          (s', oldAction', newAction') =
            (if include_flag s n
             then (let s1 = s\<lparr>originalPos := (originalPos s)(n := beads s beadIndex)\<rparr>;
                       oldA = oldAction + potentialAction1 (actionPtr env) s1 beadIndex;
                       (pos, s2) = newBisectionPosition env s1 beadIndex lshift;
                       s3 = s2\<lparr>newPos := (newPos s2)(n := pos)\<rparr>;
                       s4 = updateBead s3 beadIndex (newPos s3 n);
                       newA = newAction + potentialAction1 (actionPtr env) s4 beadIndex;
                       s5 = s4\<lparr>include_flag := (include_flag s4)(n := False)\<rparr>
                   in (s5, oldA, newA))
             else if level = 1
             then (let newA = newAction + potentialAction1 (actionPtr env) s beadIndex;
                       s1 = updateBead s beadIndex (originalPos s n);
                       oldA = oldAction + potentialAction1 (actionPtr env) s1 beadIndex;
                       s2 = updateBead s1 beadIndex (newPos s1 n)
                   in (s2, oldA, newA))
             else (s, oldAction, newAction));
          beadIndex' = nextN s' beadIndex (nat lshift)
      in if beadIndex' \<noteq> endBead s'
         then Bisection_levelLoop env fuel level lshift s' beadIndex' (k + 1) oldAction' newAction'
         else Some (s', oldAction', newAction'))"

text \<open>The loop \<^verbatim>\<open>for (level = numLevels; level > 0; level--)\<close>; the third argument is the
  level, the last is \<^verbatim>\<open>oldDeltaAction\<close>.  A rejected level leaves the loop (\<^verbatim>\<open>break\<close>).\<close>

fun Bisection_levels :: "Env \<Rightarrow> nat \<Rightarrow> nat \<Rightarrow> State \<Rightarrow> real \<Rightarrow> State option" where
  "Bisection_levels env fuel 0 s oldDeltaAction = Some s"
| "Bisection_levels env fuel (Suc l) s oldDeltaAction =
     (let level = int (Suc l);
          lshift = ipow 2 (level - 1);
          s1 = s\<lparr>shift := lshift\<rparr>
      in do {
           (s2, oldAction, newAction) \<leftarrow>
              Bisection_levelLoop env fuel level lshift s1
                (nextN s1 (startBead s1) (nat lshift)) 1 0 0;
           (let deltaAction = newAction - oldAction;
                (u, s3) = draw_rand env s2
            in if u < exp (- deltaAction + oldDeltaAction)
               then Bisection_levels env fuel l
                      (if level = 1 then Bisection_keepMove env s3 else s3) deltaAction
               else Bisection_undoMove fuel s3) })"

definition Bisection_attemptMove :: "Env \<Rightarrow> nat \<Rightarrow> State \<Rightarrow> (bool \<times> State) option" where
  "Bisection_attemptMove env fuel s =
     (let s1 = s\<lparr>success := False\<rparr>
      in if \<not> local_action (actionPtr env) then Some (False, s1)
         else (let (r0, s2) = draw_randInt env s1 (numTimeSlices (constants env) - 1);
                   s3 = s2\<lparr>startBead := (r0, snd (startBead s2))\<rparr>
               in if numBeadsAtSlice s3 (fst (startBead s3)) = 0 then Some (False, s3)
                  else (let (r1, s4) = draw_randInt env s3
                                         (numBeadsAtSlice s3 (fst (startBead s3)) - 1);
                            s5 = s4\<lparr>startBead := (fst (startBead s4), r1)\<rparr>
                        in (case activeTrajectory s5 (startBead s5) (nat (numActiveBeads env + 1)) of
                              None \<Rightarrow> Some (False, s5)
                            | Some e \<Rightarrow>
                               (let s6 = s5\<lparr>endBead := e\<rparr>;
                                    s7 = s6\<lparr>numAttempted := numAttempted s6 + 1,
                                            totAttempted := totAttempted s6 + 1,
                                            numAttemptedLevel := (numAttemptedLevel s6)
                                              (const_b (constants env) :=
                                                 numAttemptedLevel s6 (const_b (constants env)) + 1),
                                            include_flag := (\<lambda>n. True)\<rparr>
                                in do {
                                     s8 \<leftarrow> Bisection_levels env fuel
                                             (nat (const_b (constants env))) s7 0;
                                     Some (success s8, s8) })))))"

subsection \<open>\<^verbatim>\<open>OpenMove\<close>\<close>

text \<open>The loop of \<^verbatim>\<open>OpenMove::keepMove\<close> that deletes the beads of the gap:
  \<^verbatim>\<open>while (!all(beadIndex==tailBead)) beadIndex = path.delBeadGetNext(beadIndex)\<close>.\<close>

fun Open_deleteLoop :: "nat \<Rightarrow> State \<Rightarrow> beadLocator \<Rightarrow> State option" where
  "Open_deleteLoop 0 s beadIndex = None"
| "Open_deleteLoop (Suc fuel) s beadIndex =
     (if beadIndex \<noteq> tailBead s
      then (let (beadIndex', s1) = delBeadGetNext s beadIndex
            in Open_deleteLoop fuel s1 beadIndex')
      else Some s)"

definition Open_keepMove :: "Env \<Rightarrow> nat \<Rightarrow> State \<Rightarrow> State option" where
  "Open_keepMove env fuel s =
     (let s1 = s\<lparr>numAccepted := numAccepted s + 1, totAccepted := totAccepted s + 1,
                 numAcceptedLevel := (numAcceptedLevel s)
                    (numLevels s := numAcceptedLevel s (numLevels s) + 1)\<rparr>
      in do {
           s2 \<leftarrow> Open_deleteLoop fuel s1 (nextLink s1 (headBead s1));
           (let s3 = worm_update env s2 (headBead s2) (tailBead s2)
            in Some (s3\<lparr>isConfigDiagonal := False, success := True,
                        calls := calls s3 @ [KeepMove]\<rparr>)) })"

definition Open_undoMove :: "State \<Rightarrow> State" where
  "Open_undoMove s =
     (let s1 = worm_reset s
      in s1\<lparr>isConfigDiagonal := True, success := False, calls := calls s1 @ [UndoMove]\<rparr>)"

text \<open>The single slice rejection loop of the local action.  \<open>Inl s\<close>: a slice was refused,
  \<^verbatim>\<open>undoMove\<close> has run and the move returns; \<open>Inr\<close>: the loop has ended, with the state,
  \<^verbatim>\<open>deltaAction\<close> and \<^verbatim>\<open>PNorm\<close>.\<close>

fun Open_sliceLoop ::
  "Env \<Rightarrow> nat \<Rightarrow> State \<Rightarrow> real \<Rightarrow> beadLocator \<Rightarrow> real \<Rightarrow> real \<Rightarrow> real
     \<Rightarrow> (State + State \<times> real \<times> real) option" where
  "Open_sliceLoop env 0 s actionShift beadIndex deltaAction PNorm factor = None"
| "Open_sliceLoop env (Suc fuel) s actionShift beadIndex deltaAction PNorm factor =
     (let deltaAction' = deltaAction
            - (barePotentialAction (actionPtr env) s beadIndex - factor * actionShift);
          P = min (exp (- deltaAction') / PNorm) 1;
          (u, s1) = draw_rand env s
      in if u \<ge> P then Some (Inl (Open_undoMove s1))
         else (let PNorm' = PNorm * P;
                   beadIndex' = nextLink s1 beadIndex
               in if beadIndex' \<noteq> tailBead s1
                  then Open_sliceLoop env fuel s1 actionShift beadIndex' deltaAction' PNorm' 1
                  else Some (Inr (s1, deltaAction', PNorm'))))"

text \<open>The first part of \<^verbatim>\<open>attemptMove\<close>: the proposal.  It gives the local \<^verbatim>\<open>gapLength\<close>
  and the state with \<^verbatim>\<open>numLevels\<close>, \<^verbatim>\<open>headBead\<close> and \<^verbatim>\<open>tailBead\<close> set.\<close>

definition Open_propose :: "Env \<Rightarrow> State \<Rightarrow> int \<times> State" where
  "Open_propose env s =
     (let s1 = s\<lparr>success := False\<rparr>;
          (r, s2) = draw_randInt env s1 (cdiv (Mbar (constants env)) 2 - 1);
          gapLength = 2 * (1 + r);
          s3 = s2\<lparr>numLevels := levelsOf gapLength\<rparr>;
          (r0, s4) = draw_randInt env s3 (cdiv (numTimeSlices (constants env)) 2 - 1);
          s5 = s4\<lparr>headBead := (2 * r0, snd (headBead s4))\<rparr>;
          (r1, s6) = draw_randInt env s5 (numBeadsAtSlice s5 (fst (headBead s5)) - 1);
          s7 = s6\<lparr>headBead := (fst (headBead s6), r1)\<rparr>;
          s8 = s7\<lparr>tailBead := nextN s7 (headBead s7) (nat gapLength)\<rparr>
      in (gapLength, s8))"

text \<open>The branch of \<^verbatim>\<open>OpenMove::attemptMove\<close> taken for a local action, where the
  trajectory is tested slice by slice.\<close>

definition Open_local :: "Env \<Rightarrow> nat \<Rightarrow> int \<Rightarrow> real \<Rightarrow> real \<Rightarrow> State \<Rightarrow> (bool \<times> State) option" where
  "Open_local env fuel gapLength norm' muShift s =
     (let actionShift = (- ln norm' + muShift) / real_of_int gapLength
      in do {
           res \<leftarrow> Open_sliceLoop env fuel s actionShift (headBead s) 0 1 0.5;
           (case res of
              Inl s11 \<Rightarrow> Some (success s11, s11)
            | Inr (s11, deltaAction, PNorm) \<Rightarrow>
               (let deltaAction1 = deltaAction
                      - (barePotentialAction (actionPtr env) s11 (tailBead s11)
                         - 0.5 * actionShift);
                    deltaAction2 = deltaAction1
                      - potentialActionCorrection (actionPtr env) s11
                          (headBead s11) (tailBead s11);
                    (u, s12) = draw_rand env s11
                in if u < exp (- deltaAction2) / PNorm
                   then do { s13 \<leftarrow> Open_keepMove env fuel s12;
                             Some (success s13, s13) }
                   else (let s13 = Open_undoMove s12
                         in Some (success s13, s13)))) })"

text \<open>The branch of \<^verbatim>\<open>OpenMove::attemptMove\<close> taken for a non-local action, with a single
  test of the whole trajectory.\<close>

definition Open_nonlocal :: "Env \<Rightarrow> nat \<Rightarrow> int \<Rightarrow> real \<Rightarrow> real \<Rightarrow> State \<Rightarrow> (bool \<times> State) option" where
  "Open_nonlocal env fuel gapLength norm' muShift s =
     (let oldAction = potentialAction (actionPtr env) s
                        (headBead s) (tailBead s);
          (u, s11) = draw_rand env s
      in if u < norm' * exp (oldAction - muShift)
         then do { s12 \<leftarrow> Open_keepMove env fuel s11;
                   Some (success s12, s12) }
         else (let s12 = Open_undoMove s11 in Some (success s12, s12)))"

text \<open>The rest of \<^verbatim>\<open>attemptMove\<close>, from \<^verbatim>\<open>sep = path.getSeparation(headBead,tailBead)\<close> on.\<close>

definition Open_decide :: "Env \<Rightarrow> nat \<Rightarrow> int \<Rightarrow> State \<Rightarrow> (bool \<times> State) option" where
  "Open_decide env fuel gapLength s8 =
     (let sep = getSeparation env s8 (headBead s8) (tailBead s8)
      in if \<not> tooCostly2 env s8 sep gapLength
         then (let norm0 = (const_C (constants env) * real_of_int (Mbar (constants env))
                              * real_of_int (getNumBeadsOn env s8))
                            / rho0 (actionPtr env) s8 (headBead s8) (tailBead s8) gapLength;
                   norm1 = norm0 * (attemptProb (constants env) ''close''
                                    / attemptProb (constants env) ''open'');
                   norm = norm1 * ensembleWeight (actionPtr env) (- gapLength + 1);
                   muShift = real_of_int gapLength * const_mu (constants env)
                               * const_tau (constants env);
                   s9 = s8\<lparr>numAttempted := numAttempted s8 + 1,
                           totAttempted := totAttempted s8 + 1,
                           numAttemptedLevel := (numAttemptedLevel s8)
                              (numLevels s8 := numAttemptedLevel s8 (numLevels s8) + 1)\<rparr>;
                   s10 = s9\<lparr>special1 := headBead s9, special2 := tailBead s9\<rparr>
               in if local_action (actionPtr env)
                  then Open_local env fuel gapLength norm muShift s10
                  else Open_nonlocal env fuel gapLength norm muShift s10)
         else Some (success s8, s8))"

definition Open_attemptMove :: "Env \<Rightarrow> nat \<Rightarrow> State \<Rightarrow> (bool \<times> State) option" where
  "Open_attemptMove env fuel s =
     (let (gapLength, s8) = Open_propose env s in Open_decide env fuel gapLength s8)"

subsection \<open>\<^verbatim>\<open>CloseMove\<close>\<close>

definition Close_keepMove :: "State \<Rightarrow> State" where
  "Close_keepMove s =
     (let s1 = s\<lparr>numAccepted := numAccepted s + 1,
                 numAcceptedLevel := (numAcceptedLevel s)
                    (numLevels s := numAcceptedLevel s (numLevels s) + 1),
                 totAccepted := totAccepted s + 1\<rparr>;
          s2 = worm_reset s1
      in s2\<lparr>isConfigDiagonal := True, success := True, calls := calls s2 @ [KeepMove]\<rparr>)"

text \<open>\<^verbatim>\<open>while (!all(beadIndex==path.worm.tail) && (!all(beadIndex==XXX)))
    beadIndex = path.delBeadGetNext(beadIndex)\<close>.\<close>

fun Close_deleteLoop :: "nat \<Rightarrow> State \<Rightarrow> beadLocator \<Rightarrow> State option" where
  "Close_deleteLoop 0 s beadIndex = None"
| "Close_deleteLoop (Suc fuel) s beadIndex =
     (if beadIndex \<noteq> worm_tail s \<and> beadIndex \<noteq> XXX
      then (let (beadIndex', s1) = delBeadGetNext s beadIndex
            in Close_deleteLoop fuel s1 beadIndex')
      else Some s)"

definition Close_undoMove :: "nat \<Rightarrow> State \<Rightarrow> State option" where
  "Close_undoMove fuel s =
     do { s1 \<leftarrow> Close_deleteLoop fuel s (nextLink s (worm_head s));
          (let s2 = s1\<lparr>nextLink := (nextLink s1)(worm_head s1 := XXX)\<rparr>;
               s3 = s2\<lparr>prevLink := (prevLink s2)(worm_tail s2 := XXX)\<rparr>
           in Some (s3\<lparr>isConfigDiagonal := False, success := False,
                       calls := calls s3 @ [UndoMove]\<rparr>)) }"

text \<open>The loop \<^verbatim>\<open>for (int k = 0; k < (path.worm.gap-1); k++)\<close> of the local action: a new
  bead and a test per slice.  The fourth argument is the number of iterations left, the
  sixth is \<open>k\<close>.\<close>

fun Close_sliceLoop ::
  "Env \<Rightarrow> nat \<Rightarrow> State \<Rightarrow> nat \<Rightarrow> real \<Rightarrow> int \<Rightarrow> beadLocator \<Rightarrow> real \<Rightarrow> real
     \<Rightarrow> (State + State \<times> beadLocator \<times> real \<times> real) option" where
  "Close_sliceLoop env fuel s 0 actionShift k beadIndex deltaAction PNorm =
     Some (Inr (s, beadIndex, deltaAction, PNorm))"
| "Close_sliceLoop env fuel s (Suc n) actionShift k beadIndex deltaAction PNorm =
     (let (pos, s1) = newStagingPosition env s beadIndex (worm_tail s) (worm_gap s) k;
          (beadIndex', s2) = addNextBead env s1 beadIndex pos;
          deltaAction' = deltaAction
            + (barePotentialAction (actionPtr env) s2 beadIndex' - actionShift);
          P = min (exp (- deltaAction') / PNorm) 1;
          (u, s3) = draw_rand env s2
      in if u \<ge> P
         then do { s4 \<leftarrow> Close_undoMove fuel s3; Some (Inl s4) }
         else Close_sliceLoop env fuel s3 n actionShift (k + 1) beadIndex' deltaAction' (PNorm * P))"

text \<open>The loop of the non-local action: the new beads, without tests.\<close>

fun Close_stageLoop :: "Env \<Rightarrow> State \<Rightarrow> nat \<Rightarrow> int \<Rightarrow> beadLocator \<Rightarrow> State \<times> beadLocator" where
  "Close_stageLoop env s 0 k beadIndex = (s, beadIndex)"
| "Close_stageLoop env s (Suc n) k beadIndex =
     (let (pos, s1) = newStagingPosition env s beadIndex (worm_tail s) (worm_gap s) k;
          (beadIndex', s2) = addNextBead env s1 beadIndex pos
      in Close_stageLoop env s2 n (k + 1) beadIndex')"

text \<open>The branch of \<^verbatim>\<open>CloseMove::attemptMove\<close> taken for a local action, where the
  trajectory is tested slice by slice.\<close>

definition Close_local :: "Env \<Rightarrow> nat \<Rightarrow> real \<Rightarrow> real \<Rightarrow> State \<Rightarrow> (bool \<times> State) option" where
  "Close_local env fuel norm' muShift s =
     (let actionShift = (ln norm' + muShift) / real_of_int (worm_gap s);
          beadIndex = worm_head s;
          deltaAction = 0 + (barePotentialAction (actionPtr env) s beadIndex
                             - 0.5 * actionShift);
          P = min (exp (- deltaAction) / 1) 1;
          (u, s5) = draw_rand env s
      in if u \<ge> P
         then do { s6 \<leftarrow> Close_undoMove fuel s5; Some (success s6, s6) }
         else do {
           res \<leftarrow> Close_sliceLoop env fuel s5 (nat (worm_gap s5 - 1))
                    actionShift 0 beadIndex deltaAction (1 * P);
           (case res of
              Inl s6 \<Rightarrow> Some (success s6, s6)
            | Inr (s6, beadIndex', deltaAction', PNorm) \<Rightarrow>
               (let s7 = s6\<lparr>nextLink := (nextLink s6)(beadIndex' := worm_tail s6)\<rparr>;
                    s8 = s7\<lparr>prevLink := (prevLink s7)(worm_tail s7 := beadIndex')\<rparr>;
                    deltaAction1 = deltaAction'
                      + (barePotentialAction (actionPtr env) s8 (worm_tail s8)
                         - 0.5 * actionShift);
                    deltaAction2 = deltaAction1
                      + potentialActionCorrection (actionPtr env) s8
                          (worm_head s8) (worm_tail s8);
                    (u', s9) = draw_rand env s8
                in if u' < exp (- deltaAction2) / PNorm
                   then (let s10 = Close_keepMove s9 in Some (success s10, s10))
                   else do { s10 \<leftarrow> Close_undoMove fuel s9;
                             Some (success s10, s10) })) })"

text \<open>The branch of \<^verbatim>\<open>CloseMove::attemptMove\<close> taken for a non-local action, with a single
  test of the whole trajectory.\<close>

definition Close_nonlocal :: "Env \<Rightarrow> nat \<Rightarrow> real \<Rightarrow> real \<Rightarrow> State \<Rightarrow> (bool \<times> State) option" where
  "Close_nonlocal env fuel norm' muShift s =
     (let (s5, beadIndex') = Close_stageLoop env s (nat (worm_gap s - 1)) 0
                               (worm_head s);
          s6 = s5\<lparr>nextLink := (nextLink s5)(beadIndex' := worm_tail s5)\<rparr>;
          s7 = s6\<lparr>prevLink := (prevLink s6)(worm_tail s6 := beadIndex')\<rparr>;
          newAction = potentialAction (actionPtr env) s7 (headBead s7) (tailBead s7);
          (u, s8) = draw_rand env s7
      in if u < norm' * exp (- newAction + muShift)
         then (let s9 = Close_keepMove s8 in Some (success s9, s9))
         else do { s9 \<leftarrow> Close_undoMove fuel s8; Some (success s9, s9) })"

definition Close_attemptMove :: "Env \<Rightarrow> nat \<Rightarrow> State \<Rightarrow> (bool \<times> State) option" where
  "Close_attemptMove env fuel s =
     (let s1 = s\<lparr>success := False\<rparr>
      in if worm_gap s1 > Mbar (constants env) \<or> worm_gap s1 = 0 \<or> tooCostly0 env s1
         then Some (False, s1)
         else (let s2 = s1\<lparr>numLevels := levelsOf (worm_gap s1)\<rparr>;
                   s3 = s2\<lparr>numAttempted := numAttempted s2 + 1,
                           numAttemptedLevel := (numAttemptedLevel s2)
                              (numLevels s2 := numAttemptedLevel s2 (numLevels s2) + 1),
                           totAttempted := totAttempted s2 + 1\<rparr>;
                   s4 = s3\<lparr>headBead := worm_head s3, tailBead := worm_tail s3\<rparr>;
                   norm0 = rho0 (actionPtr env) s4 (worm_head s4) (worm_tail s4) (worm_gap s4)
                             / (const_C (constants env) * real_of_int (Mbar (constants env))
                                * real_of_int (getNumBeadsOn env s4 + worm_gap s4 - 1));
                   norm1 = norm0 * (attemptProb (constants env) ''open''
                                    / attemptProb (constants env) ''close'');
                   norm = norm1 * ensembleWeight (actionPtr env) (worm_gap s4 - 1);
                   muShift = real_of_int (worm_gap s4) * const_mu (constants env)
                               * const_tau (constants env)
               in if local_action (actionPtr env)
                  then Close_local env fuel norm muShift s4
                  else Close_nonlocal env fuel norm muShift s4))"

subsection \<open>\<^verbatim>\<open>InsertMove\<close>\<close>

definition Insert_keepMove :: "Env \<Rightarrow> State \<Rightarrow> State" where
  "Insert_keepMove env s =
     (let s1 = s\<lparr>numAccepted := numAccepted s + 1, totAccepted := totAccepted s + 1,
                 numAcceptedLevel := (numAcceptedLevel s)
                    (numLevels s := numAcceptedLevel s (numLevels s) + 1)\<rparr>;
          s2 = worm_update env s1 (headBead s1) (tailBead s1)
      in s2\<lparr>isConfigDiagonal := False, success := True, calls := calls s2 @ [KeepMove]\<rparr>)"

text \<open>\<^verbatim>\<open>do { beadIndex = path.delBeadGetNext(beadIndex); } while (!all(beadIndex==XXX))\<close>
  (also the loop of \<^verbatim>\<open>RecedeHeadMove::keepMove\<close>).\<close>

fun deleteForward :: "nat \<Rightarrow> State \<Rightarrow> beadLocator \<Rightarrow> State option" where
  "deleteForward 0 s beadIndex = None"
| "deleteForward (Suc fuel) s beadIndex =
     (let (beadIndex', s1) = delBeadGetNext s beadIndex
      in if beadIndex' \<noteq> XXX then deleteForward fuel s1 beadIndex' else Some s1)"

definition Insert_undoMove :: "nat \<Rightarrow> State \<Rightarrow> State option" where
  "Insert_undoMove fuel s =
     do { s1 \<leftarrow> deleteForward fuel s (tailBead s);
          (let s2 = worm_reset s1
           in Some (s2\<lparr>isConfigDiagonal := True, success := False,
                       calls := calls s2 @ [UndoMove]\<rparr>)) }"

text \<open>The loop \<^verbatim>\<open>for (int k = 1; k < wormLength; k++)\<close> of the local action.\<close>

fun Insert_sliceLoop ::
  "Env \<Rightarrow> nat \<Rightarrow> State \<Rightarrow> nat \<Rightarrow> real \<Rightarrow> beadLocator \<Rightarrow> real \<Rightarrow> real
     \<Rightarrow> (State + State \<times> beadLocator \<times> real \<times> real) option" where
  "Insert_sliceLoop env fuel s 0 actionShift beadIndex deltaAction PNorm =
     Some (Inr (s, beadIndex, deltaAction, PNorm))"
| "Insert_sliceLoop env fuel s (Suc n) actionShift beadIndex deltaAction PNorm =
     (let (pos, s1) = newFreeParticlePosition env s beadIndex;
          (beadIndex', s2) = addNextBead env s1 beadIndex pos;
          deltaAction' = deltaAction
            + (barePotentialAction (actionPtr env) s2 beadIndex' - actionShift);
          P = min (exp (- deltaAction') / PNorm) 1;
          (u, s3) = draw_rand env s2
      in if u \<ge> P
         then do { s4 \<leftarrow> Insert_undoMove fuel s3; Some (Inl s4) }
         else Insert_sliceLoop env fuel s3 n actionShift beadIndex' deltaAction' (PNorm * P))"

text \<open>The loop \<^verbatim>\<open>for (k = 0; k < n; k++) beadIndex = path.addNextBead(beadIndex,
  newFreeParticlePosition(beadIndex))\<close> of the non-local action (also of
  \<^verbatim>\<open>AdvanceHeadMove\<close>).\<close>

fun growForward :: "Env \<Rightarrow> State \<Rightarrow> nat \<Rightarrow> beadLocator \<Rightarrow> State \<times> beadLocator" where
  "growForward env s 0 beadIndex = (s, beadIndex)"
| "growForward env s (Suc n) beadIndex =
     (let (pos, s1) = newFreeParticlePosition env s beadIndex;
          (beadIndex', s2) = addNextBead env s1 beadIndex pos
      in growForward env s2 n beadIndex')"

text \<open>The branch of \<^verbatim>\<open>InsertMove::attemptMove\<close> taken for a local action, where the
  trajectory is tested slice by slice.\<close>

definition Insert_local :: "Env \<Rightarrow> nat \<Rightarrow> int \<Rightarrow> real \<Rightarrow> real \<Rightarrow> State \<Rightarrow> (bool \<times> State) option" where
  "Insert_local env fuel wormLen norm' muShift s =
     (let actionShift = (ln norm' + muShift) / real_of_int wormLen;
          beadIndex = tailBead s;
          deltaAction = 0 + (barePotentialAction (actionPtr env) s beadIndex
                             - 0.5 * actionShift);
          P = min (exp (- deltaAction) / 1) 1;
          (u, s9) = draw_rand env s
      in if u \<ge> P
         then do { s10 \<leftarrow> Insert_undoMove fuel s9; Some (success s10, s10) }
         else do {
           res \<leftarrow> Insert_sliceLoop env fuel s9 (nat (wormLen - 1)) actionShift
                    beadIndex deltaAction (1 * P);
           (case res of
              Inl s10 \<Rightarrow> Some (success s10, s10)
            | Inr (s10, beadIndex', deltaAction', PNorm) \<Rightarrow>
               (let (pos', s11) = newFreeParticlePosition env s10 beadIndex';
                    (h, s12) = addNextBead env s11 beadIndex' pos';
                    s13 = s12\<lparr>headBead := h\<rparr>;
                    s14 = s13\<lparr>special1 := headBead s13\<rparr>;
                    deltaAction1 = deltaAction'
                      + (barePotentialAction (actionPtr env) s14 (headBead s14)
                         - 0.5 * actionShift);
                    deltaAction2 = deltaAction1
                      + potentialActionCorrection (actionPtr env) s14
                          (tailBead s14) (headBead s14);
                    (u', s15) = draw_rand env s14
                in if u' < exp (- deltaAction2) / PNorm
                   then (let s16 = Insert_keepMove env s15 in Some (success s16, s16))
                   else do { s16 \<leftarrow> Insert_undoMove fuel s15;
                             Some (success s16, s16) })) })"

text \<open>The branch of \<^verbatim>\<open>InsertMove::attemptMove\<close> taken for a non-local action, with a single
  test of the whole trajectory.\<close>

definition Insert_nonlocal :: "Env \<Rightarrow> nat \<Rightarrow> int \<Rightarrow> real \<Rightarrow> real \<Rightarrow> State \<Rightarrow> (bool \<times> State) option" where
  "Insert_nonlocal env fuel wormLen norm' muShift s =
     (let (s9, beadIndex') = growForward env s (nat wormLen) (tailBead s);
          s10 = s9\<lparr>headBead := beadIndex'\<rparr>;
          s11 = s10\<lparr>special1 := headBead s10\<rparr>;
          newAction = potentialAction (actionPtr env) s11 (tailBead s11) (headBead s11);
          (u, s12) = draw_rand env s11
      in if u < norm' * exp (- newAction + muShift)
         then (let s13 = Insert_keepMove env s12 in Some (success s13, s13))
         else do { s13 \<leftarrow> Insert_undoMove fuel s12; Some (success s13, s13) })"

definition Insert_attemptMove :: "Env \<Rightarrow> nat \<Rightarrow> State \<Rightarrow> (bool \<times> State) option" where
  "Insert_attemptMove env fuel s =
     (let (r, s1) = draw_randInt env s (cdiv (Mbar (constants env)) 2 - 1);
          wormLen = 2 * (1 + r);
          s2 = s1\<lparr>numLevels := levelsOf wormLen\<rparr>;
          s3 = s2\<lparr>numAttempted := numAttempted s2 + 1,
                  totAttempted := totAttempted s2 + 1,
                  numAttemptedLevel := (numAttemptedLevel s2)
                     (numLevels s2 := numAttemptedLevel s2 (numLevels s2) + 1)\<rparr>;
          norm0 = const_C (constants env) * real_of_int (Mbar (constants env))
                    * real_of_int (numTimeSlices (constants env)) * volume (boxPtr env);
          muShift = real_of_int wormLen * const_tau (constants env) * const_mu (constants env);
          norm1 = norm0 * (attemptProb (constants env) ''remove''
                           / attemptProb (constants env) ''insert'');
          norm = norm1 * ensembleWeight (actionPtr env) wormLen;
          (r0, s4) = draw_randInt env s3 (cdiv (numTimeSlices (constants env)) 2 - 1);
          slice = 2 * r0;
          (pos, s5) = draw_randPosition env s4;
          (t, s6) = addBead s5 slice pos;
          s7 = s6\<lparr>tailBead := t\<rparr>;
          s8 = s7\<lparr>special2 := tailBead s7\<rparr>
      in if local_action (actionPtr env)
         then Insert_local env fuel wormLen norm muShift s8
         else Insert_nonlocal env fuel wormLen norm muShift s8)"

subsection \<open>\<^verbatim>\<open>RemoveMove\<close>\<close>

text \<open>\<^verbatim>\<open>do { beadIndex = path.delBeadGetPrev(beadIndex); } while (!all(beadIndex==XXX))\<close>
  (also the loop of \<^verbatim>\<open>AdvanceTailMove::keepMove\<close>).\<close>

fun deleteBackward :: "nat \<Rightarrow> State \<Rightarrow> beadLocator \<Rightarrow> State option" where
  "deleteBackward 0 s beadIndex = None"
| "deleteBackward (Suc fuel) s beadIndex =
     (let (beadIndex', s1) = delBeadGetPrev s beadIndex
      in if beadIndex' \<noteq> XXX then deleteBackward fuel s1 beadIndex' else Some s1)"

definition Remove_keepMove :: "nat \<Rightarrow> State \<Rightarrow> State option" where
  "Remove_keepMove fuel s =
     (let s1 = s\<lparr>numAccepted := numAccepted s + 1,
                 numAcceptedLevel := (numAcceptedLevel s)
                    (numLevels s := numAcceptedLevel s (numLevels s) + 1),
                 totAccepted := totAccepted s + 1\<rparr>
      in do {
           s2 \<leftarrow> deleteBackward fuel s1 (worm_head s1);
           (let s3 = worm_reset s2
            in Some (s3\<lparr>isConfigDiagonal := True, success := True,
                        calls := calls s3 @ [KeepMove]\<rparr>)) })"

definition Remove_undoMove :: "State \<Rightarrow> State" where
  "Remove_undoMove s =
     s\<lparr>isConfigDiagonal := False, success := False, calls := calls s @ [UndoMove]\<rparr>"

fun Remove_sliceLoop ::
  "Env \<Rightarrow> nat \<Rightarrow> State \<Rightarrow> real \<Rightarrow> beadLocator \<Rightarrow> real \<Rightarrow> real \<Rightarrow> real
     \<Rightarrow> (State + State \<times> real \<times> real) option" where
  "Remove_sliceLoop env 0 s actionShift beadIndex deltaAction PNorm factor = None"
| "Remove_sliceLoop env (Suc fuel) s actionShift beadIndex deltaAction PNorm factor =
     (let deltaAction' = deltaAction
            - (barePotentialAction (actionPtr env) s beadIndex - factor * actionShift);
          P = min (exp (- deltaAction') / PNorm) 1;
          (u, s1) = draw_rand env s
      in if u \<ge> P then Some (Inl (Remove_undoMove s1))
         else (let PNorm' = PNorm * P;
                   beadIndex' = prevLink s1 beadIndex
               in if beadIndex' \<noteq> worm_tail s1
                  then Remove_sliceLoop env fuel s1 actionShift beadIndex' deltaAction' PNorm' 1
                  else Some (Inr (s1, deltaAction', PNorm'))))"

text \<open>The branch of \<^verbatim>\<open>RemoveMove::attemptMove\<close> taken for a local action, where the
  trajectory is tested slice by slice.\<close>

definition Remove_local :: "Env \<Rightarrow> nat \<Rightarrow> real \<Rightarrow> real \<Rightarrow> State \<Rightarrow> (bool \<times> State) option" where
  "Remove_local env fuel norm' muShift s =
     (let actionShift = (- ln norm' + muShift) / real_of_int (worm_length s)
      in do {
           res \<leftarrow> Remove_sliceLoop env fuel s actionShift (worm_head s) 0 1 0.5;
           (case res of
              Inl s3 \<Rightarrow> Some (success s3, s3)
            | Inr (s3, deltaAction, PNorm) \<Rightarrow>
               (let deltaAction1 = deltaAction
                      - (barePotentialAction (actionPtr env) s3 (worm_tail s3)
                         - 0.5 * actionShift);
                    deltaAction2 = deltaAction1
                      - potentialActionCorrection (actionPtr env) s3
                          (worm_tail s3) (worm_head s3);
                    (u, s4) = draw_rand env s3
                in if u < exp (- deltaAction2) / PNorm
                   then do { s5 \<leftarrow> Remove_keepMove fuel s4; Some (success s5, s5) }
                   else (let s5 = Remove_undoMove s4 in Some (success s5, s5)))) })"

text \<open>The branch of \<^verbatim>\<open>RemoveMove::attemptMove\<close> taken for a non-local action, with a single
  test of the whole trajectory.\<close>

definition Remove_nonlocal :: "Env \<Rightarrow> nat \<Rightarrow> real \<Rightarrow> real \<Rightarrow> State \<Rightarrow> (bool \<times> State) option" where
  "Remove_nonlocal env fuel norm' muShift s =
     (let oldAction = potentialAction (actionPtr env) s (worm_tail s) (worm_head s);
          (u, s3) = draw_rand env s
      in if u < norm' * exp (oldAction - muShift)
         then do { s4 \<leftarrow> Remove_keepMove fuel s3; Some (success s4, s4) }
         else (let s4 = Remove_undoMove s3 in Some (success s4, s4)))"

definition Remove_attemptMove :: "Env \<Rightarrow> nat \<Rightarrow> State \<Rightarrow> (bool \<times> State) option" where
  "Remove_attemptMove env fuel s =
     (if worm_length s > Mbar (constants env) \<or> worm_length s < 1
         \<or> getTrueNumParticles env s < 1
      then Some (False, s)
      else (let s1 = s\<lparr>numLevels := levelsOf (worm_length s)\<rparr>;
                s2 = s1\<lparr>numAttempted := numAttempted s1 + 1,
                        numAttemptedLevel := (numAttemptedLevel s1)
                           (numLevels s1 := numAttemptedLevel s1 (numLevels s1) + 1),
                        totAttempted := totAttempted s1 + 1\<rparr>;
                norm0 = 1 / (const_C (constants env) * real_of_int (Mbar (constants env))
                             * real_of_int (numTimeSlices (constants env)) * volume (boxPtr env));
                muShift = real_of_int (worm_length s2) * const_mu (constants env)
                            * const_tau (constants env);
                norm1 = norm0 * (attemptProb (constants env) ''insert''
                                 / attemptProb (constants env) ''remove'');
                norm = norm1 * ensembleWeight (actionPtr env) (- worm_length s2)
            in if local_action (actionPtr env)
               then Remove_local env fuel norm muShift s2
               else Remove_nonlocal env fuel norm muShift s2))"

subsection \<open>\<^verbatim>\<open>AdvanceHeadMove\<close>\<close>

definition AdvanceHead_keepMove :: "Env \<Rightarrow> State \<Rightarrow> State" where
  "AdvanceHead_keepMove env s =
     (let s1 = s\<lparr>numAccepted := numAccepted s + 1, totAccepted := totAccepted s + 1,
                 numAcceptedLevel := (numAcceptedLevel s)
                    (numLevels s := numAcceptedLevel s (numLevels s) + 1)\<rparr>;
          s2 = worm_update env s1 (headBead s1) (worm_tail s1)
      in s2\<lparr>isConfigDiagonal := False, success := True, calls := calls s2 @ [KeepMove]\<rparr>)"

text \<open>\<^verbatim>\<open>while (!all(beadIndex==XXX)) beadIndex = path.delBeadGetNext(beadIndex)\<close>.\<close>

fun AdvanceHead_deleteLoop :: "nat \<Rightarrow> State \<Rightarrow> beadLocator \<Rightarrow> State option" where
  "AdvanceHead_deleteLoop 0 s beadIndex = None"
| "AdvanceHead_deleteLoop (Suc fuel) s beadIndex =
     (if beadIndex \<noteq> XXX
      then (let (beadIndex', s1) = delBeadGetNext s beadIndex
            in AdvanceHead_deleteLoop fuel s1 beadIndex')
      else Some s)"

definition AdvanceHead_undoMove :: "nat \<Rightarrow> State \<Rightarrow> State option" where
  "AdvanceHead_undoMove fuel s =
     (let s1 = s\<lparr>worm_head := special1 s\<rparr>
      in do {
           s2 \<leftarrow> AdvanceHead_deleteLoop fuel s1 (nextLink s1 (worm_head s1));
           (let s3 = s2\<lparr>nextLink := (nextLink s2)(worm_head s2 := XXX)\<rparr>;
                s4 = s3\<lparr>isConfigDiagonal := False\<rparr>;
                s5 = s4\<lparr>special1 := XXX\<rparr>
            in Some (s5\<lparr>success := False, calls := calls s5 @ [UndoMove]\<rparr>)) })"

fun AdvanceHead_sliceLoop ::
  "Env \<Rightarrow> nat \<Rightarrow> State \<Rightarrow> nat \<Rightarrow> real \<Rightarrow> beadLocator \<Rightarrow> real \<Rightarrow> real
     \<Rightarrow> (State + State \<times> beadLocator \<times> real \<times> real) option" where
  "AdvanceHead_sliceLoop env fuel s 0 actionShift beadIndex deltaAction PNorm =
     Some (Inr (s, beadIndex, deltaAction, PNorm))"
| "AdvanceHead_sliceLoop env fuel s (Suc n) actionShift beadIndex deltaAction PNorm =
     (let (pos, s1) = newFreeParticlePosition env s beadIndex;
          (beadIndex', s2) = addNextBead env s1 beadIndex pos;
          deltaAction' = deltaAction
            + (barePotentialAction (actionPtr env) s2 beadIndex' - actionShift);
          P = min (exp (- deltaAction') / PNorm) 1;
          (u, s3) = draw_rand env s2
      in if u \<ge> P
         then do { s4 \<leftarrow> AdvanceHead_undoMove fuel s3; Some (Inl s4) }
         else AdvanceHead_sliceLoop env fuel s3 n actionShift beadIndex' deltaAction' (PNorm * P))"

text \<open>The branch of \<^verbatim>\<open>AdvanceHeadMove::attemptMove\<close> taken for a local action, where the
  trajectory is tested slice by slice.\<close>

definition AdvanceHead_local :: "Env \<Rightarrow> nat \<Rightarrow> int \<Rightarrow> real \<Rightarrow> real \<Rightarrow> State \<Rightarrow> (bool \<times> State) option" where
  "AdvanceHead_local env fuel advanceLength norm' muShift s =
     (let actionShift = (ln norm' + muShift) / real_of_int advanceLength;
          beadIndex = special1 s;
          deltaAction = barePotentialAction (actionPtr env) s beadIndex
                          - 0.5 * actionShift;
          P = min (exp (- deltaAction) / 1) 1;
          (u, s7) = draw_rand env s
      in if u \<ge> P
         then do { s8 \<leftarrow> AdvanceHead_undoMove fuel s7; Some (success s8, s8) }
         else do {
           res \<leftarrow> AdvanceHead_sliceLoop env fuel s7 (nat (advanceLength - 1))
                    actionShift beadIndex deltaAction (1 * P);
           (case res of
              Inl s8 \<Rightarrow> Some (success s8, s8)
            | Inr (s8, beadIndex', deltaAction', PNorm) \<Rightarrow>
               (let (pos, s9) = newFreeParticlePosition env s8 beadIndex';
                    (h, s10) = addNextBead env s9 beadIndex' pos;
                    s11 = s10\<lparr>headBead := h\<rparr>;
                    s12 = s11\<lparr>worm_head := headBead s11\<rparr>;
                    deltaAction1 = deltaAction'
                      + (potentialAction1 (actionPtr env) s12 (headBead s12)
                         - 0.5 * actionShift);
                    deltaAction2 = deltaAction1
                      + potentialActionCorrection (actionPtr env) s12
                          (special1 s12) (worm_head s12);
                    (u', s13) = draw_rand env s12
                in if u' < exp (- deltaAction2) / PNorm
                   then (let s14 = AdvanceHead_keepMove env s13
                         in Some (success s14, s14))
                   else do { s14 \<leftarrow> AdvanceHead_undoMove fuel s13;
                             Some (success s14, s14) })) })"

text \<open>The branch of \<^verbatim>\<open>AdvanceHeadMove::attemptMove\<close> taken for a non-local action, with a single
  test of the whole trajectory.\<close>

definition AdvanceHead_nonlocal :: "Env \<Rightarrow> nat \<Rightarrow> int \<Rightarrow> real \<Rightarrow> real \<Rightarrow> State \<Rightarrow> (bool \<times> State) option" where
  "AdvanceHead_nonlocal env fuel advanceLength norm' muShift s =
     (let (s7, beadIndex') = growForward env s (nat advanceLength) (special1 s);
          s8 = s7\<lparr>headBead := beadIndex'\<rparr>;
          s9 = s8\<lparr>worm_head := headBead s8\<rparr>;
          newAction = potentialAction (actionPtr env) s9 (special1 s9) (headBead s9);
          (u, s10) = draw_rand env s9
      in if u < norm' * exp (- newAction + muShift)
         then (let s11 = AdvanceHead_keepMove env s10 in Some (success s11, s11))
         else do { s11 \<leftarrow> AdvanceHead_undoMove fuel s10; Some (success s11, s11) })"

definition AdvanceHead_attemptMove :: "Env \<Rightarrow> nat \<Rightarrow> State \<Rightarrow> (bool \<times> State) option" where
  "AdvanceHead_attemptMove env fuel s =
     (let s1 = s\<lparr>success := False\<rparr>;
          (r, s2) = draw_randInt env s1 (cdiv (Mbar (constants env)) 2 - 1);
          advanceLength = 2 * (1 + r);
          s3 = s2\<lparr>numLevels := levelsOf advanceLength\<rparr>;
          s4 = s3\<lparr>numAttempted := numAttempted s3 + 1,
                  numAttemptedLevel := (numAttemptedLevel s3)
                     (numLevels s3 := numAttemptedLevel s3 (numLevels s3) + 1),
                  totAttempted := totAttempted s3 + 1\<rparr>;
          muShift = real_of_int advanceLength * const_tau (constants env)
                      * const_mu (constants env);
          norm0 = attemptProb (constants env) ''recede head''
                    / attemptProb (constants env) ''advance head'';
          norm = norm0 * ensembleWeight (actionPtr env) advanceLength;
          s5 = s4\<lparr>special1 := worm_head s4\<rparr>;
          s6 = s5\<lparr>worm_head := XXX\<rparr>
      in if local_action (actionPtr env)
         then AdvanceHead_local env fuel advanceLength norm muShift s6
         else AdvanceHead_nonlocal env fuel advanceLength norm muShift s6)"

subsection \<open>\<^verbatim>\<open>AdvanceTailMove\<close>\<close>

definition AdvanceTail_keepMove :: "Env \<Rightarrow> nat \<Rightarrow> State \<Rightarrow> State option" where
  "AdvanceTail_keepMove env fuel s =
     (let s1 = s\<lparr>numAccepted := numAccepted s + 1, totAccepted := totAccepted s + 1,
                 numAcceptedLevel := (numAcceptedLevel s)
                    (numLevels s := numAcceptedLevel s (numLevels s) + 1)\<rparr>
      in do {
           s2 \<leftarrow> deleteBackward fuel s1 (prevLink s1 (tailBead s1));
           (let s3 = worm_update env s2 (worm_head s2) (tailBead s2)
            in Some (s3\<lparr>isConfigDiagonal := False, success := True,
                        calls := calls s3 @ [KeepMove]\<rparr>)) })"

definition AdvanceTail_undoMove :: "State \<Rightarrow> State" where
  "AdvanceTail_undoMove s =
     (let s1 = s\<lparr>isConfigDiagonal := False\<rparr>;
          s2 = s1\<lparr>special1 := XXX\<rparr>
      in s2\<lparr>success := False, calls := calls s2 @ [UndoMove]\<rparr>)"

fun AdvanceTail_sliceLoop ::
  "Env \<Rightarrow> nat \<Rightarrow> State \<Rightarrow> real \<Rightarrow> beadLocator \<Rightarrow> real \<Rightarrow> real \<Rightarrow> real
     \<Rightarrow> (State + State \<times> beadLocator \<times> real \<times> real) option" where
  "AdvanceTail_sliceLoop env 0 s actionShift beadIndex deltaAction PNorm factor = None"
| "AdvanceTail_sliceLoop env (Suc fuel) s actionShift beadIndex deltaAction PNorm factor =
     (let deltaAction' = deltaAction
            - (barePotentialAction (actionPtr env) s beadIndex - factor * actionShift);
          P = min (exp (- deltaAction') / PNorm) 1;
          (u, s1) = draw_rand env s
      in if u \<ge> P then Some (Inl (AdvanceTail_undoMove s1))
         else (let PNorm' = PNorm * P;
                   beadIndex' = nextLink s1 beadIndex
               in if beadIndex' \<noteq> tailBead s1
                  then AdvanceTail_sliceLoop env fuel s1 actionShift beadIndex' deltaAction' PNorm' 1
                  else Some (Inr (s1, beadIndex', deltaAction', PNorm'))))"

text \<open>The branch of \<^verbatim>\<open>AdvanceTailMove::attemptMove\<close> taken for a local action, where the
  trajectory is tested slice by slice.\<close>

definition AdvanceTail_local :: "Env \<Rightarrow> nat \<Rightarrow> int \<Rightarrow> real \<Rightarrow> real \<Rightarrow> State \<Rightarrow> (bool \<times> State) option" where
  "AdvanceTail_local env fuel advanceLength norm' muShift s =
     (let actionShift = (- ln norm' + muShift) / real_of_int advanceLength
      in do {
           res \<leftarrow> AdvanceTail_sliceLoop env fuel s actionShift (worm_tail s)
                    0 1 0.5;
           (case res of
              Inl s7 \<Rightarrow> Some (success s7, s7)
            | Inr (s7, beadIndex, deltaAction, PNorm) \<Rightarrow>
               (let deltaAction1 = deltaAction
                      - (barePotentialAction (actionPtr env) s7 beadIndex
                         - 0.5 * actionShift);
                    deltaAction2 = deltaAction1
                      - potentialActionCorrection (actionPtr env) s7
                          (worm_tail s7) (tailBead s7);
                    (u, s8) = draw_rand env s7
                in if u < exp (- deltaAction2) / PNorm
                   then do { s9 \<leftarrow> AdvanceTail_keepMove env fuel s8;
                             Some (success s9, s9) }
                   else (let s9 = AdvanceTail_undoMove s8
                         in Some (success s9, s9)))) })"

text \<open>The branch of \<^verbatim>\<open>AdvanceTailMove::attemptMove\<close> taken for a non-local action, with a single
  test of the whole trajectory.\<close>

definition AdvanceTail_nonlocal :: "Env \<Rightarrow> nat \<Rightarrow> int \<Rightarrow> real \<Rightarrow> real \<Rightarrow> State \<Rightarrow> (bool \<times> State) option" where
  "AdvanceTail_nonlocal env fuel advanceLength norm' muShift s =
     (let oldAction = potentialAction (actionPtr env) s
                        (worm_tail s) (tailBead s);
          (u, s7) = draw_rand env s
      in if u < norm' * exp (oldAction - muShift)
         then do { s8 \<leftarrow> AdvanceTail_keepMove env fuel s7;
                   Some (success s8, s8) }
         else (let s8 = AdvanceTail_undoMove s7 in Some (success s8, s8)))"

definition AdvanceTail_attemptMove :: "Env \<Rightarrow> nat \<Rightarrow> State \<Rightarrow> (bool \<times> State) option" where
  "AdvanceTail_attemptMove env fuel s =
     (let s1 = s\<lparr>success := False\<rparr>;
          (r, s2) = draw_randInt env s1 (cdiv (Mbar (constants env)) 2 - 1);
          advanceLength = 2 * (1 + r);
          s3 = s2\<lparr>numLevels := levelsOf advanceLength\<rparr>
      in if advanceLength < worm_length s3
         then (let s4 = s3\<lparr>tailBead := nextN s3 (worm_tail s3) (nat advanceLength)\<rparr>;
                   muShift = real_of_int advanceLength * const_tau (constants env)
                               * const_mu (constants env);
                   norm0 = attemptProb (constants env) ''recede tail''
                             / attemptProb (constants env) ''advance tail'';
                   norm = norm0 * ensembleWeight (actionPtr env) (- advanceLength);
                   s5 = s4\<lparr>numAttempted := numAttempted s4 + 1,
                           numAttemptedLevel := (numAttemptedLevel s4)
                              (numLevels s4 := numAttemptedLevel s4 (numLevels s4) + 1),
                           totAttempted := totAttempted s4 + 1\<rparr>;
                   s6 = s5\<lparr>special1 := tailBead s5\<rparr>
               in if local_action (actionPtr env)
                  then AdvanceTail_local env fuel advanceLength norm muShift s6
                  else AdvanceTail_nonlocal env fuel advanceLength norm muShift s6)
         else Some (success s3, s3))"

subsection \<open>\<^verbatim>\<open>RecedeHeadMove\<close>\<close>

definition RecedeHead_undoMove :: "State \<Rightarrow> State" where
  "RecedeHead_undoMove s =
     (let s1 = s\<lparr>isConfigDiagonal := False\<rparr>;
          s2 = s1\<lparr>special1 := XXX\<rparr>
      in s2\<lparr>success := False, calls := calls s2 @ [UndoMove]\<rparr>)"

definition RecedeHead_keepMove :: "Env \<Rightarrow> nat \<Rightarrow> State \<Rightarrow> State option" where
  "RecedeHead_keepMove env fuel s =
     (let s1 = s\<lparr>numAccepted := numAccepted s + 1, totAccepted := totAccepted s + 1,
                 numAcceptedLevel := (numAcceptedLevel s)
                    (numLevels s := numAcceptedLevel s (numLevels s) + 1)\<rparr>
      in do {
           s2 \<leftarrow> deleteForward fuel s1 (nextLink s1 (headBead s1));
           (let s3 = worm_update env s2 (headBead s2) (worm_tail s2)
            in Some (s3\<lparr>isConfigDiagonal := False, success := True,
                        calls := calls s3 @ [KeepMove]\<rparr>)) })"

fun RecedeHead_sliceLoop ::
  "Env \<Rightarrow> nat \<Rightarrow> State \<Rightarrow> real \<Rightarrow> beadLocator \<Rightarrow> real \<Rightarrow> real \<Rightarrow> real
     \<Rightarrow> (State + State \<times> real \<times> real) option" where
  "RecedeHead_sliceLoop env 0 s actionShift beadIndex deltaAction PNorm factor = None"
| "RecedeHead_sliceLoop env (Suc fuel) s actionShift beadIndex deltaAction PNorm factor =
     (let deltaAction' = deltaAction
            - (barePotentialAction (actionPtr env) s beadIndex - factor * actionShift);
          P = min (exp (- deltaAction') / PNorm) 1;
          (u, s1) = draw_rand env s
      in if u \<ge> P then Some (Inl (RecedeHead_undoMove s1))
         else (let PNorm' = PNorm * P;
                   beadIndex' = prevLink s1 beadIndex
               in if beadIndex' \<noteq> headBead s1
                  then RecedeHead_sliceLoop env fuel s1 actionShift beadIndex' deltaAction' PNorm' 1
                  else Some (Inr (s1, deltaAction', PNorm'))))"

text \<open>The branch of \<^verbatim>\<open>RecedeHeadMove::attemptMove\<close> taken for a local action, where the
  trajectory is tested slice by slice.\<close>

definition RecedeHead_local :: "Env \<Rightarrow> nat \<Rightarrow> int \<Rightarrow> real \<Rightarrow> real \<Rightarrow> State \<Rightarrow> (bool \<times> State) option" where
  "RecedeHead_local env fuel recedeLength norm' muShift s =
     (let actionShift = (- ln norm' + muShift) / real_of_int recedeLength
      in do {
           res \<leftarrow> RecedeHead_sliceLoop env fuel s actionShift (worm_head s)
                    0 1 0.5;
           (case res of
              Inl s7 \<Rightarrow> Some (success s7, s7)
            | Inr (s7, deltaAction, PNorm) \<Rightarrow>
               (let deltaAction1 = deltaAction
                      - (barePotentialAction (actionPtr env) s7 (headBead s7)
                         - 0.5 * actionShift);
                    deltaAction2 = deltaAction1
                      - potentialActionCorrection (actionPtr env) s7
                          (special1 s7) (worm_head s7);
                    (u, s8) = draw_rand env s7
                in if u < exp (- deltaAction2) / PNorm
                   then do { s9 \<leftarrow> RecedeHead_keepMove env fuel s8;
                             Some (success s9, s9) }
                   else (let s9 = RecedeHead_undoMove s8
                         in Some (success s9, s9)))) })"

text \<open>The branch of \<^verbatim>\<open>RecedeHeadMove::attemptMove\<close> taken for a non-local action, with a single
  test of the whole trajectory.\<close>

definition RecedeHead_nonlocal :: "Env \<Rightarrow> nat \<Rightarrow> int \<Rightarrow> real \<Rightarrow> real \<Rightarrow> State \<Rightarrow> (bool \<times> State) option" where
  "RecedeHead_nonlocal env fuel recedeLength norm' muShift s =
     (let oldAction = potentialAction (actionPtr env) s
                        (headBead s) (worm_head s);
          (u, s7) = draw_rand env s
      in if u < norm' * exp (oldAction - muShift)
         then do { s8 \<leftarrow> RecedeHead_keepMove env fuel s7;
                   Some (success s8, s8) }
         else (let s8 = RecedeHead_undoMove s7 in Some (success s8, s8)))"

definition RecedeHead_attemptMove :: "Env \<Rightarrow> nat \<Rightarrow> State \<Rightarrow> (bool \<times> State) option" where
  "RecedeHead_attemptMove env fuel s =
     (let s1 = s\<lparr>success := False\<rparr>;
          (r, s2) = draw_randInt env s1 (cdiv (Mbar (constants env)) 2 - 1);
          recedeLength = 2 * (1 + r);
          s3 = s2\<lparr>numLevels := levelsOf recedeLength\<rparr>
      in if recedeLength < worm_length s3
         then (let s4 = s3\<lparr>headBead := prevN s3 (worm_head s3) (nat recedeLength)\<rparr>;
                   muShift = real_of_int recedeLength * const_tau (constants env)
                               * const_mu (constants env);
                   norm0 = attemptProb (constants env) ''advance head''
                             / attemptProb (constants env) ''recede head'';
                   norm = norm0 * ensembleWeight (actionPtr env) (- recedeLength);
                   s5 = s4\<lparr>numAttempted := numAttempted s4 + 1,
                           numAttemptedLevel := (numAttemptedLevel s4)
                              (numLevels s4 := numAttemptedLevel s4 (numLevels s4) + 1),
                           totAttempted := totAttempted s4 + 1\<rparr>;
                   s6 = s5\<lparr>special1 := headBead s5\<rparr>
               in if local_action (actionPtr env)
                  then RecedeHead_local env fuel recedeLength norm muShift s6
                  else RecedeHead_nonlocal env fuel recedeLength norm muShift s6)
         else Some (success s3, s3))"

subsection \<open>\<^verbatim>\<open>RecedeTailMove\<close>\<close>

definition RecedeTail_keepMove :: "Env \<Rightarrow> State \<Rightarrow> State" where
  "RecedeTail_keepMove env s =
     (let s1 = s\<lparr>numAccepted := numAccepted s + 1, totAccepted := totAccepted s + 1,
                 numAcceptedLevel := (numAcceptedLevel s)
                    (numLevels s := numAcceptedLevel s (numLevels s) + 1)\<rparr>;
          s2 = worm_update env s1 (worm_head s1) (tailBead s1)
      in s2\<lparr>isConfigDiagonal := False, success := True, calls := calls s2 @ [KeepMove]\<rparr>)"

text \<open>\<^verbatim>\<open>while (!all(beadIndex==XXX)) beadIndex = path.delBeadGetPrev(beadIndex)\<close>.\<close>

fun RecedeTail_deleteLoop :: "nat \<Rightarrow> State \<Rightarrow> beadLocator \<Rightarrow> State option" where
  "RecedeTail_deleteLoop 0 s beadIndex = None"
| "RecedeTail_deleteLoop (Suc fuel) s beadIndex =
     (if beadIndex \<noteq> XXX
      then (let (beadIndex', s1) = delBeadGetPrev s beadIndex
            in RecedeTail_deleteLoop fuel s1 beadIndex')
      else Some s)"

definition RecedeTail_undoMove :: "nat \<Rightarrow> State \<Rightarrow> State option" where
  "RecedeTail_undoMove fuel s =
     (let s1 = s\<lparr>worm_tail := special1 s\<rparr>
      in do {
           s2 \<leftarrow> RecedeTail_deleteLoop fuel s1 (prevLink s1 (worm_tail s1));
           (let s3 = s2\<lparr>prevLink := (prevLink s2)(worm_tail s2 := XXX)\<rparr>;
                s4 = s3\<lparr>isConfigDiagonal := False\<rparr>;
                s5 = s4\<lparr>special1 := XXX\<rparr>
            in Some (s5\<lparr>success := False, calls := calls s5 @ [UndoMove]\<rparr>)) })"

fun RecedeTail_sliceLoop ::
  "Env \<Rightarrow> nat \<Rightarrow> State \<Rightarrow> nat \<Rightarrow> real \<Rightarrow> beadLocator \<Rightarrow> real \<Rightarrow> real
     \<Rightarrow> (State + State \<times> beadLocator \<times> real \<times> real) option" where
  "RecedeTail_sliceLoop env fuel s 0 actionShift beadIndex deltaAction PNorm =
     Some (Inr (s, beadIndex, deltaAction, PNorm))"
| "RecedeTail_sliceLoop env fuel s (Suc n) actionShift beadIndex deltaAction PNorm =
     (let (pos, s1) = newFreeParticlePosition env s beadIndex;
          (beadIndex', s2) = addPrevBead env s1 beadIndex pos;
          deltaAction' = deltaAction
            + (barePotentialAction (actionPtr env) s2 beadIndex' - actionShift);
          P = min (exp (- deltaAction') / PNorm) 1;
          (u, s3) = draw_rand env s2
      in if u \<ge> P
         then do { s4 \<leftarrow> RecedeTail_undoMove fuel s3; Some (Inl s4) }
         else RecedeTail_sliceLoop env fuel s3 n actionShift beadIndex' deltaAction' (PNorm * P))"

fun growBackward :: "Env \<Rightarrow> State \<Rightarrow> nat \<Rightarrow> beadLocator \<Rightarrow> State \<times> beadLocator" where
  "growBackward env s 0 beadIndex = (s, beadIndex)"
| "growBackward env s (Suc n) beadIndex =
     (let (pos, s1) = newFreeParticlePosition env s beadIndex;
          (beadIndex', s2) = addPrevBead env s1 beadIndex pos
      in growBackward env s2 n beadIndex')"

text \<open>The branch of \<^verbatim>\<open>RecedeTailMove::attemptMove\<close> taken for a local action, where the
  trajectory is tested slice by slice.\<close>

definition RecedeTail_local :: "Env \<Rightarrow> nat \<Rightarrow> int \<Rightarrow> real \<Rightarrow> real \<Rightarrow> State \<Rightarrow> (bool \<times> State) option" where
  "RecedeTail_local env fuel recedeLength norm' muShift s =
     (let actionShift = (ln norm' + muShift) / real_of_int recedeLength;
          beadIndex = special1 s;
          deltaAction = 0 + (barePotentialAction (actionPtr env) s beadIndex
                             - 0.5 * actionShift);
          P = min (exp (- deltaAction) / 1) 1;
          (u, s7) = draw_rand env s
      in if u \<ge> P
         then do { s8 \<leftarrow> RecedeTail_undoMove fuel s7; Some (success s8, s8) }
         else do {
           res \<leftarrow> RecedeTail_sliceLoop env fuel s7 (nat (recedeLength - 1))
                    actionShift beadIndex deltaAction (1 * P);
           (case res of
              Inl s8 \<Rightarrow> Some (success s8, s8)
            | Inr (s8, beadIndex', deltaAction', PNorm) \<Rightarrow>
               (let (pos, s9) = newFreeParticlePosition env s8 beadIndex';
                    (t, s10) = addPrevBead env s9 beadIndex' pos;
                    s11 = s10\<lparr>tailBead := t\<rparr>;
                    s12 = s11\<lparr>worm_tail := tailBead s11\<rparr>;
                    deltaAction1 = deltaAction'
                      + (barePotentialAction (actionPtr env) s12 (tailBead s12)
                         - 0.5 * actionShift);
                    deltaAction2 = deltaAction1
                      + potentialActionCorrection (actionPtr env) s12
                          (tailBead s12) (special1 s12);
                    (u', s13) = draw_rand env s12
                in if u' < exp (- deltaAction2) / PNorm
                   then (let s14 = RecedeTail_keepMove env s13
                         in Some (success s14, s14))
                   else do { s14 \<leftarrow> RecedeTail_undoMove fuel s13;
                             Some (success s14, s14) })) })"

text \<open>The branch of \<^verbatim>\<open>RecedeTailMove::attemptMove\<close> taken for a non-local action, with a single
  test of the whole trajectory.\<close>

definition RecedeTail_nonlocal :: "Env \<Rightarrow> nat \<Rightarrow> int \<Rightarrow> real \<Rightarrow> real \<Rightarrow> State \<Rightarrow> (bool \<times> State) option" where
  "RecedeTail_nonlocal env fuel recedeLength norm' muShift s =
     (let (s7, beadIndex') = growBackward env s (nat recedeLength) (special1 s);
          s8 = s7\<lparr>tailBead := beadIndex'\<rparr>;
          s9 = s8\<lparr>worm_tail := tailBead s8\<rparr>;
          newAction = potentialAction (actionPtr env) s9 (tailBead s9) (special1 s9);
          (u, s10) = draw_rand env s9
      in if u < norm' * exp (- newAction + muShift)
         then (let s11 = RecedeTail_keepMove env s10 in Some (success s11, s11))
         else do { s11 \<leftarrow> RecedeTail_undoMove fuel s10; Some (success s11, s11) })"

definition RecedeTail_attemptMove :: "Env \<Rightarrow> nat \<Rightarrow> State \<Rightarrow> (bool \<times> State) option" where
  "RecedeTail_attemptMove env fuel s =
     (let s1 = s\<lparr>success := False\<rparr>;
          (r, s2) = draw_randInt env s1 (cdiv (Mbar (constants env)) 2 - 1);
          recedeLength = 2 * (1 + r);
          s3 = s2\<lparr>numLevels := levelsOf recedeLength\<rparr>;
          s4 = s3\<lparr>numAttempted := numAttempted s3 + 1,
                  numAttemptedLevel := (numAttemptedLevel s3)
                     (numLevels s3 := numAttemptedLevel s3 (numLevels s3) + 1),
                  totAttempted := totAttempted s3 + 1\<rparr>;
          muShift = real_of_int recedeLength * const_tau (constants env)
                      * const_mu (constants env);
          norm0 = attemptProb (constants env) ''advance tail''
                    / attemptProb (constants env) ''recede tail'';
          norm = norm0 * ensembleWeight (actionPtr env) recedeLength;
          s5 = s4\<lparr>special1 := worm_tail s4\<rparr>;
          s6 = s5\<lparr>worm_tail := XXX\<rparr>
      in if local_action (actionPtr env)
         then RecedeTail_local env fuel recedeLength norm muShift s6
         else RecedeTail_nonlocal env fuel recedeLength norm muShift s6)"

subsection \<open>\<^verbatim>\<open>SwapMoveBase\<close>\<close>

text \<open>\<^verbatim>\<open>getNorm\<close>: the sum of the free density matrices over the list of the lookup table,
  and the normalised cumulative sums.  The list is \<^verbatim>\<open>fullBeadList\<close> cut at
  \<^verbatim>\<open>fullNumBeads\<close>, and \<^verbatim>\<open>cumulant\<close> has been resized to that length.  With an empty list
  \<^verbatim>\<open>cumulant.at(0)\<close> throws.\<close>

fun cumulantLoop ::
  "Env \<Rightarrow> State \<Rightarrow> beadLocator \<Rightarrow> int \<Rightarrow> beadLocator list \<Rightarrow> real \<Rightarrow> real \<Rightarrow> real \<times> real list" where
  "cumulantLoop env s beadIndex swapLength [] Sigma_s c = (Sigma_s, [])"
| "cumulantLoop env s beadIndex swapLength (bd # bds) Sigma_s c =
     (let crho0 = rho0 (actionPtr env) s beadIndex bd swapLength;
          (Sigma_n, cs) = cumulantLoop env s beadIndex swapLength bds (Sigma_s + crho0) (c + crho0)
      in (Sigma_n, (c + crho0) # cs))"

definition getNorm :: "Env \<Rightarrow> State \<Rightarrow> beadLocator \<Rightarrow> int \<Rightarrow> (real \<times> State) option" where
  "getNorm env s beadIndex swapLength =
     (case fullBeadList s of
        [] \<Rightarrow> None
      | bd # bds \<Rightarrow>
          (let Sigma_0 = rho0 (actionPtr env) s beadIndex bd swapLength;
               (Sigma_s, cs) = cumulantLoop env s beadIndex swapLength bds Sigma_0 Sigma_0
           in Some (Sigma_s, s\<lparr>cumulant := map (\<lambda>c. c / Sigma_s) (Sigma_0 # cs)\<rparr>)))"

text \<open>\<^verbatim>\<open>selectPivotBead\<close>: \<^verbatim>\<open>std::lower_bound\<close> gives the first entry of the (ascending)
  cumulant that is not below the deviate; an index past the list reads outside it.\<close>

definition selectPivotBead :: "Env \<Rightarrow> State \<Rightarrow> (beadLocator \<times> State) option" where
  "selectPivotBead env s =
     (let (u, s1) = draw_rand env s;
          index = length (takeWhile (\<lambda>c. c < u) (cumulant s1))
      in if index < length (fullBeadList s1) then Some (fullBeadList s1 ! index, s1) else None)"

subsection \<open>\<^verbatim>\<open>SwapHeadMove\<close>\<close>

text \<open>The search of the swap bead: \<open>n\<close> steps backwards from the pivot; \<open>None\<close>: the worm
  tail was met (\<^verbatim>\<open>return false\<close>).\<close>

fun SwapHead_findSwap :: "State \<Rightarrow> beadLocator \<Rightarrow> nat \<Rightarrow> beadLocator option" where
  "SwapHead_findSwap s beadIndex 0 = Some beadIndex"
| "SwapHead_findSwap s beadIndex (Suc n) =
     (if beadIndex = worm_tail s then None
      else SwapHead_findSwap s (prevLink s beadIndex) n)"

text \<open>The loop that stores the positions between swap and pivot.\<close>

fun SwapHead_storeLoop :: "nat \<Rightarrow> State \<Rightarrow> beadLocator \<Rightarrow> int \<Rightarrow> State option" where
  "SwapHead_storeLoop 0 s beadIndex k = None"
| "SwapHead_storeLoop (Suc fuel) s beadIndex k =
     (let (s1, k') = (if beadIndex \<noteq> swapBead s \<and> beadIndex \<noteq> pivot s
                      then (s\<lparr>originalPos := (originalPos s)(k := beads s beadIndex)\<rparr>, k + 1)
                      else (s, k));
          beadIndex' = nextLink s1 beadIndex
      in if beadIndex' \<noteq> nextLink s1 (pivot s1)
         then SwapHead_storeLoop fuel s1 beadIndex' k'
         else Some s1)"

text \<open>The loop that proposes the new trajectory.\<close>

fun SwapHead_stageLoop :: "Env \<Rightarrow> nat \<Rightarrow> int \<Rightarrow> State \<Rightarrow> beadLocator \<Rightarrow> int \<Rightarrow> State option" where
  "SwapHead_stageLoop env 0 swapLength s beadIndex k = None"
| "SwapHead_stageLoop env (Suc fuel) swapLength s beadIndex k =
     (let (s1, k') = (if beadIndex \<noteq> special1 s \<and> beadIndex \<noteq> pivot s
                      then (let (pos, s2) = newStagingPosition env s (prevLink s beadIndex)
                                              (pivot s) swapLength k
                            in (updateBead s2 beadIndex pos, k + 1))
                      else (s, k));
          beadIndex' = nextLink s1 beadIndex
      in if beadIndex' \<noteq> nextLink s1 (pivot s1)
         then SwapHead_stageLoop env fuel swapLength s1 beadIndex' k'
         else Some s1)"

definition SwapHead_keepMove :: "Env \<Rightarrow> State \<Rightarrow> State" where
  "SwapHead_keepMove env s =
     (let s1 = s\<lparr>numAccepted := numAccepted s + 1, totAccepted := totAccepted s + 1,
                 numAcceptedLevel := (numAcceptedLevel s)
                    (numLevels s := numAcceptedLevel s (numLevels s) + 1)\<rparr>;
          s2 = worm_update env s1 (swapBead s1) (worm_tail s1)
      in s2\<lparr>success := True, calls := calls s2 @ [KeepMove]\<rparr>)"

fun SwapHead_undoLoop :: "nat \<Rightarrow> State \<Rightarrow> beadLocator \<Rightarrow> int \<Rightarrow> State option" where
  "SwapHead_undoLoop 0 s beadIndex k = None"
| "SwapHead_undoLoop (Suc fuel) s beadIndex k =
     (let s1 = updateBead s beadIndex (originalPos s k);
          beadIndex' = nextLink s1 beadIndex
      in if beadIndex' \<noteq> pivot s1
         then SwapHead_undoLoop fuel s1 beadIndex' (k + 1)
         else Some s1)"

definition SwapHead_undoMove :: "nat \<Rightarrow> State \<Rightarrow> State option" where
  "SwapHead_undoMove fuel s =
     (let s1 = s\<lparr>worm_head := special1 s\<rparr>;
          s2 = s1\<lparr>nextLink := (nextLink s1)(worm_head s1 := XXX)\<rparr>;
          s3 = s2\<lparr>nextLink := (nextLink s2)(swapBead s2 := nextSwap s2)\<rparr>;
          s4 = s3\<lparr>prevLink := (prevLink s3)(nextSwap s3 := swapBead s3)\<rparr>
      in do {
           s5 \<leftarrow> SwapHead_undoLoop fuel s4 (nextLink s4 (swapBead s4)) 0;
           (let s6 = s5\<lparr>isConfigDiagonal := False\<rparr>;
                s7 = s6\<lparr>special1 := XXX, special2 := XXX\<rparr>
            in Some (s7\<lparr>success := False, calls := calls s7 @ [UndoMove]\<rparr>)) })"

text \<open>The second half of \<^verbatim>\<open>SwapHeadMove::attemptMove\<close>, entered once the ratio of the two
  normalisations has passed its test: the links are exchanged, the new worldline section is
  staged and the change of action is tested.\<close>

definition SwapHead_reconnect :: "Env \<Rightarrow> nat \<Rightarrow> int \<Rightarrow> State \<Rightarrow> (bool \<times> State) option" where
  "SwapHead_reconnect env fuel swapLength s =
     (let s13 = s\<lparr>special1 := swapBead s,
                     special2 := pivot s\<rparr>
      in do {
       s14 \<leftarrow> SwapHead_storeLoop fuel s13 (swapBead s13) 0;
       (let oldAction = potentialAction (actionPtr env) s14
                          (swapBead s14) (pivot s14);
            s15 = s14\<lparr>nextSwap := nextLink s14 (swapBead s14)\<rparr>;
            s16 = s15\<lparr>nextLink := (nextLink s15)
                      (worm_head s15 := nextSwap s15)\<rparr>;
            s17 = s16\<lparr>nextLink := (nextLink s16)
                      (swapBead s16 := XXX)\<rparr>;
            s18 = s17\<lparr>prevLink := (prevLink s17)
                      (nextSwap s17 := worm_head s17)\<rparr>;
            s19 = s18\<lparr>special1 := worm_head s18\<rparr>;
            s20 = s19\<lparr>worm_head := swapBead s19\<rparr>
        in do {
         s21 \<leftarrow> SwapHead_stageLoop env fuel swapLength s20
                  (special1 s20) 0;
         (let newAction = potentialAction (actionPtr env) s21
                            (special1 s21) (pivot s21);
              (u', s22) = draw_rand env s21
          in if u' < exp (- (newAction - oldAction))
             then (let s23 = SwapHead_keepMove env s22
                   in Some (success s23, s23))
             else do {
               s23 \<leftarrow> SwapHead_undoMove fuel s22;
               Some (success s23, s23) }) }) })"

definition SwapHead_attemptMove :: "Env \<Rightarrow> nat \<Rightarrow> State \<Rightarrow> (bool \<times> State) option" where
  "SwapHead_attemptMove env fuel s =
     (let s1 = s\<lparr>success := False\<rparr>
      in if \<not> isConfigDiagonal s1
         then (let s2 = s1\<lparr>pivot := XXX, swapBead := XXX\<rparr>;
                   swapLength = Mbar (constants env);
                   s3 = s2\<lparr>numLevels := levelsOf swapLength\<rparr>;
                   pivotSlice0 = fst (worm_head s3) + swapLength;
                   pivotSlice = (if pivotSlice0 \<ge> numTimeSlices (constants env)
                                 then pivotSlice0 - numTimeSlices (constants env)
                                 else pivotSlice0);
                   s4 = s3\<lparr>fullBeadList := fullInteractionList env s3 (worm_head s3) pivotSlice\<rparr>
               in if length (fullBeadList s4) > 0
                  then do {
                    (SigmaHead, s5) \<leftarrow> getNorm env s4 (worm_head s4) swapLength;
                    (pv, s6) \<leftarrow> selectPivotBead env s5;
                    (let s7 = s6\<lparr>pivot := pv\<rparr>
                     in (case SwapHead_findSwap s7 (pivot s7) (nat swapLength) of
                           None \<Rightarrow> Some (False, s7)
                         | Some sw \<Rightarrow>
                            (let s8 = s7\<lparr>swapBead := sw\<rparr>
                             in if worm_tail s8 \<noteq> swapBead s8
                                   \<and> gridNeighbors env s8 (pivot s8) (swapBead s8)
                                then (let s9 = s8\<lparr>numAttempted := numAttempted s8 + 1,
                                                  totAttempted := totAttempted s8 + 1,
                                                  numAttemptedLevel := (numAttemptedLevel s8)
                                                    (numLevels s8 :=
                                                       numAttemptedLevel s8 (numLevels s8) + 1)\<rparr>;
                                          s10 = (if \<not> gridShare env s9 (worm_head s9) (swapBead s9)
                                                 then s9\<lparr>fullBeadList := fullInteractionList env s9
                                                            (swapBead s9) pivotSlice\<rparr>
                                                 else s9)
                                      in do {
                                           (SigmaSwap, s11) \<leftarrow> getNorm env s10 (swapBead s10) swapLength;
                                           (let PNorm = min (SigmaHead / SigmaSwap) 1;
                                                (u, s12) = draw_rand env s11
                                            in if u < PNorm
                                               then SwapHead_reconnect env fuel swapLength s12
                                               else Some (success s12, s12)) })
                                else Some (success s8, s8)))) }
                  else Some (success s4, s4))
         else Some (success s1, s1))"

subsection \<open>\<^verbatim>\<open>SwapTailMove\<close>\<close>

fun SwapTail_findSwap :: "State \<Rightarrow> beadLocator \<Rightarrow> nat \<Rightarrow> beadLocator option" where
  "SwapTail_findSwap s beadIndex 0 = Some beadIndex"
| "SwapTail_findSwap s beadIndex (Suc n) =
     (if beadIndex = worm_head s then None
      else SwapTail_findSwap s (nextLink s beadIndex) n)"

fun SwapTail_storeLoop :: "nat \<Rightarrow> State \<Rightarrow> beadLocator \<Rightarrow> int \<Rightarrow> State option" where
  "SwapTail_storeLoop 0 s beadIndex k = None"
| "SwapTail_storeLoop (Suc fuel) s beadIndex k =
     (let (s1, k') = (if beadIndex \<noteq> swapBead s \<and> beadIndex \<noteq> pivot s
                      then (s\<lparr>originalPos := (originalPos s)(k := beads s beadIndex)\<rparr>, k + 1)
                      else (s, k));
          beadIndex' = prevLink s1 beadIndex
      in if beadIndex' \<noteq> prevLink s1 (pivot s1)
         then SwapTail_storeLoop fuel s1 beadIndex' k'
         else Some s1)"

fun SwapTail_stageLoop :: "Env \<Rightarrow> nat \<Rightarrow> int \<Rightarrow> State \<Rightarrow> beadLocator \<Rightarrow> int \<Rightarrow> State option" where
  "SwapTail_stageLoop env 0 swapLength s beadIndex k = None"
| "SwapTail_stageLoop env (Suc fuel) swapLength s beadIndex k =
     (let (s1, k') = (if beadIndex \<noteq> special1 s \<and> beadIndex \<noteq> pivot s
                      then (let (pos, s2) = newStagingPosition env s (nextLink s beadIndex)
                                              (pivot s) swapLength k
                            in (updateBead s2 beadIndex pos, k + 1))
                      else (s, k));
          beadIndex' = prevLink s1 beadIndex
      in if beadIndex' \<noteq> prevLink s1 (pivot s1)
         then SwapTail_stageLoop env fuel swapLength s1 beadIndex' k'
         else Some s1)"

definition SwapTail_keepMove :: "Env \<Rightarrow> State \<Rightarrow> State" where
  "SwapTail_keepMove env s =
     (let s1 = s\<lparr>numAccepted := numAccepted s + 1, totAccepted := totAccepted s + 1,
                 numAcceptedLevel := (numAcceptedLevel s)
                    (numLevels s := numAcceptedLevel s (numLevels s) + 1)\<rparr>;
          s2 = worm_update env s1 (worm_head s1) (swapBead s1);
          s3 = s2\<lparr>shift := 1\<rparr>
      in s3\<lparr>success := True, calls := calls s3 @ [KeepMove]\<rparr>)"

fun SwapTail_undoLoop :: "nat \<Rightarrow> State \<Rightarrow> beadLocator \<Rightarrow> int \<Rightarrow> State option" where
  "SwapTail_undoLoop 0 s beadIndex k = None"
| "SwapTail_undoLoop (Suc fuel) s beadIndex k =
     (let s1 = updateBead s beadIndex (originalPos s k);
          beadIndex' = prevLink s1 beadIndex
      in if beadIndex' \<noteq> pivot s1
         then SwapTail_undoLoop fuel s1 beadIndex' (k + 1)
         else Some s1)"

definition SwapTail_undoMove :: "nat \<Rightarrow> State \<Rightarrow> State option" where
  "SwapTail_undoMove fuel s =
     (let s1 = s\<lparr>worm_tail := special1 s\<rparr>;
          s2 = s1\<lparr>prevLink := (prevLink s1)(worm_tail s1 := XXX)\<rparr>;
          s3 = s2\<lparr>prevLink := (prevLink s2)(swapBead s2 := prevSwap s2)\<rparr>;
          s4 = s3\<lparr>nextLink := (nextLink s3)(prevSwap s3 := swapBead s3)\<rparr>
      in do {
           s5 \<leftarrow> SwapTail_undoLoop fuel s4 (prevLink s4 (swapBead s4)) 0;
           (let s6 = s5\<lparr>special1 := XXX, special2 := XXX\<rparr>;
                s7 = s6\<lparr>isConfigDiagonal := False\<rparr>
            in Some (s7\<lparr>success := False, calls := calls s7 @ [UndoMove]\<rparr>)) })"

text \<open>The second half of \<^verbatim>\<open>SwapTailMove::attemptMove\<close>, entered once the ratio of the two
  normalisations has passed its test: the links are exchanged, the new worldline section is
  staged and the change of action is tested.\<close>

definition SwapTail_reconnect :: "Env \<Rightarrow> nat \<Rightarrow> int \<Rightarrow> State \<Rightarrow> (bool \<times> State) option" where
  "SwapTail_reconnect env fuel swapLength s =
     (let s13 = s\<lparr>special1 := swapBead s,
                     special2 := pivot s\<rparr>
      in do {
       s14 \<leftarrow> SwapTail_storeLoop fuel s13 (swapBead s13) 0;
       (let oldAction = potentialAction (actionPtr env) s14
                          (pivot s14) (swapBead s14);
            s15 = s14\<lparr>prevSwap := prevLink s14 (swapBead s14)\<rparr>;
            s16 = s15\<lparr>prevLink := (prevLink s15)
                      (worm_tail s15 := prevSwap s15)\<rparr>;
            s17 = s16\<lparr>prevLink := (prevLink s16)
                      (swapBead s16 := XXX)\<rparr>;
            s18 = s17\<lparr>nextLink := (nextLink s17)
                      (prevSwap s17 := worm_tail s17)\<rparr>;
            s19 = s18\<lparr>special1 := worm_tail s18\<rparr>;
            s20 = s19\<lparr>worm_tail := swapBead s19\<rparr>
        in do {
         s21 \<leftarrow> SwapTail_stageLoop env fuel swapLength s20
                  (special1 s20) 0;
         (let newAction = potentialAction (actionPtr env) s21
                            (pivot s21) (special1 s21);
              (u', s22) = draw_rand env s21
          in if u' < exp (- (newAction - oldAction))
             then (let s23 = SwapTail_keepMove env s22
                   in Some (success s23, s23))
             else do {
               s23 \<leftarrow> SwapTail_undoMove fuel s22;
               Some (success s23, s23) }) }) })"

definition SwapTail_attemptMove :: "Env \<Rightarrow> nat \<Rightarrow> State \<Rightarrow> (bool \<times> State) option" where
  "SwapTail_attemptMove env fuel s =
     (let s1 = s\<lparr>success := False\<rparr>
      in if \<not> isConfigDiagonal s1
         then (let s2 = s1\<lparr>pivot := XXX, swapBead := XXX\<rparr>;
                   swapLength = Mbar (constants env);
                   s3 = s2\<lparr>numLevels := levelsOf swapLength\<rparr>;
                   pivotSlice0 = fst (worm_tail s3) - swapLength;
                   pivotSlice = (if pivotSlice0 < 0
                                 then pivotSlice0 + numTimeSlices (constants env)
                                 else pivotSlice0);
                   s4 = s3\<lparr>fullBeadList := fullInteractionList env s3 (worm_tail s3) pivotSlice\<rparr>
               in if length (fullBeadList s4) > 0
                  then do {
                    (SigmaTail, s5) \<leftarrow> getNorm env s4 (worm_tail s4) swapLength;
                    (pv, s6) \<leftarrow> selectPivotBead env s5;
                    (let s7 = s6\<lparr>pivot := pv\<rparr>
                     in (case SwapTail_findSwap s7 (pivot s7) (nat swapLength) of
                           None \<Rightarrow> Some (False, s7)
                         | Some sw \<Rightarrow>
                            (let s8 = s7\<lparr>swapBead := sw\<rparr>
                             in if worm_head s8 \<noteq> swapBead s8
                                   \<and> gridNeighbors env s8 (pivot s8) (swapBead s8)
                                then (let s9 = s8\<lparr>numAttempted := numAttempted s8 + 1,
                                                  totAttempted := totAttempted s8 + 1,
                                                  numAttemptedLevel := (numAttemptedLevel s8)
                                                    (numLevels s8 :=
                                                       numAttemptedLevel s8 (numLevels s8) + 1)\<rparr>;
                                          s10 = (if \<not> gridShare env s9 (worm_tail s9) (swapBead s9)
                                                 then s9\<lparr>fullBeadList := fullInteractionList env s9
                                                            (swapBead s9) pivotSlice\<rparr>
                                                 else s9)
                                      in do {
                                           (SigmaSwap, s11) \<leftarrow> getNorm env s10 (swapBead s10) swapLength;
                                           (let PNorm = min (SigmaTail / SigmaSwap) 1;
                                                (u, s12) = draw_rand env s11
                                            in if u < PNorm
                                               then SwapTail_reconnect env fuel swapLength s12
                                               else Some (success s12, s12)) })
                                else Some (success s8, s8)))) }
                  else Some (success s4, s4))
         else Some (success s1, s1))"

subsection \<open>All the moves\<close>

text \<open>The move families of the engine, and \<^verbatim>\<open>attemptMove\<close> of a move of each family.\<close>

datatype move =
    CenterOfMass | Staging | Bisection | Open | Close | Insert | Remove
  | AdvanceHead | AdvanceTail | RecedeHead | RecedeTail | SwapHead | SwapTail

fun attemptMove :: "move \<Rightarrow> Env \<Rightarrow> nat \<Rightarrow> State \<Rightarrow> (bool \<times> State) option" where
  "attemptMove CenterOfMass = CenterOfMass_attemptMove"
| "attemptMove Staging = Staging_attemptMove"
| "attemptMove Bisection = Bisection_attemptMove"
| "attemptMove Open = Open_attemptMove"
| "attemptMove Close = Close_attemptMove"
| "attemptMove Insert = Insert_attemptMove"
| "attemptMove Remove = Remove_attemptMove"
| "attemptMove AdvanceHead = AdvanceHead_attemptMove"
| "attemptMove AdvanceTail = AdvanceTail_attemptMove"
| "attemptMove RecedeHead = RecedeHead_attemptMove"
| "attemptMove RecedeTail = RecedeTail_attemptMove"
| "attemptMove SwapHead = SwapHead_attemptMove"
| "attemptMove SwapTail = SwapTail_attemptMove"

section \<open>Notions used by the properties\<close>

text \<open>A predicate holds of the result of a call, if the call returns.\<close>

definition holds_opt :: "('a \<Rightarrow> bool) \<Rightarrow> 'a option \<Rightarrow> bool" where
  "holds_opt P m = (case m of None \<Rightarrow> True | Some x \<Rightarrow> P x)"

text \<open>The time step shift of the action, the helper calls made so far, and \<^verbatim>\<open>success\<close>.\<close>

definition ctl :: "State \<Rightarrow> int \<times> helper_call list \<times> bool" where
  "ctl s = (shift s, calls s, success s)"

text \<open>These three after a helper has run and has left the shift \<open>sh\<close>.\<close>

definition after_call :: "helper_call \<Rightarrow> int \<Rightarrow> int \<times> helper_call list \<times> bool
    \<Rightarrow> int \<times> helper_call list \<times> bool" where
  "after_call c sh x = (sh, fst (snd x) @ [c], c = KeepMove)"

text \<open>The configuration: the worldline data (positions, links, the number of beads on
  every slice, the bead-on bits) and the worm (head, tail, length, gap, the two special
  beads, the diagonality flag).\<close>

definition configuration :: "State \<Rightarrow> (beadLocator \<Rightarrow> dVec) \<times> (beadLocator \<Rightarrow> beadLocator)
    \<times> (beadLocator \<Rightarrow> beadLocator) \<times> (int \<Rightarrow> int) \<times> (beadLocator \<Rightarrow> bool)
    \<times> beadLocator \<times> beadLocator \<times> int \<times> int \<times> beadLocator \<times> beadLocator \<times> bool" where
  "configuration s = (beads s, nextLink s, prevLink s, numBeadsAtSlice s, beadOn s,
            worm_head s, worm_tail s, worm_length s, worm_gap s, special1 s, special2 s,
            isConfigDiagonal s)"

definition same_config :: "State \<Rightarrow> State \<Rightarrow> bool" where
  "same_config s t =
     (beads t = beads s \<and> nextLink t = nextLink s \<and> prevLink t = prevLink s \<and>
      numBeadsAtSlice t = numBeadsAtSlice s \<and> beadOn t = beadOn s \<and>
      worm_head t = worm_head s \<and> worm_tail t = worm_tail s \<and>
      worm_length t = worm_length s \<and> worm_gap t = worm_gap s \<and>
      special1 t = special1 s \<and> special2 t = special2 s \<and>
      isConfigDiagonal t = isConfigDiagonal s)"

text \<open>What a call that has reached a test of its proposal and returns \<open>r\<close> has done: a shift
  of one is one again, and exactly one helper has been called, once: \<^verbatim>\<open>keepMove\<close> when it
  returns true, \<^verbatim>\<open>undoMove\<close> when it returns false.\<close>

definition decided :: "State \<Rightarrow> bool \<Rightarrow> State \<Rightarrow> bool" where
  "decided s r s' =
     ((shift s = 1 \<longrightarrow> shift s' = 1) \<and>
      (calls s' = calls s @ [KeepMove] \<and> r \<or> calls s' = calls s @ [UndoMove] \<and> \<not> r))"

text \<open>What one call of \<^verbatim>\<open>attemptMove\<close> that returns \<open>r\<close> has done: either the above, or it has
  called no helper, returns false and has left the configuration and the shift as they
  were.\<close>

definition outcome :: "State \<Rightarrow> bool \<Rightarrow> State \<Rightarrow> bool" where
  "outcome s r s' =
     (decided s r s' \<or>
      (calls s' = calls s \<and> \<not> r \<and> same_config s s' \<and> shift s' = shift s))"

text \<open>The worldline data of two states are the same: positions, links, the number of beads
  on every slice, and the bead-on bits.\<close>

definition same_path :: "State \<Rightarrow> State \<Rightarrow> bool" where
  "same_path s t =
     (beads t = beads s \<and> nextLink t = nextLink s \<and> prevLink t = prevLink s \<and>
      numBeadsAtSlice t = numBeadsAtSlice s \<and> beadOn t = beadOn s)"

text \<open>Between two states, exactly one of the two helpers has been called, exactly once.\<close>

definition one_helper_call :: "State \<Rightarrow> State \<Rightarrow> bool" where
  "one_helper_call s t = (calls t = calls s @ [KeepMove] \<or> calls t = calls s @ [UndoMove])"

text \<open>The worldline data together with the worm's head, tail, length, gap and special
  beads, as one value (the configuration without the diagonality flag).\<close>

definition worldlines :: "State \<Rightarrow> ((beadLocator \<Rightarrow> dVec) \<times> (beadLocator \<Rightarrow> beadLocator)
    \<times> (beadLocator \<Rightarrow> beadLocator) \<times> (int \<Rightarrow> int) \<times> (beadLocator \<Rightarrow> bool))
    \<times> beadLocator \<times> beadLocator \<times> int \<times> int \<times> beadLocator \<times> beadLocator" where
  "worldlines s =
     ((beads s, nextLink s, prevLink s, numBeadsAtSlice s, beadOn s),
      worm_head s, worm_tail s, worm_length s, worm_gap s, special1 s, special2 s)"


text \<open>\<^verbatim>\<open>LBIG\<close> of \<^verbatim>\<open>common.h\<close>, "the log of a big number".\<close>

definition LBIG :: real where
  "LBIG = 69.07755279"

text \<open>The Metropolis test as the specification words it: for an action difference above
  \<^verbatim>\<open>LBIG\<close> the acceptance probability is saturated at zero, below \<open>-\<close>\<^verbatim>\<open>LBIG\<close> at one, and
  in between it is \<open>exp (- \<Delta>S)\<close>.\<close>

definition saturated_test :: "real \<Rightarrow> real \<Rightarrow> bool" where
  "saturated_test u dS = (if dS > LBIG then False else if dS < - LBIG then True else u < exp (- dS))"

section \<open>Concrete systems\<close>

subsection \<open>A classical system\<close>

text \<open>A small system: no potential, a box of volume one, temperature one, a generator
  that returns zero.\<close>

definition cmc_env0 :: cmc_env where
  "cmc_env0 =
     \<lparr> externalV = (\<lambda>r. 0), interactionV = (\<lambda>r. 0),
       cmc_random = \<lparr> rand = (\<lambda>i. 0), randInt = (\<lambda>i n. 0), randNorm = (\<lambda>i m sd. m) \<rparr>,
       cmc_boxPtr = \<lparr> putInBC = (\<lambda>r. r), putInside = (\<lambda>r. r), volume = 1, side = [1],
                      periodic = [1], randPosition = (\<lambda>i. [0]), randUpdate = (\<lambda>i r. r) \<rparr>,
       cmc_mu = 0, cmc_T = 1, cmc_dBWavelength = 1, cmc_NDIM = 1 \<rparr>"

definition cmc_state0 :: "dVec list \<Rightarrow> ClassicalMonteCarlo" where
  "cmc_state0 cfg =
     \<lparr> config = cfg, numParticles = int (length cfg), z = 1, energy = 0,
       numUpdateTotal = 0, numUpdateAccept = 0, numInsertTotal = 0, numInsertAccept = 0,
       numDeleteTotal = 0, numDeleteAccept = 0, cmc_rng = 0 \<rparr>"


subsection \<open>A quantum system with two time slices\<close>

text \<open>Constants: two time slices, \<open>Mbar = 2\<close>, \<open>2\<lambda>\<tau> = 1\<close>, one dimension.\<close>

definition consts0 :: Constants where
  "consts0 =
     \<lparr> Mbar = 2, numTimeSlices = 2, const_b = 1, const_C = 1, const_mu = 0, const_tau = 1,
       const_lambda = 1 / 2, const_Delta = 1, attemptProb = (\<lambda>n. 1), NDIM = 1 \<rparr>"

text \<open>A periodic box of side one whose wrapping functions leave a position as it is, a
  generator whose uniform deviate is always \<open>u\<close>, whose integers are zero and whose normal
  deviate is its mean, and an action that is zero everywhere.\<close>

definition box0 :: Container where
  "box0 = \<lparr> putInBC = (\<lambda>r. r), putInside = (\<lambda>r. r), volume = 1, side = [1],
            periodic = [1], randPosition = (\<lambda>i. [0]), randUpdate = (\<lambda>i r. r) \<rparr>"

definition gen0 :: "real \<Rightarrow> MTRand" where
  "gen0 u = \<lparr> rand = (\<lambda>i. u), randInt = (\<lambda>i n. 0), randNorm = (\<lambda>i m sd. m) \<rparr>"

definition action0 :: "bool \<Rightarrow> Action" where
  "action0 loc =
     \<lparr> local_action = loc, potentialAction = (\<lambda>s b1 b2. 0), potentialAction1 = (\<lambda>s b1. 0),
       barePotentialAction = (\<lambda>s b1. 0), potentialActionCorrection = (\<lambda>s b1 b2. 0),
       rho0 = (\<lambda>s b1 b2 n. 1), ensembleWeight = (\<lambda>n. 1) \<rparr>"

text \<open>The environment: a bead is on the worm when the configuration has a worm (the
  systems below have one worldline), nothing is too costly, one particle.\<close>

definition env0 :: "real \<Rightarrow> bool \<Rightarrow> Env" where
  "env0 u loc =
     \<lparr> constants = consts0, boxPtr = box0, random = gen0 u, actionPtr = action0 loc,
       foundBead = (\<lambda>s bd. \<not> isConfigDiagonal s),
       tooCostly2 = (\<lambda>s sep g. False), tooCostly0 = (\<lambda>s. False),
       getNumBeadsOn = (\<lambda>s. numBeadsAtSlice s 0 + numBeadsAtSlice s 1),
       getTrueNumParticles = (\<lambda>s. numBeadsAtSlice s 0),
       wormLength = (\<lambda>s h t. if fst h = fst t then 0 else 1),
       fullInteractionList = (\<lambda>s bd sl. []),
       gridNeighbors = (\<lambda>s b1 b2. True), gridShare = (\<lambda>s b1 b2. True) \<rparr>"

text \<open>The empty configuration: no bead, no worm, the shift at one.\<close>

definition empty0 :: State where
  "empty0 =
     \<lparr> beads = (\<lambda>bd. [0]), nextLink = (\<lambda>bd. XXX), prevLink = (\<lambda>bd. XXX),
       numBeadsAtSlice = (\<lambda>t. 0), beadOn = (\<lambda>bd. False),
       worm_head = XXX, worm_tail = XXX, worm_length = 0, worm_gap = 0,
       special1 = XXX, special2 = XXX, isConfigDiagonal = True, fullBeadList = [],
       shift = 1, rng = 0, success = False,
       numAccepted = 0, numAttempted = 0, totAccepted = 0, totAttempted = 0,
       numAcceptedLevel = (\<lambda>l. 0), numAttemptedLevel = (\<lambda>l. 0), numLevels = 0,
       originalPos = (\<lambda>k. [0]), newPos = (\<lambda>k. [0]), include_flag = (\<lambda>k. True),
       startBead = XXX, endBead = XXX, headBead = XXX, tailBead = XXX,
       pivot = XXX, swapBead = XXX, nextSwap = XXX, prevSwap = XXX,
       cumulant = [], calls = [] \<rparr>"

text \<open>One closed worldline of two beads, \<open>(0,0)\<close> and \<open>(1,0)\<close>, both at the origin.\<close>

definition ring0 :: State where
  "ring0 =
     empty0\<lparr> nextLink := (\<lambda>bd. if bd = (0, 0) then (1, 0) else if bd = (1, 0) then (0, 0) else XXX),
             prevLink := (\<lambda>bd. if bd = (0, 0) then (1, 0) else if bd = (1, 0) then (0, 0) else XXX),
             numBeadsAtSlice := (\<lambda>t. if t = 0 \<or> t = 1 then 1 else 0),
             beadOn := (\<lambda>bd. bd = (0, 0) \<or> bd = (1, 0)) \<rparr>"

text \<open>The same two beads as a worm: the tail \<open>(0,0)\<close> linked forward to the head \<open>(1,0)\<close>.
  The worm length is a parameter.\<close>

definition worm0 :: "int \<Rightarrow> State" where
  "worm0 len =
     empty0\<lparr> nextLink := (\<lambda>bd. if bd = (0, 0) then (1, 0) else XXX),
             prevLink := (\<lambda>bd. if bd = (1, 0) then (0, 0) else XXX),
             numBeadsAtSlice := (\<lambda>t. if t = 0 \<or> t = 1 then 1 else 0),
             beadOn := (\<lambda>bd. bd = (0, 0) \<or> bd = (1, 0)),
             worm_head := (1, 0), worm_tail := (0, 0), worm_length := len, worm_gap := 1,
             isConfigDiagonal := False \<rparr>"

text \<open>The system of two slices with an action that grows steeply with the distance of the
  bead \<open>(0,0)\<close> from the origin, and the state of the centre of mass move on the closed
  worldline once it has drawn its shift, which is \<open>-1/2\<close>.\<close>

definition steep0 :: Env where
  "steep0 = (env0 0 False)
     \<lparr>actionPtr := (action0 False)\<lparr>potentialAction := (\<lambda>s b1 b2. 140 * \<bar>hd (beads s (0, 0))\<bar>)\<rparr>\<rparr>"

definition ring0_proposed :: State where
  "ring0_proposed =
     ring0\<lparr>rng := 2, startBead := (0, 0), endBead := (1, 0), numAttempted := 1,
           totAttempted := 1, originalPos := (\<lambda>k. if k = 0 then [- 1 / 2] else [0])\<rparr>"

section \<open>Properties of the classical Monte Carlo variant\<close>

lemma ebind_Inr [simp]: "ebind (Inr a) f = f a"
  by (simp add: ebind_def)

lemma ebind_Inl [simp]: "ebind (Inl e) f = Inl e"
  by (simp add: ebind_def)

lemma config_at_in_range:
  "0 \<le> p \<Longrightarrow> p < int (length cfg) \<Longrightarrow> config_at cfg p = Inr (cfg ! nat p)"
  by (simp add: config_at_def)

lemma config_set_in_range:
  "0 \<le> p \<Longrightarrow> p < int (length cfg) \<Longrightarrow> config_set cfg p v = Inr (cfg[nat p := v])"
  by (simp add: config_set_def)

lemma interactionLoop_sum:
  "0 \<le> p2 \<Longrightarrow> p2 + int n \<le> int (length cfg) \<Longrightarrow>
   interactionLoop env cfg pos skip p2 n E =
     Inr (E + (\<Sum>k\<in>{k \<in> {nat p2 ..< nat p2 + n}. skip \<noteq> Some (int k)}.
                 interactionV env (putInside (cmc_boxPtr env) (vsub pos (cfg ! k)))))"
proof (induction n arbitrary: p2 E)
  case 0
  then show ?case by simp
next
  case (Suc n)
  let ?f = "\<lambda>k. interactionV env (putInside (cmc_boxPtr env) (vsub pos (cfg ! k)))"
  let ?S = "\<lambda>a m. {k \<in> {a ..< a + m}. skip \<noteq> Some (int k)}"
  have next_p2: "nat (p2 + 1) = Suc (nat p2)" using Suc.prems by simp
  have IH: "interactionLoop env cfg pos skip (p2 + 1) n E' = Inr (E' + sum ?f (?S (Suc (nat p2)) n))" for E'
    using Suc.IH [of "p2 + 1" E'] Suc.prems by (simp add: next_p2)
  have split: "{nat p2 ..< nat p2 + Suc n} = insert (nat p2) {Suc (nat p2) ..< Suc (nat p2) + n}"
    by auto
  show ?case
  proof (cases "skip = Some p2")
    case True
    then have "?S (nat p2) (Suc n) = ?S (Suc (nat p2)) n"
      using Suc.prems by (auto simp: split)
    with True IH show ?thesis by simp
  next
    case False
    then have eq: "?S (nat p2) (Suc n) = insert (nat p2) (?S (Suc (nat p2)) n)"
      using Suc.prems by (auto simp: split)
    have notin: "nat p2 \<notin> ?S (Suc (nat p2)) n" by simp
    have fin: "finite (?S (Suc (nat p2)) n)" by simp
    have "sum ?f (?S (nat p2) (Suc n)) = ?f (nat p2) + sum ?f (?S (Suc (nat p2)) n)"
      unfolding eq by (rule sum.insert [OF fin notin])
    with False IH Suc.prems show ?thesis
      by (simp add: config_at_in_range)
  qed
qed

lemma particleEnergy_spec:
  "0 \<le> numParticles s \<Longrightarrow> numParticles s \<le> int (length (config s)) \<Longrightarrow>
   particleEnergy env s pos skip =
     Inr (pairPlusExternal env (config s) pos
            {k \<in> {0 ..< nat (numParticles s)}. skip \<noteq> Some (int k)})"
  using interactionLoop_sum [of 0 "nat (numParticles s)" "config s" env pos skip "externalV env pos"]
  by (simp add: particleEnergy_def pairPlusExternal_def)

lemma particleEnergy_None:
  "0 \<le> numParticles s \<Longrightarrow> numParticles s \<le> int (length (config s)) \<Longrightarrow>
   particleEnergy env s pos None =
     Inr (pairPlusExternal env (config s) pos {0 ..< nat (numParticles s)})"
proof -
  have "{k \<in> {0 ..< nat (numParticles s)}. (None :: int option) \<noteq> Some (int k)}
          = {0 ..< nat (numParticles s)}"
    by auto
  then show "0 \<le> numParticles s \<Longrightarrow> numParticles s \<le> int (length (config s)) \<Longrightarrow> ?thesis"
    using particleEnergy_spec [of s env pos None] by simp
qed

lemma particleEnergy_Some:
  "0 \<le> numParticles s \<Longrightarrow> numParticles s \<le> int (length (config s)) \<Longrightarrow> 0 \<le> p \<Longrightarrow>
   particleEnergy env s pos (Some p) =
     Inr (pairPlusExternal env (config s) pos ({0 ..< nat (numParticles s)} - {nat p}))"
proof -
  assume p: "0 \<le> p"
  have "{k \<in> {0 ..< nat (numParticles s)}. Some p \<noteq> Some (int k)}
          = {0 ..< nat (numParticles s)} - {nat p}"
    using p by auto
  then show "0 \<le> numParticles s \<Longrightarrow> numParticles s \<le> int (length (config s)) \<Longrightarrow> ?thesis"
    using particleEnergy_spec [of s env pos "Some p"] by simp
qed




subsection \<open>The constructor\<close>

text \<open>The constructor reads the array inside its extent, so it returns.\<close>

lemma totalEnergyLoop_defined:
  "0 \<le> part1 \<Longrightarrow> part1 + int n \<le> int (length (config s)) \<Longrightarrow>
   \<exists>E'. totalEnergyLoop env s part1 n E = Inr E'"
proof (induction n arbitrary: part1 E)
  case 0
  show ?case by simp
next
  case (Suc n)
  have inner: "0 \<le> part1 + 1" "part1 + 1 + int n \<le> int (length (config s))"
    using Suc.prems by simp_all
  have here: "config_at (config s) part1 = Inr (config s ! nat part1)"
    using Suc.prems by (simp add: config_at_in_range)
  obtain E1 where E1: "interactionLoop env (config s) (config s ! nat part1) None (part1 + 1) n
      (E + externalV env (config s ! nat part1)) = Inr E1"
    using interactionLoop_sum [OF inner] by blast
  from Suc.IH [OF inner, of E1] here E1 show ?case by simp
qed

lemma cmc_construct_returns:
  "\<exists>s0. cmc_construct env initialPos = Inr s0
        \<and> z s0 = exp (cmc_mu env / cmc_T env) / cmc_dBWavelength env ^ cmc_NDIM env
        \<and> numParticles s0 = int (length initialPos) \<and> config s0 = initialPos
        \<and> cmc_rng s0 = 0"
proof -
  let ?s = "\<lparr> config = initialPos, numParticles = int (length initialPos),
              z = exp (cmc_mu env / cmc_T env) / (cmc_dBWavelength env) ^ (cmc_NDIM env),
              energy = 0, numUpdateTotal = 0, numUpdateAccept = 0,
              numInsertTotal = 0, numInsertAccept = 0,
              numDeleteTotal = 0, numDeleteAccept = 0, cmc_rng = 0 \<rparr>"
  obtain E where "totalEnergyLoop env ?s 0 (length initialPos) 0 = Inr E"
    using totalEnergyLoop_defined [of 0 "length initialPos" ?s env 0] by auto
  then show ?thesis
    by (simp add: cmc_construct_def getTotalEnergy_def)
qed

text \<open>No move changes the fugacity, and a move that returns leaves the number of particles
  between zero and the extent of the array.\<close>

lemma cmc_apply_invariant:
  assumes "cmc_apply env mv s = Inr s'"
    and "0 \<le> numParticles s" and "numParticles s \<le> int (length (config s))"
  shows "z s' = z s \<and> 0 \<le> numParticles s' \<and> numParticles s' \<le> int (length (config s'))"
proof (cases mv)
  case UpdateMove
  with assms show ?thesis
    by (auto simp: updateMove_def Let_def ebind_def config_at_def config_set_def
        split: sum.splits if_splits)
next
  case InsertMove
  with assms show ?thesis
    by (auto simp: insertMove_def Let_def ebind_def config_set_def resizeAndPreserve_def
        split: sum.splits if_splits)
next
  case DeleteMove
  with assms show ?thesis
    by (auto simp: deleteMove_def Let_def ebind_def config_at_def config_set_def
        split: sum.splits if_splits)
qed

lemma cmc_moves_invariant:
  assumes "cmc_moves env mvs s = Inr s'"
    and "0 \<le> numParticles s" and "numParticles s \<le> int (length (config s))"
  shows "z s' = z s \<and> 0 \<le> numParticles s' \<and> numParticles s' \<le> int (length (config s'))"
  using assms
proof (induction mvs arbitrary: s)
  case Nil
  then show ?case by simp
next
  case (Cons mv mvs)
  from Cons.prems(1) obtain t where t: "cmc_apply env mv s = Inr t" and rest: "cmc_moves env mvs t = Inr s'"
    by (cases "cmc_apply env mv s") simp_all
  from cmc_apply_invariant [OF t Cons.prems(2,3)] Cons.IH [OF rest] show ?case
    by simp
qed

lemma cmc_simulation_invariant:
  assumes "cmc_simulation env initialPos mvs = Inr s"
  shows "z s = exp (cmc_mu env / cmc_T env) / cmc_dBWavelength env ^ cmc_NDIM env
         \<and> 0 \<le> numParticles s \<and> numParticles s \<le> int (length (config s))"
proof -
  obtain s0 where s0: "cmc_construct env initialPos = Inr s0"
    and z0: "z s0 = exp (cmc_mu env / cmc_T env) / cmc_dBWavelength env ^ cmc_NDIM env"
    and n0: "numParticles s0 = int (length initialPos)" and c0: "config s0 = initialPos"
    using cmc_construct_returns [of env initialPos] by blast
  from assms s0 have run: "cmc_moves env mvs s0 = Inr s"
    by (simp add: cmc_simulation_def)
  from cmc_moves_invariant [OF run] z0 n0 c0 show ?thesis by simp
qed

subsection \<open>The moves on an empty system\<close>



subsection \<open>The grand canonical factors\<close>

text \<open>
  Claim C9.  The constructor returns a system with the given positions and the fugacity
  \<open>z = exp(\<mu>/T) / \<Lambda>^D\<close>; no move changes it.  So in every state \<open>s\<close> that a sequence of moves reaches from the system the
  constructor has built, \<open>z\<close> is that number, and with \<open>N\<close> the number of particles and \<open>V\<close>
  the volume of the box: \<^verbatim>\<open>insertMove\<close> draws a position from the box and accepts it when
  the uniform deviate is below \<open>z V / (N+1) \<cdot> exp(- E_new / T)\<close>; \<^verbatim>\<open>deleteMove\<close> draws a particle
  \<open>p\<close> with \<^verbatim>\<open>randInt(N-1)\<close> and accepts its removal when the deviate is below
  \<open>N / (z V) \<cdot> exp(E_old / T)\<close>.  The energy is the external potential of the particle plus
  its pair potential with every (other) particle.
\<close>

theorem cmc_grand_canonical_factors:
  "(\<exists>s0. cmc_construct env initialPos = Inr s0 \<and>
        z s0 = exp (cmc_mu env / cmc_T env) / cmc_dBWavelength env ^ cmc_NDIM env \<and>
        numParticles s0 = int (length initialPos) \<and> config s0 = initialPos)
   \<and>
   (\<forall>s. cmc_simulation env initialPos mvs = Inr s \<longrightarrow>
     z s = exp (cmc_mu env / cmc_T env) / cmc_dBWavelength env ^ cmc_NDIM env
     \<and>
     (let fugacity = exp (cmc_mu env / cmc_T env) / cmc_dBWavelength env ^ cmc_NDIM env;
          newPos = randPosition (cmc_boxPtr env) (cmc_rng s);
          E_new = pairPlusExternal env (config s) newPos {0 ..< nat (numParticles s)};
          u = rand (cmc_random env) (cmc_rng s + 1);
          accept = (u < fugacity * volume (cmc_boxPtr env) / real_of_int (numParticles s + 1)
                          * exp (- E_new / cmc_T env))
      in \<exists>s'. insertMove env s = Inr s' \<and>
            numParticles s' = numParticles s + (if accept then 1 else 0) \<and>
            energy s' = energy s + (if accept then E_new else 0) \<and>
            (if accept then config s' ! nat (numParticles s) = newPos
             else config s' = config s))
     \<and>
     (let fugacity = exp (cmc_mu env / cmc_T env) / cmc_dBWavelength env ^ cmc_NDIM env;
          p = randInt (cmc_random env) (cmc_rng s) (numParticles s - 1);
          oldPos = config s ! nat p;
          E_old = pairPlusExternal env (config s) oldPos ({0 ..< nat (numParticles s)} - {nat p});
          u = rand (cmc_random env) (cmc_rng s + 1);
          accept = (u < real_of_int (numParticles s) / (fugacity * volume (cmc_boxPtr env))
                          * exp (E_old / cmc_T env))
      in 0 \<le> p \<and> p \<le> numParticles s - 1 \<longrightarrow>
         (\<exists>s'. deleteMove env s = Inr s' \<and>
            numParticles s' = numParticles s - (if accept then 1 else 0) \<and>
            energy s' = energy s - (if accept then E_old else 0) \<and>
            config s' = (if accept then (config s)[nat p := config s ! nat (numParticles s - 1)]
                         else config s))))"
proof -
  have built: "\<exists>s0. cmc_construct env initialPos = Inr s0 \<and>
        z s0 = exp (cmc_mu env / cmc_T env) / cmc_dBWavelength env ^ cmc_NDIM env \<and>
        numParticles s0 = int (length initialPos) \<and> config s0 = initialPos"
    using cmc_construct_returns [of env initialPos] by blast
  have main: "z s = exp (cmc_mu env / cmc_T env) / cmc_dBWavelength env ^ cmc_NDIM env
     \<and>
     (let fugacity = exp (cmc_mu env / cmc_T env) / cmc_dBWavelength env ^ cmc_NDIM env;
          newPos = randPosition (cmc_boxPtr env) (cmc_rng s);
          E_new = pairPlusExternal env (config s) newPos {0 ..< nat (numParticles s)};
          u = rand (cmc_random env) (cmc_rng s + 1);
          accept = (u < fugacity * volume (cmc_boxPtr env) / real_of_int (numParticles s + 1)
                          * exp (- E_new / cmc_T env))
      in \<exists>s'. insertMove env s = Inr s' \<and>
            numParticles s' = numParticles s + (if accept then 1 else 0) \<and>
            energy s' = energy s + (if accept then E_new else 0) \<and>
            (if accept then config s' ! nat (numParticles s) = newPos
             else config s' = config s))
     \<and>
     (let fugacity = exp (cmc_mu env / cmc_T env) / cmc_dBWavelength env ^ cmc_NDIM env;
          p = randInt (cmc_random env) (cmc_rng s) (numParticles s - 1);
          oldPos = config s ! nat p;
          E_old = pairPlusExternal env (config s) oldPos ({0 ..< nat (numParticles s)} - {nat p});
          u = rand (cmc_random env) (cmc_rng s + 1);
          accept = (u < real_of_int (numParticles s) / (fugacity * volume (cmc_boxPtr env))
                          * exp (E_old / cmc_T env))
      in 0 \<le> p \<and> p \<le> numParticles s - 1 \<longrightarrow>
         (\<exists>s'. deleteMove env s = Inr s' \<and>
            numParticles s' = numParticles s - (if accept then 1 else 0) \<and>
            energy s' = energy s - (if accept then E_old else 0) \<and>
            config s' = (if accept then (config s)[nat p := config s ! nat (numParticles s - 1)]
                         else config s)))"
    if run: "cmc_simulation env initialPos mvs = Inr s" for s
  proof -
    note inv = cmc_simulation_invariant [OF run]
    have zs: "z s = exp (cmc_mu env / cmc_T env) / cmc_dBWavelength env ^ cmc_NDIM env"
      and lo: "0 \<le> numParticles s" and hi: "numParticles s \<le> int (length (config s))"
      using inv by simp_all
    have ins: "let fugacity = exp (cmc_mu env / cmc_T env) / cmc_dBWavelength env ^ cmc_NDIM env;
            newPos = randPosition (cmc_boxPtr env) (cmc_rng s);
            E_new = pairPlusExternal env (config s) newPos {0 ..< nat (numParticles s)};
            u = rand (cmc_random env) (cmc_rng s + 1);
            accept = (u < fugacity * volume (cmc_boxPtr env) / real_of_int (numParticles s + 1)
                            * exp (- E_new / cmc_T env))
        in \<exists>s'. insertMove env s = Inr s' \<and>
              numParticles s' = numParticles s + (if accept then 1 else 0) \<and>
              energy s' = energy s + (if accept then E_new else 0) \<and>
              (if accept then config s' ! nat (numParticles s) = newPos
               else config s' = config s)"
      unfolding zs [symmetric]
      using lo hi
      by (simp add: insertMove_def Let_def particleEnergy_None config_set_def
          resizeAndPreserve_def nth_append)
    have del: "let fugacity = exp (cmc_mu env / cmc_T env) / cmc_dBWavelength env ^ cmc_NDIM env;
            p = randInt (cmc_random env) (cmc_rng s) (numParticles s - 1);
            oldPos = config s ! nat p;
            E_old = pairPlusExternal env (config s) oldPos ({0 ..< nat (numParticles s)} - {nat p});
            u = rand (cmc_random env) (cmc_rng s + 1);
            accept = (u < real_of_int (numParticles s) / (fugacity * volume (cmc_boxPtr env))
                            * exp (E_old / cmc_T env))
        in 0 \<le> p \<and> p \<le> numParticles s - 1 \<longrightarrow>
           (\<exists>s'. deleteMove env s = Inr s' \<and>
              numParticles s' = numParticles s - (if accept then 1 else 0) \<and>
              energy s' = energy s - (if accept then E_old else 0) \<and>
              config s' = (if accept then (config s)[nat p := config s ! nat (numParticles s - 1)]
                           else config s))"
      unfolding zs [symmetric]
      using lo hi
      by (simp add: deleteMove_def Let_def particleEnergy_Some
          config_at_in_range config_set_in_range)
    from zs ins del show ?thesis by blast
  qed
  from built main show ?thesis by blast
qed

theorem cmc_grand_canonical_factors_witness:
  "cmc_simulation cmc_env0 [[0]] [] = Inr (cmc_state0 [[0]]) \<and>
   z (cmc_state0 [[0]]) = 1 \<and>
   (\<exists>s'. insertMove cmc_env0 (cmc_state0 [[0]]) = Inr s' \<and> numParticles s' = 2 \<and>
         config s' ! 1 = [0]) \<and>
   (\<exists>s'. deleteMove cmc_env0 (cmc_state0 [[0]]) = Inr s' \<and> numParticles s' = 0)"
proof -
  have run: "cmc_simulation cmc_env0 [[0]] [] = Inr (cmc_state0 [[0]])"
    by (simp add: cmc_simulation_def cmc_construct_def getTotalEnergy_def config_at_def
        cmc_state0_def cmc_env0_def)
  from cmc_grand_canonical_factors [of cmc_env0 "[[0]]" "[]"] run show ?thesis
    by (simp add: cmc_state0_def cmc_env0_def pairPlusExternal_def Let_def) blast
qed

section \<open>What a move does to the shift and to the helper calls\<close>

text \<open>A property of the value of a call that returns.\<close>

lemma holds_opt_simps [simp]:
  "holds_opt P None"
  "holds_opt P (Some x) = P x"
  by (simp_all add: holds_opt_def)

lemma holds_opt_bind [simp]:
  "holds_opt P (Option.bind m f) = holds_opt (\<lambda>x. holds_opt P (f x)) m"
  by (cases m) simp_all

lemma holds_optD: "holds_opt P m \<Longrightarrow> m = Some x \<Longrightarrow> P x"
  by simp

lemma holds_opt_mono: "holds_opt Q m \<Longrightarrow> (\<And>x. Q x \<Longrightarrow> R x) \<Longrightarrow> holds_opt R m"
  by (cases m) simp_all

text \<open>The part of the state that the claims on the shift and on the helpers speak of.
  Updates of the other fields do not change it.\<close>

lemma ctl_update [simp]:
  "ctl (beads_update f_beads s) = ctl s"
  "ctl (nextLink_update f_nextLink s) = ctl s"
  "ctl (prevLink_update f_prevLink s) = ctl s"
  "ctl (numBeadsAtSlice_update f_numBeadsAtSlice s) = ctl s"
  "ctl (beadOn_update f_beadOn s) = ctl s"
  "ctl (worm_head_update f_worm_head s) = ctl s"
  "ctl (worm_tail_update f_worm_tail s) = ctl s"
  "ctl (worm_length_update f_worm_length s) = ctl s"
  "ctl (worm_gap_update f_worm_gap s) = ctl s"
  "ctl (special1_update f_special1 s) = ctl s"
  "ctl (special2_update f_special2 s) = ctl s"
  "ctl (isConfigDiagonal_update f_isConfigDiagonal s) = ctl s"
  "ctl (fullBeadList_update f_fullBeadList s) = ctl s"
  "ctl (rng_update f_rng s) = ctl s"
  "ctl (numAccepted_update f_numAccepted s) = ctl s"
  "ctl (numAttempted_update f_numAttempted s) = ctl s"
  "ctl (totAccepted_update f_totAccepted s) = ctl s"
  "ctl (totAttempted_update f_totAttempted s) = ctl s"
  "ctl (numAcceptedLevel_update f_numAcceptedLevel s) = ctl s"
  "ctl (numAttemptedLevel_update f_numAttemptedLevel s) = ctl s"
  "ctl (numLevels_update f_numLevels s) = ctl s"
  "ctl (originalPos_update f_originalPos s) = ctl s"
  "ctl (newPos_update f_newPos s) = ctl s"
  "ctl (include_flag_update f_include_flag s) = ctl s"
  "ctl (startBead_update f_startBead s) = ctl s"
  "ctl (endBead_update f_endBead s) = ctl s"
  "ctl (headBead_update f_headBead s) = ctl s"
  "ctl (tailBead_update f_tailBead s) = ctl s"
  "ctl (pivot_update f_pivot s) = ctl s"
  "ctl (swapBead_update f_swapBead s) = ctl s"
  "ctl (nextSwap_update f_nextSwap s) = ctl s"
  "ctl (prevSwap_update f_prevSwap s) = ctl s"
  "ctl (cumulant_update f_cumulant s) = ctl s"
  by (simp_all add: ctl_def)

lemma ctl_updateBead [simp]: "ctl (updateBead s bd pos) = ctl s"
  by (simp add: updateBead_def)

lemma ctl_addBead [simp]: "ctl (snd (addBead s t pos)) = ctl s"
  by (simp add: addBead_def Let_def)

lemma ctl_addNextBead [simp]: "ctl (snd (addNextBead env s p pos)) = ctl s"
  by (simp add: addNextBead_def Let_def case_prod_beta)

lemma ctl_addPrevBead [simp]: "ctl (snd (addPrevBead env s p pos)) = ctl s"
  by (simp add: addPrevBead_def Let_def case_prod_beta)

lemma ctl_unlinkBead [simp]: "ctl (unlinkBead s bd) = ctl s"
  by (simp add: unlinkBead_def Let_def)

lemma ctl_relinkNeighbours [simp]: "ctl (relinkNeighbours s lastBead bd) = ctl s"
  by (simp add: relinkNeighbours_def Let_def)

lemma ctl_moveLastBead [simp]: "ctl (moveLastBead s lastBead bd) = ctl s"
  by (simp add: moveLastBead_def Let_def)

lemma ctl_delBead [simp]: "ctl (delBead s bd) = ctl s"
  by (simp add: delBead_def Let_def)

lemma ctl_delBeadGetNext [simp]: "ctl (snd (delBeadGetNext s bd)) = ctl s"
  by (simp add: delBeadGetNext_def)

lemma ctl_delBeadGetPrev [simp]: "ctl (snd (delBeadGetPrev s bd)) = ctl s"
  by (simp add: delBeadGetPrev_def)

lemma ctl_worm_reset [simp]: "ctl (worm_reset s) = ctl s"
  by (simp add: worm_reset_def)

lemma ctl_worm_update [simp]: "ctl (worm_update env s h t) = ctl s"
  by (simp add: worm_update_def Let_def)

lemma randNormLoop_enumerate:
  "randNormLoop env sd ms s =
     (map (\<lambda>(i, m). randNorm (random env) i m sd) (enumerate (rng s) ms),
      s\<lparr>rng := rng s + length ms\<rparr>)"
proof (induction ms arbitrary: s)
  case Nil
  show ?case by simp
next
  case (Cons m ms)
  show ?case
    by (simp add: Cons.IH draw_randNorm_def)
qed

lemma ctl_draws [simp]:
  "ctl (snd (draw_rand env s)) = ctl s"
  "ctl (snd (draw_randInt env s n)) = ctl s"
  "ctl (snd (draw_randNorm env s m sd)) = ctl s"
  "ctl (snd (draw_randPosition env s)) = ctl s"
  "ctl (snd (randNormLoop env sd ms s)) = ctl s"
  by (simp_all add: draw_rand_def draw_randInt_def draw_randNorm_def draw_randPosition_def
      randNormLoop_enumerate)

lemma ctl_kernels [simp]:
  "ctl (snd (newStagingPosition env s a c L k)) = ctl s"
  "ctl (snd (newFreeParticlePosition env s a)) = ctl s"
  "ctl (snd (newBisectionPosition env s a l)) = ctl s"
  by (simp_all add: newStagingPosition_def newFreeParticlePosition_def newBisectionPosition_def
      Let_def case_prod_beta)

lemma ctl_randomShift [simp]: "ctl (snd (CenterOfMass_randomShift env n s)) = ctl s"
  by (induction n arbitrary: s) (simp_all add: Let_def case_prod_beta)

subsection \<open>The loops\<close>

text \<open>A loop that returns leaves the three fields as they are: whatever holds of them
  before holds of them after.\<close>

lemma CenterOfMass_shiftLoop_ctl:
  "P (ctl s) \<Longrightarrow> holds_opt (\<lambda>s'. P (ctl s')) (CenterOfMass_shiftLoop env fuel s bi)"
proof (induction fuel arbitrary: s bi)
  case 0
  show ?case by simp
next
  case (Suc fuel)
  show ?case
    using Suc.prems by (simp add: Let_def case_prod_beta Suc.IH)
qed

lemma CenterOfMass_undoLoop_ctl:
  "P (ctl s) \<Longrightarrow> holds_opt (\<lambda>s'. P (ctl s')) (CenterOfMass_undoLoop env fuel s bi)"
proof (induction fuel arbitrary: s bi)
  case 0
  show ?case by simp
next
  case (Suc fuel)
  show ?case
    using Suc.prems by (simp add: Let_def case_prod_beta Suc.IH)
qed

lemma Staging_loop_ctl:
  "P (ctl s) \<Longrightarrow> holds_opt (\<lambda>s'. P (ctl s')) (Staging_loop env fuel s bi k)"
proof (induction fuel arbitrary: s bi k)
  case 0
  show ?case by simp
next
  case (Suc fuel)
  show ?case
    using Suc.prems by (simp add: Let_def case_prod_beta Suc.IH)
qed

lemma Staging_undoLoop_ctl:
  "P (ctl s) \<Longrightarrow> holds_opt (\<lambda>s'. P (ctl s')) (Staging_undoLoop fuel s bi k)"
proof (induction fuel arbitrary: s bi k)
  case 0
  show ?case by simp
next
  case (Suc fuel)
  show ?case
    using Suc.prems by (simp add: Let_def case_prod_beta Suc.IH)
qed

lemma Bisection_undoLoop_ctl:
  "P (ctl s) \<Longrightarrow> holds_opt (\<lambda>s'. P (ctl s')) (Bisection_undoLoop fuel s bi k)"
proof (induction fuel arbitrary: s bi k)
  case 0
  show ?case by simp
next
  case (Suc fuel)
  show ?case
    using Suc.prems by (simp add: Let_def case_prod_beta Suc.IH)
qed

lemma Open_deleteLoop_ctl:
  "P (ctl s) \<Longrightarrow> holds_opt (\<lambda>s'. P (ctl s')) (Open_deleteLoop fuel s bi)"
proof (induction fuel arbitrary: s bi)
  case 0
  show ?case by simp
next
  case (Suc fuel)
  show ?case
    using Suc.prems by (simp add: Let_def case_prod_beta Suc.IH)
qed

lemma Close_deleteLoop_ctl:
  "P (ctl s) \<Longrightarrow> holds_opt (\<lambda>s'. P (ctl s')) (Close_deleteLoop fuel s bi)"
proof (induction fuel arbitrary: s bi)
  case 0
  show ?case by simp
next
  case (Suc fuel)
  show ?case
    using Suc.prems by (simp add: Let_def case_prod_beta Suc.IH)
qed

lemma deleteForward_ctl:
  "P (ctl s) \<Longrightarrow> holds_opt (\<lambda>s'. P (ctl s')) (deleteForward fuel s bi)"
proof (induction fuel arbitrary: s bi)
  case 0
  show ?case by simp
next
  case (Suc fuel)
  show ?case
    using Suc.prems by (simp add: Let_def case_prod_beta Suc.IH)
qed

lemma deleteBackward_ctl:
  "P (ctl s) \<Longrightarrow> holds_opt (\<lambda>s'. P (ctl s')) (deleteBackward fuel s bi)"
proof (induction fuel arbitrary: s bi)
  case 0
  show ?case by simp
next
  case (Suc fuel)
  show ?case
    using Suc.prems by (simp add: Let_def case_prod_beta Suc.IH)
qed

lemma AdvanceHead_deleteLoop_ctl:
  "P (ctl s) \<Longrightarrow> holds_opt (\<lambda>s'. P (ctl s')) (AdvanceHead_deleteLoop fuel s bi)"
proof (induction fuel arbitrary: s bi)
  case 0
  show ?case by simp
next
  case (Suc fuel)
  show ?case
    using Suc.prems by (simp add: Let_def case_prod_beta Suc.IH)
qed

lemma RecedeTail_deleteLoop_ctl:
  "P (ctl s) \<Longrightarrow> holds_opt (\<lambda>s'. P (ctl s')) (RecedeTail_deleteLoop fuel s bi)"
proof (induction fuel arbitrary: s bi)
  case 0
  show ?case by simp
next
  case (Suc fuel)
  show ?case
    using Suc.prems by (simp add: Let_def case_prod_beta Suc.IH)
qed

lemma SwapHead_storeLoop_ctl:
  "P (ctl s) \<Longrightarrow> holds_opt (\<lambda>s'. P (ctl s')) (SwapHead_storeLoop fuel s bi k)"
proof (induction fuel arbitrary: s bi k)
  case 0
  show ?case by simp
next
  case (Suc fuel)
  show ?case
    using Suc.prems by (simp add: Let_def case_prod_beta Suc.IH)
qed

lemma SwapTail_storeLoop_ctl:
  "P (ctl s) \<Longrightarrow> holds_opt (\<lambda>s'. P (ctl s')) (SwapTail_storeLoop fuel s bi k)"
proof (induction fuel arbitrary: s bi k)
  case 0
  show ?case by simp
next
  case (Suc fuel)
  show ?case
    using Suc.prems by (simp add: Let_def case_prod_beta Suc.IH)
qed

lemma SwapHead_undoLoop_ctl:
  "P (ctl s) \<Longrightarrow> holds_opt (\<lambda>s'. P (ctl s')) (SwapHead_undoLoop fuel s bi k)"
proof (induction fuel arbitrary: s bi k)
  case 0
  show ?case by simp
next
  case (Suc fuel)
  show ?case
    using Suc.prems by (simp add: Let_def case_prod_beta Suc.IH)
qed

lemma SwapTail_undoLoop_ctl:
  "P (ctl s) \<Longrightarrow> holds_opt (\<lambda>s'. P (ctl s')) (SwapTail_undoLoop fuel s bi k)"
proof (induction fuel arbitrary: s bi k)
  case 0
  show ?case by simp
next
  case (Suc fuel)
  show ?case
    using Suc.prems by (simp add: Let_def case_prod_beta Suc.IH)
qed

lemma SwapHead_stageLoop_ctl:
  "P (ctl s) \<Longrightarrow> holds_opt (\<lambda>s'. P (ctl s')) (SwapHead_stageLoop env fuel L s bi k)"
proof (induction fuel arbitrary: s bi k)
  case 0
  show ?case by simp
next
  case (Suc fuel)
  show ?case
    using Suc.prems by (simp add: Let_def case_prod_beta Suc.IH)
qed

lemma SwapTail_stageLoop_ctl:
  "P (ctl s) \<Longrightarrow> holds_opt (\<lambda>s'. P (ctl s')) (SwapTail_stageLoop env fuel L s bi k)"
proof (induction fuel arbitrary: s bi k)
  case 0
  show ?case by simp
next
  case (Suc fuel)
  show ?case
    using Suc.prems by (simp add: Let_def case_prod_beta Suc.IH)
qed

lemma Bisection_levelLoop_ctl:
  "P (ctl s) \<Longrightarrow>
   holds_opt (\<lambda>r. P (ctl (fst r))) (Bisection_levelLoop env fuel level lshift s bi k oldA newA)"
proof (induction fuel arbitrary: s bi k oldA newA)
  case 0
  show ?case by simp
next
  case (Suc fuel)
  show ?case
    using Suc.prems by (simp add: Let_def case_prod_beta Suc.IH)
qed

lemma growForward_ctl [simp]: "ctl (fst (growForward env s n bi)) = ctl s"
  by (induction n arbitrary: s bi) (simp_all add: Let_def case_prod_beta)

lemma growBackward_ctl [simp]: "ctl (fst (growBackward env s n bi)) = ctl s"
  by (induction n arbitrary: s bi) (simp_all add: Let_def case_prod_beta)

lemma Close_stageLoop_ctl [simp]: "ctl (fst (Close_stageLoop env s n k bi)) = ctl s"
  by (induction n arbitrary: s k bi) (simp_all add: Let_def case_prod_beta)

subsection \<open>The helpers\<close>

text \<open>\<^verbatim>\<open>keepMove\<close> and \<^verbatim>\<open>undoMove\<close> append themselves to the calls and set \<^verbatim>\<open>success\<close>; the
  shift stays, or becomes one.\<close>

lemma ctl_after:
  "ctl s' = after_call c sh (ctl s) \<longleftrightarrow>
     shift s' = sh \<and> calls s' = calls s @ [c] \<and> success s' = (c = KeepMove)"
  by (auto simp: ctl_def after_call_def)

lemma MoveBase_keepMove_ctl [simp]:
  "ctl (MoveBase_keepMove s) = after_call KeepMove 1 (ctl s)"
  by (simp add: MoveBase_keepMove_def ctl_def after_call_def)

lemma Bisection_keepMove_ctl [simp]:
  "ctl (Bisection_keepMove env s) = after_call KeepMove 1 (ctl s)"
  by (simp add: Bisection_keepMove_def ctl_def after_call_def)

lemma SwapTail_keepMove_ctl [simp]:
  "ctl (SwapTail_keepMove env s) = after_call KeepMove 1 (ctl s)"
  by (simp add: SwapTail_keepMove_def worm_update_def Let_def ctl_def after_call_def)

lemma Close_keepMove_ctl [simp]:
  "ctl (Close_keepMove s) = after_call KeepMove (fst (ctl s)) (ctl s)"
  by (simp add: Close_keepMove_def worm_update_def worm_reset_def Let_def ctl_def after_call_def)

lemma Insert_keepMove_ctl [simp]:
  "ctl (Insert_keepMove env s) = after_call KeepMove (fst (ctl s)) (ctl s)"
  by (simp add: Insert_keepMove_def worm_update_def worm_reset_def Let_def ctl_def after_call_def)

lemma AdvanceHead_keepMove_ctl [simp]:
  "ctl (AdvanceHead_keepMove env s) = after_call KeepMove (fst (ctl s)) (ctl s)"
  by (simp add: AdvanceHead_keepMove_def worm_update_def worm_reset_def Let_def ctl_def after_call_def)

lemma RecedeTail_keepMove_ctl [simp]:
  "ctl (RecedeTail_keepMove env s) = after_call KeepMove (fst (ctl s)) (ctl s)"
  by (simp add: RecedeTail_keepMove_def worm_update_def worm_reset_def Let_def ctl_def after_call_def)

lemma SwapHead_keepMove_ctl [simp]:
  "ctl (SwapHead_keepMove env s) = after_call KeepMove (fst (ctl s)) (ctl s)"
  by (simp add: SwapHead_keepMove_def worm_update_def worm_reset_def Let_def ctl_def after_call_def)

lemma Open_undoMove_ctl [simp]:
  "ctl (Open_undoMove s) = after_call UndoMove (fst (ctl s)) (ctl s)"
  by (simp add: Open_undoMove_def worm_reset_def Let_def ctl_def after_call_def)

lemma Remove_undoMove_ctl [simp]:
  "ctl (Remove_undoMove s) = after_call UndoMove (fst (ctl s)) (ctl s)"
  by (simp add: Remove_undoMove_def worm_reset_def Let_def ctl_def after_call_def)

lemma AdvanceTail_undoMove_ctl [simp]:
  "ctl (AdvanceTail_undoMove s) = after_call UndoMove (fst (ctl s)) (ctl s)"
  by (simp add: AdvanceTail_undoMove_def worm_reset_def Let_def ctl_def after_call_def)

lemma RecedeHead_undoMove_ctl [simp]:
  "ctl (RecedeHead_undoMove s) = after_call UndoMove (fst (ctl s)) (ctl s)"
  by (simp add: RecedeHead_undoMove_def worm_reset_def Let_def ctl_def after_call_def)

lemma Open_keepMove_ctl:
  assumes "P (after_call KeepMove (fst (ctl s)) (ctl s))"
  shows "holds_opt (\<lambda>s'. P (ctl s')) (Open_keepMove env fuel s)"
  unfolding Open_keepMove_def Let_def holds_opt_bind
  by (rule holds_opt_mono [OF Open_deleteLoop_ctl [where P = "\<lambda>c. c = ctl s"]])
    (use assms in \<open>simp_all add: ctl_def after_call_def worm_update_def worm_reset_def Let_def\<close>)

lemma Remove_keepMove_ctl:
  assumes "P (after_call KeepMove (fst (ctl s)) (ctl s))"
  shows "holds_opt (\<lambda>s'. P (ctl s')) (Remove_keepMove fuel s)"
  unfolding Remove_keepMove_def Let_def holds_opt_bind
  by (rule holds_opt_mono [OF deleteBackward_ctl [where P = "\<lambda>c. c = ctl s"]])
    (use assms in \<open>simp_all add: ctl_def after_call_def worm_update_def worm_reset_def Let_def\<close>)

lemma AdvanceTail_keepMove_ctl:
  assumes "P (after_call KeepMove (fst (ctl s)) (ctl s))"
  shows "holds_opt (\<lambda>s'. P (ctl s')) (AdvanceTail_keepMove env fuel s)"
  unfolding AdvanceTail_keepMove_def Let_def holds_opt_bind
  by (rule holds_opt_mono [OF deleteBackward_ctl [where P = "\<lambda>c. c = ctl s"]])
    (use assms in \<open>simp_all add: ctl_def after_call_def worm_update_def worm_reset_def Let_def\<close>)

lemma RecedeHead_keepMove_ctl:
  assumes "P (after_call KeepMove (fst (ctl s)) (ctl s))"
  shows "holds_opt (\<lambda>s'. P (ctl s')) (RecedeHead_keepMove env fuel s)"
  unfolding RecedeHead_keepMove_def Let_def holds_opt_bind
  by (rule holds_opt_mono [OF deleteForward_ctl [where P = "\<lambda>c. c = ctl s"]])
    (use assms in \<open>simp_all add: ctl_def after_call_def worm_update_def worm_reset_def Let_def\<close>)

lemma CenterOfMass_undoMove_ctl:
  assumes "P (after_call UndoMove (fst (ctl s)) (ctl s))"
  shows "holds_opt (\<lambda>s'. P (ctl s')) (CenterOfMass_undoMove env fuel s)"
  unfolding CenterOfMass_undoMove_def Let_def holds_opt_bind
  by (rule holds_opt_mono [OF CenterOfMass_undoLoop_ctl [where P = "\<lambda>c. c = ctl s"]])
    (use assms in \<open>simp_all add: ctl_def after_call_def worm_update_def worm_reset_def Let_def\<close>)

lemma Staging_undoMove_ctl:
  assumes "P (after_call UndoMove (fst (ctl s)) (ctl s))"
  shows "holds_opt (\<lambda>s'. P (ctl s')) (Staging_undoMove fuel s)"
  unfolding Staging_undoMove_def Let_def holds_opt_bind
  by (rule holds_opt_mono [OF Staging_undoLoop_ctl [where P = "\<lambda>c. c = ctl s"]])
    (use assms in \<open>simp_all add: ctl_def after_call_def worm_update_def worm_reset_def Let_def\<close>)

lemma Bisection_undoMove_ctl:
  assumes "P (after_call UndoMove 1 (ctl s))"
  shows "holds_opt (\<lambda>s'. P (ctl s')) (Bisection_undoMove fuel s)"
  unfolding Bisection_undoMove_def Let_def holds_opt_bind
  by (rule holds_opt_mono [OF Bisection_undoLoop_ctl [where P = "\<lambda>c. c = ctl s"]])
    (use assms in \<open>simp_all add: ctl_def after_call_def worm_update_def worm_reset_def Let_def\<close>)

lemma Close_undoMove_ctl:
  assumes "P (after_call UndoMove (fst (ctl s)) (ctl s))"
  shows "holds_opt (\<lambda>s'. P (ctl s')) (Close_undoMove fuel s)"
  unfolding Close_undoMove_def Let_def holds_opt_bind
  by (rule holds_opt_mono [OF Close_deleteLoop_ctl [where P = "\<lambda>c. c = ctl s"]])
    (use assms in \<open>simp_all add: ctl_def after_call_def worm_update_def worm_reset_def Let_def\<close>)

lemma Insert_undoMove_ctl:
  assumes "P (after_call UndoMove (fst (ctl s)) (ctl s))"
  shows "holds_opt (\<lambda>s'. P (ctl s')) (Insert_undoMove fuel s)"
  unfolding Insert_undoMove_def Let_def holds_opt_bind
  by (rule holds_opt_mono [OF deleteForward_ctl [where P = "\<lambda>c. c = ctl s"]])
    (use assms in \<open>simp_all add: ctl_def after_call_def worm_update_def worm_reset_def Let_def\<close>)

lemma AdvanceHead_undoMove_ctl:
  assumes "P (after_call UndoMove (fst (ctl s)) (ctl s))"
  shows "holds_opt (\<lambda>s'. P (ctl s')) (AdvanceHead_undoMove fuel s)"
  unfolding AdvanceHead_undoMove_def Let_def holds_opt_bind
  by (rule holds_opt_mono [OF AdvanceHead_deleteLoop_ctl [where P = "\<lambda>c. c = ctl s"]])
    (use assms in \<open>simp_all add: ctl_def after_call_def worm_update_def worm_reset_def Let_def\<close>)

lemma RecedeTail_undoMove_ctl:
  assumes "P (after_call UndoMove (fst (ctl s)) (ctl s))"
  shows "holds_opt (\<lambda>s'. P (ctl s')) (RecedeTail_undoMove fuel s)"
  unfolding RecedeTail_undoMove_def Let_def holds_opt_bind
  by (rule holds_opt_mono [OF RecedeTail_deleteLoop_ctl [where P = "\<lambda>c. c = ctl s"]])
    (use assms in \<open>simp_all add: ctl_def after_call_def worm_update_def worm_reset_def Let_def\<close>)

lemma SwapHead_undoMove_ctl:
  assumes "P (after_call UndoMove (fst (ctl s)) (ctl s))"
  shows "holds_opt (\<lambda>s'. P (ctl s')) (SwapHead_undoMove fuel s)"
  unfolding SwapHead_undoMove_def Let_def holds_opt_bind
  by (rule holds_opt_mono [OF SwapHead_undoLoop_ctl [where P = "\<lambda>c. c = ctl s"]])
    (use assms in \<open>simp_all add: ctl_def after_call_def worm_update_def worm_reset_def Let_def\<close>)

lemma SwapTail_undoMove_ctl:
  assumes "P (after_call UndoMove (fst (ctl s)) (ctl s))"
  shows "holds_opt (\<lambda>s'. P (ctl s')) (SwapTail_undoMove fuel s)"
  unfolding SwapTail_undoMove_def Let_def holds_opt_bind
  by (rule holds_opt_mono [OF SwapTail_undoLoop_ctl [where P = "\<lambda>c. c = ctl s"]])
    (use assms in \<open>simp_all add: ctl_def after_call_def worm_update_def worm_reset_def Let_def\<close>)

subsection \<open>The single slice loops\<close>

text \<open>A single slice loop either ends, with the three fields as they were, or leaves the
  move through \<^verbatim>\<open>undoMove\<close>.\<close>

lemma Open_sliceLoop_ctl:
  assumes undo: "\<And>c. P c \<Longrightarrow> Q (after_call UndoMove (fst c) c)"
  shows "P (ctl s) \<Longrightarrow>
     holds_opt (case_sum (\<lambda>s'. Q (ctl s')) (\<lambda>r. P (ctl (fst r))))
       (Open_sliceLoop env fuel s aShift bi dA PNorm fac)"
proof (induction fuel arbitrary: s bi dA PNorm fac)
  case 0
  show ?case by simp
next
  case (Suc fuel)
  show ?case
    using Suc.prems by (simp add: Let_def case_prod_beta Suc.IH undo)
qed

lemma Remove_sliceLoop_ctl:
  assumes undo: "\<And>c. P c \<Longrightarrow> Q (after_call UndoMove (fst c) c)"
  shows "P (ctl s) \<Longrightarrow>
     holds_opt (case_sum (\<lambda>s'. Q (ctl s')) (\<lambda>r. P (ctl (fst r))))
       (Remove_sliceLoop env fuel s aShift bi dA PNorm fac)"
proof (induction fuel arbitrary: s bi dA PNorm fac)
  case 0
  show ?case by simp
next
  case (Suc fuel)
  show ?case
    using Suc.prems by (simp add: Let_def case_prod_beta Suc.IH undo)
qed

lemma AdvanceTail_sliceLoop_ctl:
  assumes undo: "\<And>c. P c \<Longrightarrow> Q (after_call UndoMove (fst c) c)"
  shows "P (ctl s) \<Longrightarrow>
     holds_opt (case_sum (\<lambda>s'. Q (ctl s')) (\<lambda>r. P (ctl (fst r))))
       (AdvanceTail_sliceLoop env fuel s aShift bi dA PNorm fac)"
proof (induction fuel arbitrary: s bi dA PNorm fac)
  case 0
  show ?case by simp
next
  case (Suc fuel)
  show ?case
    using Suc.prems by (simp add: Let_def case_prod_beta Suc.IH undo)
qed

lemma RecedeHead_sliceLoop_ctl:
  assumes undo: "\<And>c. P c \<Longrightarrow> Q (after_call UndoMove (fst c) c)"
  shows "P (ctl s) \<Longrightarrow>
     holds_opt (case_sum (\<lambda>s'. Q (ctl s')) (\<lambda>r. P (ctl (fst r))))
       (RecedeHead_sliceLoop env fuel s aShift bi dA PNorm fac)"
proof (induction fuel arbitrary: s bi dA PNorm fac)
  case 0
  show ?case by simp
next
  case (Suc fuel)
  show ?case
    using Suc.prems by (simp add: Let_def case_prod_beta Suc.IH undo)
qed

lemma Close_sliceLoop_ctl:
  assumes undo: "\<And>c. P c \<Longrightarrow> Q (after_call UndoMove (fst c) c)"
  shows "P (ctl s) \<Longrightarrow>
     holds_opt (case_sum (\<lambda>s'. Q (ctl s')) (\<lambda>r. P (ctl (fst r))))
       (Close_sliceLoop env fuel s n aShift k bi dA PNorm)"
proof (induction n arbitrary: s k bi dA PNorm)
  case 0
  show ?case using "0.prems" by simp
next
  case (Suc n)
  show ?case
    using Suc.prems by (simp add: Let_def case_prod_beta Suc.IH undo Close_undoMove_ctl)
qed

lemma Insert_sliceLoop_ctl:
  assumes undo: "\<And>c. P c \<Longrightarrow> Q (after_call UndoMove (fst c) c)"
  shows "P (ctl s) \<Longrightarrow>
     holds_opt (case_sum (\<lambda>s'. Q (ctl s')) (\<lambda>r. P (ctl (fst r))))
       (Insert_sliceLoop env fuel s n aShift bi dA PNorm)"
proof (induction n arbitrary: s bi dA PNorm)
  case 0
  show ?case using "0.prems" by simp
next
  case (Suc n)
  show ?case
    using Suc.prems by (simp add: Let_def case_prod_beta Suc.IH undo Insert_undoMove_ctl)
qed

lemma AdvanceHead_sliceLoop_ctl:
  assumes undo: "\<And>c. P c \<Longrightarrow> Q (after_call UndoMove (fst c) c)"
  shows "P (ctl s) \<Longrightarrow>
     holds_opt (case_sum (\<lambda>s'. Q (ctl s')) (\<lambda>r. P (ctl (fst r))))
       (AdvanceHead_sliceLoop env fuel s n aShift bi dA PNorm)"
proof (induction n arbitrary: s bi dA PNorm)
  case 0
  show ?case using "0.prems" by simp
next
  case (Suc n)
  show ?case
    using Suc.prems by (simp add: Let_def case_prod_beta Suc.IH undo AdvanceHead_undoMove_ctl)
qed

lemma RecedeTail_sliceLoop_ctl:
  assumes undo: "\<And>c. P c \<Longrightarrow> Q (after_call UndoMove (fst c) c)"
  shows "P (ctl s) \<Longrightarrow>
     holds_opt (case_sum (\<lambda>s'. Q (ctl s')) (\<lambda>r. P (ctl (fst r))))
       (RecedeTail_sliceLoop env fuel s n aShift bi dA PNorm)"
proof (induction n arbitrary: s bi dA PNorm)
  case 0
  show ?case using "0.prems" by simp
next
  case (Suc n)
  show ?case
    using Suc.prems by (simp add: Let_def case_prod_beta Suc.IH undo RecedeTail_undoMove_ctl)
qed

subsection \<open>Rules for a call that has returned\<close>

lemma CenterOfMass_shiftLoop_ctlD:
  assumes "CenterOfMass_shiftLoop env fuel s bi = Some s'"
  shows "ctl s' = ctl s"
proof -
  have "holds_opt (\<lambda>x. ctl x = ctl s) (CenterOfMass_shiftLoop env fuel s bi)"
    by (rule CenterOfMass_shiftLoop_ctl [where P = "\<lambda>c. c = ctl s"]) simp_all
  with assms show ?thesis by simp
qed

lemma Staging_loop_ctlD:
  assumes "Staging_loop env fuel s bi k = Some s'"
  shows "ctl s' = ctl s"
proof -
  have "holds_opt (\<lambda>x. ctl x = ctl s) (Staging_loop env fuel s bi k)"
    by (rule Staging_loop_ctl [where P = "\<lambda>c. c = ctl s"]) simp_all
  with assms show ?thesis by simp
qed

lemma Open_deleteLoop_ctlD:
  assumes "Open_deleteLoop fuel s bi = Some s'"
  shows "ctl s' = ctl s"
proof -
  have "holds_opt (\<lambda>x. ctl x = ctl s) (Open_deleteLoop fuel s bi)"
    by (rule Open_deleteLoop_ctl [where P = "\<lambda>c. c = ctl s"]) simp_all
  with assms show ?thesis by simp
qed

lemma SwapHead_storeLoop_ctlD:
  assumes "SwapHead_storeLoop fuel s bi k = Some s'"
  shows "ctl s' = ctl s"
proof -
  have "holds_opt (\<lambda>x. ctl x = ctl s) (SwapHead_storeLoop fuel s bi k)"
    by (rule SwapHead_storeLoop_ctl [where P = "\<lambda>c. c = ctl s"]) simp_all
  with assms show ?thesis by simp
qed

lemma SwapTail_storeLoop_ctlD:
  assumes "SwapTail_storeLoop fuel s bi k = Some s'"
  shows "ctl s' = ctl s"
proof -
  have "holds_opt (\<lambda>x. ctl x = ctl s) (SwapTail_storeLoop fuel s bi k)"
    by (rule SwapTail_storeLoop_ctl [where P = "\<lambda>c. c = ctl s"]) simp_all
  with assms show ?thesis by simp
qed

lemma SwapHead_stageLoop_ctlD:
  assumes "SwapHead_stageLoop env fuel L s bi k = Some s'"
  shows "ctl s' = ctl s"
proof -
  have "holds_opt (\<lambda>x. ctl x = ctl s) (SwapHead_stageLoop env fuel L s bi k)"
    by (rule SwapHead_stageLoop_ctl [where P = "\<lambda>c. c = ctl s"]) simp_all
  with assms show ?thesis by simp
qed

lemma SwapTail_stageLoop_ctlD:
  assumes "SwapTail_stageLoop env fuel L s bi k = Some s'"
  shows "ctl s' = ctl s"
proof -
  have "holds_opt (\<lambda>x. ctl x = ctl s) (SwapTail_stageLoop env fuel L s bi k)"
    by (rule SwapTail_stageLoop_ctl [where P = "\<lambda>c. c = ctl s"]) simp_all
  with assms show ?thesis by simp
qed

lemma Bisection_levelLoop_ctlD:
  assumes "Bisection_levelLoop env fuel level lshift s bi k oldA newA = Some r"
  shows "ctl (fst r) = ctl s"
proof -
  have "holds_opt (\<lambda>x. ctl (fst x) = ctl s) (Bisection_levelLoop env fuel level lshift s bi k oldA newA)"
    by (rule Bisection_levelLoop_ctl [where P = "\<lambda>c. c = ctl s"]) simp_all
  with assms show ?thesis by simp
qed

lemma Open_keepMove_ctlD:
  assumes "Open_keepMove env fuel s = Some s'"
  shows "ctl s' = after_call KeepMove (fst (ctl s)) (ctl s)"
proof -
  have "holds_opt (\<lambda>x. ctl x = after_call KeepMove (fst (ctl s)) (ctl s)) (Open_keepMove env fuel s)"
    by (rule Open_keepMove_ctl [where P = "\<lambda>c. c = after_call KeepMove (fst (ctl s)) (ctl s)"]) simp
  with assms show ?thesis by simp
qed

lemma Remove_keepMove_ctlD:
  assumes "Remove_keepMove fuel s = Some s'"
  shows "ctl s' = after_call KeepMove (fst (ctl s)) (ctl s)"
proof -
  have "holds_opt (\<lambda>x. ctl x = after_call KeepMove (fst (ctl s)) (ctl s)) (Remove_keepMove fuel s)"
    by (rule Remove_keepMove_ctl [where P = "\<lambda>c. c = after_call KeepMove (fst (ctl s)) (ctl s)"]) simp
  with assms show ?thesis by simp
qed

lemma AdvanceTail_keepMove_ctlD:
  assumes "AdvanceTail_keepMove env fuel s = Some s'"
  shows "ctl s' = after_call KeepMove (fst (ctl s)) (ctl s)"
proof -
  have "holds_opt (\<lambda>x. ctl x = after_call KeepMove (fst (ctl s)) (ctl s)) (AdvanceTail_keepMove env fuel s)"
    by (rule AdvanceTail_keepMove_ctl [where P = "\<lambda>c. c = after_call KeepMove (fst (ctl s)) (ctl s)"]) simp
  with assms show ?thesis by simp
qed

lemma RecedeHead_keepMove_ctlD:
  assumes "RecedeHead_keepMove env fuel s = Some s'"
  shows "ctl s' = after_call KeepMove (fst (ctl s)) (ctl s)"
proof -
  have "holds_opt (\<lambda>x. ctl x = after_call KeepMove (fst (ctl s)) (ctl s)) (RecedeHead_keepMove env fuel s)"
    by (rule RecedeHead_keepMove_ctl [where P = "\<lambda>c. c = after_call KeepMove (fst (ctl s)) (ctl s)"]) simp
  with assms show ?thesis by simp
qed

lemma CenterOfMass_undoMove_ctlD:
  assumes "CenterOfMass_undoMove env fuel s = Some s'"
  shows "ctl s' = after_call UndoMove (fst (ctl s)) (ctl s)"
proof -
  have "holds_opt (\<lambda>x. ctl x = after_call UndoMove (fst (ctl s)) (ctl s)) (CenterOfMass_undoMove env fuel s)"
    by (rule CenterOfMass_undoMove_ctl [where P = "\<lambda>c. c = after_call UndoMove (fst (ctl s)) (ctl s)"]) simp
  with assms show ?thesis by simp
qed

lemma Staging_undoMove_ctlD:
  assumes "Staging_undoMove fuel s = Some s'"
  shows "ctl s' = after_call UndoMove (fst (ctl s)) (ctl s)"
proof -
  have "holds_opt (\<lambda>x. ctl x = after_call UndoMove (fst (ctl s)) (ctl s)) (Staging_undoMove fuel s)"
    by (rule Staging_undoMove_ctl [where P = "\<lambda>c. c = after_call UndoMove (fst (ctl s)) (ctl s)"]) simp
  with assms show ?thesis by simp
qed

lemma Bisection_undoMove_ctlD:
  assumes "Bisection_undoMove fuel s = Some s'"
  shows "ctl s' = after_call UndoMove 1 (ctl s)"
proof -
  have "holds_opt (\<lambda>x. ctl x = after_call UndoMove 1 (ctl s)) (Bisection_undoMove fuel s)"
    by (rule Bisection_undoMove_ctl [where P = "\<lambda>c. c = after_call UndoMove 1 (ctl s)"]) simp
  with assms show ?thesis by simp
qed

lemma Close_undoMove_ctlD:
  assumes "Close_undoMove fuel s = Some s'"
  shows "ctl s' = after_call UndoMove (fst (ctl s)) (ctl s)"
proof -
  have "holds_opt (\<lambda>x. ctl x = after_call UndoMove (fst (ctl s)) (ctl s)) (Close_undoMove fuel s)"
    by (rule Close_undoMove_ctl [where P = "\<lambda>c. c = after_call UndoMove (fst (ctl s)) (ctl s)"]) simp
  with assms show ?thesis by simp
qed

lemma Insert_undoMove_ctlD:
  assumes "Insert_undoMove fuel s = Some s'"
  shows "ctl s' = after_call UndoMove (fst (ctl s)) (ctl s)"
proof -
  have "holds_opt (\<lambda>x. ctl x = after_call UndoMove (fst (ctl s)) (ctl s)) (Insert_undoMove fuel s)"
    by (rule Insert_undoMove_ctl [where P = "\<lambda>c. c = after_call UndoMove (fst (ctl s)) (ctl s)"]) simp
  with assms show ?thesis by simp
qed

lemma AdvanceHead_undoMove_ctlD:
  assumes "AdvanceHead_undoMove fuel s = Some s'"
  shows "ctl s' = after_call UndoMove (fst (ctl s)) (ctl s)"
proof -
  have "holds_opt (\<lambda>x. ctl x = after_call UndoMove (fst (ctl s)) (ctl s)) (AdvanceHead_undoMove fuel s)"
    by (rule AdvanceHead_undoMove_ctl [where P = "\<lambda>c. c = after_call UndoMove (fst (ctl s)) (ctl s)"]) simp
  with assms show ?thesis by simp
qed

lemma RecedeTail_undoMove_ctlD:
  assumes "RecedeTail_undoMove fuel s = Some s'"
  shows "ctl s' = after_call UndoMove (fst (ctl s)) (ctl s)"
proof -
  have "holds_opt (\<lambda>x. ctl x = after_call UndoMove (fst (ctl s)) (ctl s)) (RecedeTail_undoMove fuel s)"
    by (rule RecedeTail_undoMove_ctl [where P = "\<lambda>c. c = after_call UndoMove (fst (ctl s)) (ctl s)"]) simp
  with assms show ?thesis by simp
qed

lemma SwapHead_undoMove_ctlD:
  assumes "SwapHead_undoMove fuel s = Some s'"
  shows "ctl s' = after_call UndoMove (fst (ctl s)) (ctl s)"
proof -
  have "holds_opt (\<lambda>x. ctl x = after_call UndoMove (fst (ctl s)) (ctl s)) (SwapHead_undoMove fuel s)"
    by (rule SwapHead_undoMove_ctl [where P = "\<lambda>c. c = after_call UndoMove (fst (ctl s)) (ctl s)"]) simp
  with assms show ?thesis by simp
qed

lemma SwapTail_undoMove_ctlD:
  assumes "SwapTail_undoMove fuel s = Some s'"
  shows "ctl s' = after_call UndoMove (fst (ctl s)) (ctl s)"
proof -
  have "holds_opt (\<lambda>x. ctl x = after_call UndoMove (fst (ctl s)) (ctl s)) (SwapTail_undoMove fuel s)"
    by (rule SwapTail_undoMove_ctl [where P = "\<lambda>c. c = after_call UndoMove (fst (ctl s)) (ctl s)"]) simp
  with assms show ?thesis by simp
qed

lemma Open_sliceLoop_ctlD:
  assumes "Open_sliceLoop env fuel s aShift bi dA PNorm fac = Some res"
  shows "case res of Inl s' \<Rightarrow> ctl s' = after_call UndoMove (fst (ctl s)) (ctl s)
                   | Inr r \<Rightarrow> ctl (fst r) = ctl s"
proof -
  have "holds_opt (case_sum (\<lambda>s'. ctl s' = after_call UndoMove (fst (ctl s)) (ctl s))
                            (\<lambda>r. ctl (fst r) = ctl s)) (Open_sliceLoop env fuel s aShift bi dA PNorm fac)"
    by (rule Open_sliceLoop_ctl [where P = "\<lambda>c. c = ctl s"
          and Q = "\<lambda>c. c = after_call UndoMove (fst (ctl s)) (ctl s)"]) simp_all
  with assms show ?thesis by (simp split: sum.splits)
qed

lemma Remove_sliceLoop_ctlD:
  assumes "Remove_sliceLoop env fuel s aShift bi dA PNorm fac = Some res"
  shows "case res of Inl s' \<Rightarrow> ctl s' = after_call UndoMove (fst (ctl s)) (ctl s)
                   | Inr r \<Rightarrow> ctl (fst r) = ctl s"
proof -
  have "holds_opt (case_sum (\<lambda>s'. ctl s' = after_call UndoMove (fst (ctl s)) (ctl s))
                            (\<lambda>r. ctl (fst r) = ctl s)) (Remove_sliceLoop env fuel s aShift bi dA PNorm fac)"
    by (rule Remove_sliceLoop_ctl [where P = "\<lambda>c. c = ctl s"
          and Q = "\<lambda>c. c = after_call UndoMove (fst (ctl s)) (ctl s)"]) simp_all
  with assms show ?thesis by (simp split: sum.splits)
qed

lemma AdvanceTail_sliceLoop_ctlD:
  assumes "AdvanceTail_sliceLoop env fuel s aShift bi dA PNorm fac = Some res"
  shows "case res of Inl s' \<Rightarrow> ctl s' = after_call UndoMove (fst (ctl s)) (ctl s)
                   | Inr r \<Rightarrow> ctl (fst r) = ctl s"
proof -
  have "holds_opt (case_sum (\<lambda>s'. ctl s' = after_call UndoMove (fst (ctl s)) (ctl s))
                            (\<lambda>r. ctl (fst r) = ctl s)) (AdvanceTail_sliceLoop env fuel s aShift bi dA PNorm fac)"
    by (rule AdvanceTail_sliceLoop_ctl [where P = "\<lambda>c. c = ctl s"
          and Q = "\<lambda>c. c = after_call UndoMove (fst (ctl s)) (ctl s)"]) simp_all
  with assms show ?thesis by (simp split: sum.splits)
qed

lemma RecedeHead_sliceLoop_ctlD:
  assumes "RecedeHead_sliceLoop env fuel s aShift bi dA PNorm fac = Some res"
  shows "case res of Inl s' \<Rightarrow> ctl s' = after_call UndoMove (fst (ctl s)) (ctl s)
                   | Inr r \<Rightarrow> ctl (fst r) = ctl s"
proof -
  have "holds_opt (case_sum (\<lambda>s'. ctl s' = after_call UndoMove (fst (ctl s)) (ctl s))
                            (\<lambda>r. ctl (fst r) = ctl s)) (RecedeHead_sliceLoop env fuel s aShift bi dA PNorm fac)"
    by (rule RecedeHead_sliceLoop_ctl [where P = "\<lambda>c. c = ctl s"
          and Q = "\<lambda>c. c = after_call UndoMove (fst (ctl s)) (ctl s)"]) simp_all
  with assms show ?thesis by (simp split: sum.splits)
qed

lemma Close_sliceLoop_ctlD:
  assumes "Close_sliceLoop env fuel s n aShift k bi dA PNorm = Some res"
  shows "case res of Inl s' \<Rightarrow> ctl s' = after_call UndoMove (fst (ctl s)) (ctl s)
                   | Inr r \<Rightarrow> ctl (fst r) = ctl s"
proof -
  have "holds_opt (case_sum (\<lambda>s'. ctl s' = after_call UndoMove (fst (ctl s)) (ctl s))
                            (\<lambda>r. ctl (fst r) = ctl s)) (Close_sliceLoop env fuel s n aShift k bi dA PNorm)"
    by (rule Close_sliceLoop_ctl [where P = "\<lambda>c. c = ctl s"
          and Q = "\<lambda>c. c = after_call UndoMove (fst (ctl s)) (ctl s)"]) simp_all
  with assms show ?thesis by (simp split: sum.splits)
qed

lemma Insert_sliceLoop_ctlD:
  assumes "Insert_sliceLoop env fuel s n aShift bi dA PNorm = Some res"
  shows "case res of Inl s' \<Rightarrow> ctl s' = after_call UndoMove (fst (ctl s)) (ctl s)
                   | Inr r \<Rightarrow> ctl (fst r) = ctl s"
proof -
  have "holds_opt (case_sum (\<lambda>s'. ctl s' = after_call UndoMove (fst (ctl s)) (ctl s))
                            (\<lambda>r. ctl (fst r) = ctl s)) (Insert_sliceLoop env fuel s n aShift bi dA PNorm)"
    by (rule Insert_sliceLoop_ctl [where P = "\<lambda>c. c = ctl s"
          and Q = "\<lambda>c. c = after_call UndoMove (fst (ctl s)) (ctl s)"]) simp_all
  with assms show ?thesis by (simp split: sum.splits)
qed

lemma AdvanceHead_sliceLoop_ctlD:
  assumes "AdvanceHead_sliceLoop env fuel s n aShift bi dA PNorm = Some res"
  shows "case res of Inl s' \<Rightarrow> ctl s' = after_call UndoMove (fst (ctl s)) (ctl s)
                   | Inr r \<Rightarrow> ctl (fst r) = ctl s"
proof -
  have "holds_opt (case_sum (\<lambda>s'. ctl s' = after_call UndoMove (fst (ctl s)) (ctl s))
                            (\<lambda>r. ctl (fst r) = ctl s)) (AdvanceHead_sliceLoop env fuel s n aShift bi dA PNorm)"
    by (rule AdvanceHead_sliceLoop_ctl [where P = "\<lambda>c. c = ctl s"
          and Q = "\<lambda>c. c = after_call UndoMove (fst (ctl s)) (ctl s)"]) simp_all
  with assms show ?thesis by (simp split: sum.splits)
qed

lemma RecedeTail_sliceLoop_ctlD:
  assumes "RecedeTail_sliceLoop env fuel s n aShift bi dA PNorm = Some res"
  shows "case res of Inl s' \<Rightarrow> ctl s' = after_call UndoMove (fst (ctl s)) (ctl s)
                   | Inr r \<Rightarrow> ctl (fst r) = ctl s"
proof -
  have "holds_opt (case_sum (\<lambda>s'. ctl s' = after_call UndoMove (fst (ctl s)) (ctl s))
                            (\<lambda>r. ctl (fst r) = ctl s)) (RecedeTail_sliceLoop env fuel s n aShift bi dA PNorm)"
    by (rule RecedeTail_sliceLoop_ctl [where P = "\<lambda>c. c = ctl s"
          and Q = "\<lambda>c. c = after_call UndoMove (fst (ctl s)) (ctl s)"]) simp_all
  with assms show ?thesis by (simp split: sum.splits)
qed

lemma getNorm_ctlD: "getNorm env s bd L = Some r \<Longrightarrow> ctl (snd r) = ctl s"
  by (auto simp: getNorm_def Let_def case_prod_beta split: list.splits)

lemma selectPivotBead_ctlD: "selectPivotBead env s = Some r \<Longrightarrow> ctl (snd r) = ctl s"
  by (auto simp: selectPivotBead_def Let_def case_prod_beta split: if_splits)

subsection \<open>The levels of the bisection\<close>

text \<open>The level loop sets the shift to \<open>2^(level-1)\<close>; it ends in \<^verbatim>\<open>keepMove\<close> (level one
  accepted) or in \<^verbatim>\<open>undoMove\<close> (a level refused), and both set the shift to one.  Only
  with no level at all does it leave the state as it is.\<close>

lemma Bisection_levels_ctl:
  "holds_opt (\<lambda>s'. (l = 0 \<and> s' = s)
                  \<or> ctl s' = after_call KeepMove 1 (ctl s)
                  \<or> ctl s' = after_call UndoMove 1 (ctl s))
     (Bisection_levels env fuel l s oda)"
proof (induction l arbitrary: s oda)
  case 0
  show ?case by simp
next
  case (Suc l)
  let ?s1 = "s\<lparr>shift := ipow 2 (int (Suc l) - 1)\<rparr>"
  have calls1: "after_call c 1 (ctl ?s1) = after_call c 1 (ctl s)" for c
    by (simp add: after_call_def ctl_def)
  show ?case
    unfolding Bisection_levels.simps Let_def holds_opt_bind
  proof (rule holds_opt_mono [OF Bisection_levelLoop_ctl [where P = "\<lambda>c. c = ctl ?s1"]])
    show "ctl ?s1 = ctl ?s1" by simp
  next
    fix r :: "State \<times> real \<times> real"
    assume r: "ctl (fst r) = ctl ?s1"
    obtain s2 oldA newA where r_def: "r = (s2, oldA, newA)" by (cases r)
    let ?s3 = "snd (draw_rand env s2)"
    have s3: "ctl ?s3 = ctl ?s1" using r r_def by simp
    have keep: "ctl (Bisection_keepMove env ?s3) = after_call KeepMove 1 (ctl s)"
      using s3 calls1 by simp
    have rec: "holds_opt (\<lambda>s'. ctl s' = after_call KeepMove 1 (ctl s)
                             \<or> ctl s' = after_call UndoMove 1 (ctl s))
                 (Bisection_levels env fuel l
                    (if int (Suc l) = 1 then Bisection_keepMove env ?s3 else ?s3) d)" for d
    proof (cases l)
      case 0
      then show ?thesis using keep by simp
    next
      case (Suc l')
      have "holds_opt (\<lambda>s'. ctl s' = after_call KeepMove 1 (ctl ?s3)
                            \<or> ctl s' = after_call UndoMove 1 (ctl ?s3))
              (Bisection_levels env fuel l ?s3 d)"
        by (rule holds_opt_mono [OF Suc.IH [of ?s3 d]]) (simp add: Suc)
      moreover have "after_call c 1 (ctl ?s3) = after_call c 1 (ctl s)" for c
        using s3 calls1 by simp
      ultimately show ?thesis using Suc by simp
    qed
    have undo: "holds_opt (\<lambda>s'. ctl s' = after_call UndoMove 1 (ctl s)) (Bisection_undoMove fuel ?s3)"
      by (rule Bisection_undoMove_ctl) (use s3 calls1 in simp)
    show "holds_opt (\<lambda>s'. (Suc l = 0 \<and> s' = s)
                          \<or> ctl s' = after_call KeepMove 1 (ctl s)
                          \<or> ctl s' = after_call UndoMove 1 (ctl s))
            (case r of (s2, oldAction, newAction) \<Rightarrow>
               case draw_rand env s2 of (u, s3) \<Rightarrow>
                 if u < exp (- (newAction - oldAction) + oda)
                 then Bisection_levels env fuel l
                        (if int (Suc l) = 1 then Bisection_keepMove env s3 else s3)
                        (newAction - oldAction)
                 else Bisection_undoMove fuel s3)"
    proof (cases "fst (draw_rand env s2) < exp (- (newA - oldA) + oda)")
      case True
      have "holds_opt (\<lambda>s'. (Suc l = 0 \<and> s' = s)
                          \<or> ctl s' = after_call KeepMove 1 (ctl s)
                          \<or> ctl s' = after_call UndoMove 1 (ctl s))
              (Bisection_levels env fuel l
                 (if int (Suc l) = 1 then Bisection_keepMove env ?s3 else ?s3) (newA - oldA))"
        by (rule holds_opt_mono [OF rec]) auto
      with True show ?thesis
        by (cases "l = 0") (simp_all add: r_def case_prod_beta)
    next
      case False
      have "holds_opt (\<lambda>s'. (Suc l = 0 \<and> s' = s)
                          \<or> ctl s' = after_call KeepMove 1 (ctl s)
                          \<or> ctl s' = after_call UndoMove 1 (ctl s))
              (Bisection_undoMove fuel ?s3)"
        by (rule holds_opt_mono [OF undo]) auto
      with False show ?thesis
        by (simp add: r_def case_prod_beta)
    qed
  qed
qed

lemma Bisection_levels_ctlD:
  "Bisection_levels env fuel l s oda = Some s' \<Longrightarrow>
     (l = 0 \<and> s' = s) \<or> ctl s' = after_call KeepMove 1 (ctl s)
       \<or> ctl s' = after_call UndoMove 1 (ctl s)"
  using holds_optD [OF Bisection_levels_ctl [of l s env fuel oda]] by blast

subsection \<open>The moves\<close>

text \<open>The three fields read through \<open>ctl\<close>, and \<open>ctl\<close> after an update of one of them.\<close>

lemma ctl_sel:
  "shift s = fst (ctl s)"
  "calls s = fst (snd (ctl s))"
  "success s = snd (snd (ctl s))"
  by (simp_all add: ctl_def)

lemma ctl_set:
  "ctl (shift_update f_shift s) = (f_shift (fst (ctl s)), snd (ctl s))"
  "ctl (calls_update f_calls s) = (fst (ctl s), f_calls (fst (snd (ctl s))), snd (snd (ctl s)))"
  "ctl (success_update f_success s) = (fst (ctl s), fst (snd (ctl s)), f_success (snd (snd (ctl s))))"
  by (simp_all add: ctl_def)

text \<open>The configuration is the same after an update of any other field, after a draw of
  the generator, and after the normalisation and the choice of the pivot of the swap
  moves.\<close>

lemma same_config_cfg: "same_config s t = (configuration t = configuration s)"
  by (auto simp: same_config_def configuration_def)

lemma cfg_update [simp]:
  "configuration (fullBeadList_update f_fullBeadList s) = configuration s"
  "configuration (shift_update f_shift s) = configuration s"
  "configuration (rng_update f_rng s) = configuration s"
  "configuration (success_update f_success s) = configuration s"
  "configuration (numAccepted_update f_numAccepted s) = configuration s"
  "configuration (numAttempted_update f_numAttempted s) = configuration s"
  "configuration (totAccepted_update f_totAccepted s) = configuration s"
  "configuration (totAttempted_update f_totAttempted s) = configuration s"
  "configuration (numAcceptedLevel_update f_numAcceptedLevel s) = configuration s"
  "configuration (numAttemptedLevel_update f_numAttemptedLevel s) = configuration s"
  "configuration (numLevels_update f_numLevels s) = configuration s"
  "configuration (originalPos_update f_originalPos s) = configuration s"
  "configuration (newPos_update f_newPos s) = configuration s"
  "configuration (include_flag_update f_include_flag s) = configuration s"
  "configuration (startBead_update f_startBead s) = configuration s"
  "configuration (endBead_update f_endBead s) = configuration s"
  "configuration (headBead_update f_headBead s) = configuration s"
  "configuration (tailBead_update f_tailBead s) = configuration s"
  "configuration (pivot_update f_pivot s) = configuration s"
  "configuration (swapBead_update f_swapBead s) = configuration s"
  "configuration (nextSwap_update f_nextSwap s) = configuration s"
  "configuration (prevSwap_update f_prevSwap s) = configuration s"
  "configuration (cumulant_update f_cumulant s) = configuration s"
  "configuration (calls_update f_calls s) = configuration s"
  by (simp_all add: configuration_def)

lemma cfg_draws [simp]:
  "configuration (snd (draw_rand env s)) = configuration s"
  "configuration (snd (draw_randInt env s n)) = configuration s"
  "configuration (snd (draw_randNorm env s m sd)) = configuration s"
  "configuration (snd (draw_randPosition env s)) = configuration s"
  by (simp_all add: draw_rand_def draw_randInt_def draw_randNorm_def draw_randPosition_def)

lemma cfg_randomShift [simp]: "configuration (snd (CenterOfMass_randomShift env n s)) = configuration s"
  by (induction n arbitrary: s) (simp_all add: case_prod_beta Let_def)

lemma getNorm_frameD:
  "getNorm env s bd L = Some r \<Longrightarrow> ctl (snd r) = ctl s \<and> configuration (snd r) = configuration s"
  by (auto simp: getNorm_def Let_def case_prod_beta split: list.splits)

lemma selectPivotBead_frameD:
  "selectPivotBead env s = Some r \<Longrightarrow> ctl (snd r) = ctl s \<and> configuration (snd r) = configuration s"
  by (auto simp: selectPivotBead_def Let_def case_prod_beta split: if_splits)

lemmas ctl_simps = ctl_sel ctl_set Let_def case_prod_beta after_call_def outcome_def decided_def
  same_config_cfg

lemma CenterOfMass_propose_outcome:
  assumes "CenterOfMass_propose env fuel s = Some (r, s')"
  shows "outcome s r s'"
  using assms
  unfolding CenterOfMass_propose_def
  by (auto simp: ctl_simps 
      split: if_splits Option.bind_splits sum.splits option.splits 
      dest!: CenterOfMass_shiftLoop_ctlD CenterOfMass_undoMove_ctlD)

lemma CenterOfMass_attemptMove_outcome:
  assumes "CenterOfMass_attemptMove env fuel s = Some (r, s')"
  shows "outcome s r s'"
proof -
  have "outcome t r s' \<Longrightarrow> ctl t = (fst (ctl s), fst (snd (ctl s)), False) \<Longrightarrow> configuration t = configuration s
          \<Longrightarrow> outcome s r s'" for t
    by (auto simp: ctl_simps)
  with assms show ?thesis
    unfolding CenterOfMass_attemptMove_def
    by (auto simp: ctl_simps split: if_splits Option.bind_splits
        dest!: CenterOfMass_propose_outcome)
qed

lemma Staging_attemptMove_outcome:
  assumes "Staging_attemptMove env fuel s = Some (r, s')"
  shows "outcome s r s'"
  using assms
  unfolding Staging_attemptMove_def
  by (auto simp: ctl_simps 
      split: if_splits Option.bind_splits sum.splits option.splits 
      dest!: Staging_loop_ctlD Staging_undoMove_ctlD)

lemma Bisection_attemptMove_outcome:
  assumes "Bisection_attemptMove env fuel s = Some (r, s')"
  shows "outcome s r s'"
  using assms
  unfolding Bisection_attemptMove_def
  by (auto simp: ctl_simps 
      split: if_splits Option.bind_splits sum.splits option.splits 
      dest!: Bisection_levels_ctlD)

lemma Open_local_decided:
  assumes "Open_local env fuel gapLength nrm muShift s = Some (r, s')"
  shows "decided s r s'"
  using assms
  unfolding Open_local_def
  by (auto simp: ctl_simps
      split: if_splits Option.bind_splits sum.splits option.splits
      dest!: Open_sliceLoop_ctlD Open_keepMove_ctlD)

lemma Open_nonlocal_decided:
  assumes "Open_nonlocal env fuel gapLength nrm muShift s = Some (r, s')"
  shows "decided s r s'"
  using assms
  unfolding Open_nonlocal_def
  by (auto simp: ctl_simps
      split: if_splits Option.bind_splits sum.splits option.splits
      dest!: Open_sliceLoop_ctlD Open_keepMove_ctlD)

lemma Open_attemptMove_outcome:
  assumes "Open_attemptMove env fuel s = Some (r, s')"
  shows "outcome s r s'"
  using assms
  unfolding Open_attemptMove_def Open_decide_def Open_propose_def
  by (auto simp: ctl_simps
      split: if_splits Option.bind_splits option.splits
      dest!: Open_local_decided Open_nonlocal_decided)

lemma Close_local_decided:
  assumes "Close_local env fuel nrm muShift s = Some (r, s')"
  shows "decided s r s'"
  using assms
  unfolding Close_local_def
  by (auto simp: ctl_simps
      split: if_splits Option.bind_splits sum.splits option.splits
      dest!: Close_sliceLoop_ctlD Close_undoMove_ctlD)

lemma Close_nonlocal_decided:
  assumes "Close_nonlocal env fuel nrm muShift s = Some (r, s')"
  shows "decided s r s'"
  using assms
  unfolding Close_nonlocal_def
  by (auto simp: ctl_simps
      split: if_splits Option.bind_splits sum.splits option.splits
      dest!: Close_sliceLoop_ctlD Close_undoMove_ctlD)

lemma Close_attemptMove_outcome:
  assumes "Close_attemptMove env fuel s = Some (r, s')"
  shows "outcome s r s'"
  using assms
  unfolding Close_attemptMove_def
  by (auto simp: ctl_simps
      split: if_splits Option.bind_splits option.splits
      dest!: Close_local_decided Close_nonlocal_decided)

lemma Insert_local_decided:
  assumes "Insert_local env fuel wormLen nrm muShift s = Some (r, s')"
  shows "decided s r s'"
  using assms
  unfolding Insert_local_def
  by (auto simp: ctl_simps
      split: if_splits Option.bind_splits sum.splits option.splits
      dest!: Insert_sliceLoop_ctlD Insert_undoMove_ctlD)

lemma Insert_nonlocal_decided:
  assumes "Insert_nonlocal env fuel wormLen nrm muShift s = Some (r, s')"
  shows "decided s r s'"
  using assms
  unfolding Insert_nonlocal_def
  by (auto simp: ctl_simps
      split: if_splits Option.bind_splits sum.splits option.splits
      dest!: Insert_sliceLoop_ctlD Insert_undoMove_ctlD)

lemma Insert_attemptMove_outcome:
  assumes "Insert_attemptMove env fuel s = Some (r, s')"
  shows "outcome s r s'"
  using assms
  unfolding Insert_attemptMove_def
  by (auto simp: ctl_simps
      split: if_splits Option.bind_splits option.splits
      dest!: Insert_local_decided Insert_nonlocal_decided)

lemma Remove_local_decided:
  assumes "Remove_local env fuel nrm muShift s = Some (r, s')"
  shows "decided s r s'"
  using assms
  unfolding Remove_local_def
  by (auto simp: ctl_simps
      split: if_splits Option.bind_splits sum.splits option.splits
      dest!: Remove_sliceLoop_ctlD Remove_keepMove_ctlD)

lemma Remove_nonlocal_decided:
  assumes "Remove_nonlocal env fuel nrm muShift s = Some (r, s')"
  shows "decided s r s'"
  using assms
  unfolding Remove_nonlocal_def
  by (auto simp: ctl_simps
      split: if_splits Option.bind_splits sum.splits option.splits
      dest!: Remove_sliceLoop_ctlD Remove_keepMove_ctlD)

lemma Remove_attemptMove_outcome:
  assumes "Remove_attemptMove env fuel s = Some (r, s')"
  shows "outcome s r s'"
  using assms
  unfolding Remove_attemptMove_def
  by (auto simp: ctl_simps
      split: if_splits Option.bind_splits option.splits
      dest!: Remove_local_decided Remove_nonlocal_decided)

lemma AdvanceHead_local_decided:
  assumes "AdvanceHead_local env fuel advanceLength nrm muShift s = Some (r, s')"
  shows "decided s r s'"
  using assms
  unfolding AdvanceHead_local_def
  by (auto simp: ctl_simps
      split: if_splits Option.bind_splits sum.splits option.splits
      dest!: AdvanceHead_sliceLoop_ctlD AdvanceHead_undoMove_ctlD)

lemma AdvanceHead_nonlocal_decided:
  assumes "AdvanceHead_nonlocal env fuel advanceLength nrm muShift s = Some (r, s')"
  shows "decided s r s'"
  using assms
  unfolding AdvanceHead_nonlocal_def
  by (auto simp: ctl_simps
      split: if_splits Option.bind_splits sum.splits option.splits
      dest!: AdvanceHead_sliceLoop_ctlD AdvanceHead_undoMove_ctlD)

lemma AdvanceHead_attemptMove_outcome:
  assumes "AdvanceHead_attemptMove env fuel s = Some (r, s')"
  shows "outcome s r s'"
  using assms
  unfolding AdvanceHead_attemptMove_def
  by (auto simp: ctl_simps
      split: if_splits Option.bind_splits option.splits
      dest!: AdvanceHead_local_decided AdvanceHead_nonlocal_decided)

lemma AdvanceTail_local_decided:
  assumes "AdvanceTail_local env fuel advanceLength nrm muShift s = Some (r, s')"
  shows "decided s r s'"
  using assms
  unfolding AdvanceTail_local_def
  by (auto simp: ctl_simps
      split: if_splits Option.bind_splits sum.splits option.splits
      dest!: AdvanceTail_sliceLoop_ctlD AdvanceTail_keepMove_ctlD)

lemma AdvanceTail_nonlocal_decided:
  assumes "AdvanceTail_nonlocal env fuel advanceLength nrm muShift s = Some (r, s')"
  shows "decided s r s'"
  using assms
  unfolding AdvanceTail_nonlocal_def
  by (auto simp: ctl_simps
      split: if_splits Option.bind_splits sum.splits option.splits
      dest!: AdvanceTail_sliceLoop_ctlD AdvanceTail_keepMove_ctlD)

lemma AdvanceTail_attemptMove_outcome:
  assumes "AdvanceTail_attemptMove env fuel s = Some (r, s')"
  shows "outcome s r s'"
  using assms
  unfolding AdvanceTail_attemptMove_def
  by (auto simp: ctl_simps
      split: if_splits Option.bind_splits option.splits
      dest!: AdvanceTail_local_decided AdvanceTail_nonlocal_decided)

lemma RecedeHead_local_decided:
  assumes "RecedeHead_local env fuel recedeLength nrm muShift s = Some (r, s')"
  shows "decided s r s'"
  using assms
  unfolding RecedeHead_local_def
  by (auto simp: ctl_simps
      split: if_splits Option.bind_splits sum.splits option.splits
      dest!: RecedeHead_sliceLoop_ctlD RecedeHead_keepMove_ctlD)

lemma RecedeHead_nonlocal_decided:
  assumes "RecedeHead_nonlocal env fuel recedeLength nrm muShift s = Some (r, s')"
  shows "decided s r s'"
  using assms
  unfolding RecedeHead_nonlocal_def
  by (auto simp: ctl_simps
      split: if_splits Option.bind_splits sum.splits option.splits
      dest!: RecedeHead_sliceLoop_ctlD RecedeHead_keepMove_ctlD)

lemma RecedeHead_attemptMove_outcome:
  assumes "RecedeHead_attemptMove env fuel s = Some (r, s')"
  shows "outcome s r s'"
  using assms
  unfolding RecedeHead_attemptMove_def
  by (auto simp: ctl_simps
      split: if_splits Option.bind_splits option.splits
      dest!: RecedeHead_local_decided RecedeHead_nonlocal_decided)

lemma RecedeTail_local_decided:
  assumes "RecedeTail_local env fuel recedeLength nrm muShift s = Some (r, s')"
  shows "decided s r s'"
  using assms
  unfolding RecedeTail_local_def
  by (auto simp: ctl_simps
      split: if_splits Option.bind_splits sum.splits option.splits
      dest!: RecedeTail_sliceLoop_ctlD RecedeTail_undoMove_ctlD)

lemma RecedeTail_nonlocal_decided:
  assumes "RecedeTail_nonlocal env fuel recedeLength nrm muShift s = Some (r, s')"
  shows "decided s r s'"
  using assms
  unfolding RecedeTail_nonlocal_def
  by (auto simp: ctl_simps
      split: if_splits Option.bind_splits sum.splits option.splits
      dest!: RecedeTail_sliceLoop_ctlD RecedeTail_undoMove_ctlD)

lemma RecedeTail_attemptMove_outcome:
  assumes "RecedeTail_attemptMove env fuel s = Some (r, s')"
  shows "outcome s r s'"
  using assms
  unfolding RecedeTail_attemptMove_def
  by (auto simp: ctl_simps
      split: if_splits Option.bind_splits option.splits
      dest!: RecedeTail_local_decided RecedeTail_nonlocal_decided)

lemma SwapHead_reconnect_decided:
  assumes "SwapHead_reconnect env fuel swapLength s = Some (r, s')"
  shows "decided s r s'"
  using assms
  unfolding SwapHead_reconnect_def
  by (auto simp: ctl_simps
      split: if_splits Option.bind_splits sum.splits option.splits
      dest!: SwapHead_storeLoop_ctlD SwapHead_stageLoop_ctlD SwapHead_undoMove_ctlD)

lemma SwapHead_attemptMove_outcome:
  assumes "SwapHead_attemptMove env fuel s = Some (r, s')"
  shows "outcome s r s'"
  using assms
  unfolding SwapHead_attemptMove_def
  by (auto simp: ctl_simps
      split: if_splits Option.bind_splits option.splits
      dest!: getNorm_frameD selectPivotBead_frameD SwapHead_reconnect_decided)

lemma SwapTail_reconnect_decided:
  assumes "SwapTail_reconnect env fuel swapLength s = Some (r, s')"
  shows "decided s r s'"
  using assms
  unfolding SwapTail_reconnect_def
  by (auto simp: ctl_simps
      split: if_splits Option.bind_splits sum.splits option.splits
      dest!: SwapTail_storeLoop_ctlD SwapTail_stageLoop_ctlD SwapTail_undoMove_ctlD)

lemma SwapTail_attemptMove_outcome:
  assumes "SwapTail_attemptMove env fuel s = Some (r, s')"
  shows "outcome s r s'"
  using assms
  unfolding SwapTail_attemptMove_def
  by (auto simp: ctl_simps
      split: if_splits Option.bind_splits option.splits
      dest!: getNorm_frameD selectPivotBead_frameD SwapTail_reconnect_decided)

lemma attemptMove_outcome:
  assumes "attemptMove mv env fuel s = Some (r, s')"
  shows "outcome s r s'"
  using assms
  by (cases mv)
    (simp_all add: CenterOfMass_attemptMove_outcome Staging_attemptMove_outcome
      Bisection_attemptMove_outcome Open_attemptMove_outcome Close_attemptMove_outcome
      Insert_attemptMove_outcome Remove_attemptMove_outcome AdvanceHead_attemptMove_outcome
      AdvanceTail_attemptMove_outcome RecedeHead_attemptMove_outcome
      RecedeTail_attemptMove_outcome SwapHead_attemptMove_outcome SwapTail_attemptMove_outcome)

section \<open>The moves and their two helpers\<close>

text \<open>The definitions of the concrete systems, for evaluation.\<close>

lemmas inst_defs = consts0_def box0_def gen0_def action0_def env0_def empty0_def ring0_def worm0_def XXX_def

lemma CenterOfMass_accepts_ring0:
  "\<exists>s'. CenterOfMass_attemptMove (env0 0 False) (Suc (Suc (Suc 0))) ring0 = Some (True, s')"
  by (simp add: CenterOfMass_attemptMove_def CenterOfMass_propose_def inst_defs draw_randInt_def
      draw_rand_def MoveBase_keepMove_def updateBead_def vadd_def Let_def)

lemma CenterOfMass_on_empty0:
  "CenterOfMass_attemptMove (env0 0 False) fuel empty0 = Some (False, empty0)"
  by (simp add: CenterOfMass_attemptMove_def inst_defs)

text \<open>
  Claim C2.  When a call of \<^verbatim>\<open>attemptMove\<close> of any of the thirteen moves starts with the time
  step shift of the action at one and returns, the shift is one again, whether the move
  was accepted or rejected.
\<close>

theorem shift_is_one_after_attemptMove:
  assumes "attemptMove mv env fuel s = Some (r, s')" and "shift s = 1"
  shows "shift s' = 1"
  using attemptMove_outcome [OF assms(1)] assms(2) by (auto simp: outcome_def decided_def)

theorem shift_is_one_after_attemptMove_witness:
  "\<exists>s'. attemptMove CenterOfMass (env0 0 False) (Suc (Suc (Suc 0))) ring0 = Some (True, s')
        \<and> shift ring0 = 1 \<and> shift s' = 1"
proof -
  obtain s' where run: "attemptMove CenterOfMass (env0 0 False) (Suc (Suc (Suc 0))) ring0 = Some (True, s')"
    using CenterOfMass_accepts_ring0 by auto
  have one: "shift ring0 = 1" by (simp add: inst_defs)
  from shift_is_one_after_attemptMove [OF run one] run one show ?thesis by blast
qed

text \<open>
  Claim C4, as stated, fails: with no bead on slice 0 the centre of mass move returns
  false and has called neither \<^verbatim>\<open>keepMove\<close> nor \<^verbatim>\<open>undoMove\<close>.
\<close>

theorem no_helper_called_on_empty_slice:
  "attemptMove CenterOfMass (env0 0 False) 1 empty0 = Some (False, empty0)
   \<and> \<not> one_helper_call empty0 empty0"
  by (simp add: CenterOfMass_on_empty0 one_helper_call_def)

text \<open>
  Claim C4, amended.  A call of \<^verbatim>\<open>attemptMove\<close> of any move that returns has called exactly
  one of the two helpers, exactly once (\<^verbatim>\<open>keepMove\<close> when it returns true, \<^verbatim>\<open>undoMove\<close> when
  it returns false), unless it has left before any edit: then it has called neither,
  returns false, and the configuration (positions, links, bead counts, bead-on bits and
  worm fields) is the one it started from.  The exits the claim names are of the second
  kind: the centre of mass move with no bead on slice 0, with a start bead on a worm of
  at least \<open>M\<close> links or on a closed worldline of more than \<open>M\<close> beads, and the open move
  whose proposed gap is too costly.
\<close>

theorem one_helper_call_unless_nothing_edited:
  "(attemptMove mv env fuel s = Some (r, s') \<longrightarrow>
      (calls s' = calls s @ [KeepMove] \<and> r) \<or> (calls s' = calls s @ [UndoMove] \<and> \<not> r)
        \<or> (calls s' = calls s \<and> \<not> r \<and> same_config s s'))
   \<and> (numBeadsAtSlice s 0 = 0 \<longrightarrow>
        attemptMove CenterOfMass env fuel s = Some (False, s\<lparr>success := False\<rparr>))
   \<and> (let r0 = randInt (random env) (rng s) (numBeadsAtSlice s 0 - 1);
          s3 = s\<lparr>success := False, rng := rng s + 1, startBead := (0, r0)\<rparr>;
          s4 = s3\<lparr>endBead := prevLink s (0, r0)\<rparr>
      in (numBeadsAtSlice s 0 \<noteq> 0 \<and> foundBead env s3 (0, r0)
            \<and> worm_length s \<ge> numTimeSlices (constants env) \<longrightarrow>
          attemptMove CenterOfMass env fuel s = Some (False, s3) \<and> calls s3 = calls s)
       \<and> (\<forall>n. numBeadsAtSlice s 0 \<noteq> 0 \<and> \<not> foundBead env s3 (0, r0)
            \<and> CenterOfMass_wlLength fuel s4 (0, r0) 0 = Some n
            \<and> n > numTimeSlices (constants env) \<longrightarrow>
          attemptMove CenterOfMass env fuel s = Some (False, s4) \<and> calls s4 = calls s))
   \<and> (let (gapLength, t) = Open_propose env s
      in tooCostly2 env t (getSeparation env t (headBead t) (tailBead t)) gapLength \<longrightarrow>
         attemptMove Open env fuel s = Some (False, t) \<and> calls t = calls s)"
proof (intro conjI impI)
  assume "attemptMove mv env fuel s = Some (r, s')"
  from attemptMove_outcome [OF this]
  show "(calls s' = calls s @ [KeepMove] \<and> r) \<or> (calls s' = calls s @ [UndoMove] \<and> \<not> r)
        \<or> (calls s' = calls s \<and> \<not> r \<and> same_config s s')"
    by (auto simp: outcome_def decided_def)
next
  assume "numBeadsAtSlice s 0 = 0"
  then show "attemptMove CenterOfMass env fuel s = Some (False, s\<lparr>success := False\<rparr>)"
    by (simp add: CenterOfMass_attemptMove_def)
next
  show "let r0 = randInt (random env) (rng s) (numBeadsAtSlice s 0 - 1);
          s3 = s\<lparr>success := False, rng := rng s + 1, startBead := (0, r0)\<rparr>;
          s4 = s3\<lparr>endBead := prevLink s (0, r0)\<rparr>
      in (numBeadsAtSlice s 0 \<noteq> 0 \<and> foundBead env s3 (0, r0)
            \<and> worm_length s \<ge> numTimeSlices (constants env) \<longrightarrow>
          attemptMove CenterOfMass env fuel s = Some (False, s3) \<and> calls s3 = calls s)
       \<and> (\<forall>n. numBeadsAtSlice s 0 \<noteq> 0 \<and> \<not> foundBead env s3 (0, r0)
            \<and> CenterOfMass_wlLength fuel s4 (0, r0) 0 = Some n
            \<and> n > numTimeSlices (constants env) \<longrightarrow>
          attemptMove CenterOfMass env fuel s = Some (False, s4) \<and> calls s4 = calls s)"
    by (auto simp: CenterOfMass_attemptMove_def draw_randInt_def Let_def)
next
  show "let (gapLength, t) = Open_propose env s
      in tooCostly2 env t (getSeparation env t (headBead t) (tailBead t)) gapLength \<longrightarrow>
         attemptMove Open env fuel s = Some (False, t) \<and> calls t = calls s"
    by (simp add: Open_attemptMove_def Open_decide_def Open_propose_def ctl_simps)
qed

theorem one_helper_call_unless_nothing_edited_witness:
  "(\<exists>s'. attemptMove CenterOfMass (env0 0 False) (Suc (Suc (Suc 0))) ring0 = Some (True, s')
         \<and> calls s' = calls ring0 @ [KeepMove])
   \<and> numBeadsAtSlice empty0 0 = 0
   \<and> attemptMove CenterOfMass (env0 0 False) 1 empty0 = Some (False, empty0\<lparr>success := False\<rparr>)
   \<and> numBeadsAtSlice (worm0 2) 0 \<noteq> 0
   \<and> foundBead (env0 0 False) (worm0 2\<lparr>success := False, rng := 1, startBead := (0, 0)\<rparr>) (0, 0)
   \<and> worm_length (worm0 2) \<ge> numTimeSlices (constants (env0 0 False))
   \<and> attemptMove CenterOfMass (env0 0 False) 1 (worm0 2)
       = Some (False, worm0 2\<lparr>success := False, rng := 1, startBead := (0, 0)\<rparr>)
   \<and> tooCostly2 (env0 0 False\<lparr>tooCostly2 := \<lambda>s sep g. True\<rparr>)
         (snd (Open_propose (env0 0 False\<lparr>tooCostly2 := \<lambda>s sep g. True\<rparr>) ring0)) [0] 2
   \<and> attemptMove Open (env0 0 False\<lparr>tooCostly2 := \<lambda>s sep g. True\<rparr>) 1 ring0
       = Some (False, snd (Open_propose (env0 0 False\<lparr>tooCostly2 := \<lambda>s sep g. True\<rparr>) ring0))"
proof -
  obtain s' where run: "attemptMove CenterOfMass (env0 0 False) (Suc (Suc (Suc 0))) ring0 = Some (True, s')"
    using CenterOfMass_accepts_ring0 by auto
  have a: "calls s' = calls ring0 @ [KeepMove]"
    using one_helper_call_unless_nothing_edited
      [of CenterOfMass "env0 0 False" "Suc (Suc (Suc 0))" ring0 True s'] run
    by simp
  have e: "numBeadsAtSlice empty0 0 = 0" by (simp add: inst_defs)
  have b: "attemptMove CenterOfMass (env0 0 False) 1 empty0 = Some (False, empty0\<lparr>success := False\<rparr>)"
    using one_helper_call_unless_nothing_edited [of CenterOfMass "env0 0 False" 1 empty0] e by simp
  have w: "numBeadsAtSlice (worm0 2) 0 \<noteq> 0"
    "foundBead (env0 0 False) (worm0 2\<lparr>success := False, rng := 1, startBead := (0, 0)\<rparr>) (0, 0)"
    "worm_length (worm0 2) \<ge> numTimeSlices (constants (env0 0 False))"
    by (simp_all add: inst_defs)
  have d: "attemptMove CenterOfMass (env0 0 False) 1 (worm0 2)
       = Some (False, worm0 2\<lparr>success := False, rng := 1, startBead := (0, 0)\<rparr>)"
    using one_helper_call_unless_nothing_edited [of CenterOfMass "env0 0 False" 1 "worm0 2"]
    by (simp add: inst_defs Let_def)
  have c: "attemptMove Open (env0 0 False\<lparr>tooCostly2 := \<lambda>s sep g. True\<rparr>) 1 ring0
       = Some (False, snd (Open_propose (env0 0 False\<lparr>tooCostly2 := \<lambda>s sep g. True\<rparr>) ring0))"
    using one_helper_call_unless_nothing_edited
      [of Open "env0 0 False\<lparr>tooCostly2 := \<lambda>s sep g. True\<rparr>" 1 ring0]
    by (simp add: case_prod_beta)
  from run a e b w d c show ?thesis by simp
qed

section \<open>The rejections of the centre of mass move\<close>

text \<open>
  Claim C5, as stated, fails: it says that a worm of length exactly \<open>M\<close> passes the length
  check.  With \<open>M = 2\<close> and a worm of length two, whose beads are the only beads,
  \<^verbatim>\<open>attemptMove\<close> returns false from the check, before an attempt is counted (the generator
  of this system returns zero, so a Metropolis test would have accepted).
\<close>

theorem worm_of_length_M_is_rejected:
  "worm_length (worm0 2) = numTimeSlices (constants (env0 0 False))
   \<and> CenterOfMass_attemptMove (env0 0 False) 3 (worm0 2)
       = Some (False, worm0 2\<lparr>rng := 1, startBead := (0, 0)\<rparr>)
   \<and> numAttempted (worm0 2\<lparr>rng := 1, startBead := (0, 0)\<rparr>) = numAttempted (worm0 2)"
  by (simp add: CenterOfMass_attemptMove_def inst_defs draw_randInt_def)

text \<open>
  Claim C5, amended.  \<^verbatim>\<open>CenterOfMassMove::attemptMove\<close> clears \<^verbatim>\<open>success\<close> and

  \<^item> returns false at once when slice 0 is empty;
  \<^item> otherwise draws the start bead \<open>(0, r)\<close> on slice 0, and when that bead is on the worm
    returns false if the worm length is at least \<open>M\<close> (a worm of length exactly \<open>M\<close> is
    rejected) and goes on to the proposal, from the worm's tail to its head, if the worm is
    shorter than \<open>M\<close>;
  \<^item> when the bead is on a closed worldline of length \<open>n\<close>, returns false if \<open>n > M\<close> and
    goes on to the proposal otherwise.

  The states in which it returns false here have the worldline data of the state it
  started from.
\<close>

theorem CenterOfMass_rejections:
  "let M = numTimeSlices (constants env);
       r = randInt (random env) (rng s) (numBeadsAtSlice s 0 - 1);
       s3 = s\<lparr>success := False, rng := rng s + 1, startBead := (0, r)\<rparr>;
       s4 = s3\<lparr>endBead := prevLink s (0, r)\<rparr>
   in (numBeadsAtSlice s 0 = 0 \<longrightarrow>
         CenterOfMass_attemptMove env fuel s = Some (False, s\<lparr>success := False\<rparr>))
    \<and> (numBeadsAtSlice s 0 \<noteq> 0 \<and> foundBead env s3 (0, r) \<longrightarrow>
         CenterOfMass_attemptMove env fuel s =
           (if worm_length s \<ge> M then Some (False, s3)
            else CenterOfMass_propose env fuel
                   (s3\<lparr>startBead := worm_tail s, endBead := worm_head s\<rparr>)))
    \<and> (\<forall>n. numBeadsAtSlice s 0 \<noteq> 0 \<and> \<not> foundBead env s3 (0, r)
             \<and> CenterOfMass_wlLength fuel s4 (0, r) 0 = Some n \<longrightarrow>
         CenterOfMass_attemptMove env fuel s =
           (if n > M then Some (False, s4) else CenterOfMass_propose env fuel s4))
    \<and> same_path s (s\<lparr>success := False\<rparr>) \<and> same_path s s3 \<and> same_path s s4"
  by (simp add: CenterOfMass_attemptMove_def draw_randInt_def same_path_def Let_def)

theorem CenterOfMass_rejections_witness:
  "numBeadsAtSlice empty0 0 = 0
   \<and> CenterOfMass_attemptMove (env0 0 False) 3 empty0 = Some (False, empty0\<lparr>success := False\<rparr>)
   \<and> numBeadsAtSlice (worm0 3) 0 \<noteq> 0
   \<and> foundBead (env0 0 False) (worm0 3\<lparr>success := False, rng := 1, startBead := (0, 0)\<rparr>) (0, 0)
   \<and> CenterOfMass_attemptMove (env0 0 False) 3 (worm0 3)
       = Some (False, worm0 3\<lparr>success := False, rng := 1, startBead := (0, 0)\<rparr>)
   \<and> numBeadsAtSlice ring0 0 \<noteq> 0
   \<and> \<not> foundBead (env0 0 False) (ring0\<lparr>success := False, rng := 1, startBead := (0, 0)\<rparr>) (0, 0)
   \<and> CenterOfMass_wlLength 3
        (ring0\<lparr>success := False, rng := 1, startBead := (0, 0), endBead := (1, 0)\<rparr>) (0, 0) 0 = Some 2
   \<and> CenterOfMass_attemptMove (env0 0 False) 3 ring0
       = CenterOfMass_propose (env0 0 False) 3
           (ring0\<lparr>success := False, rng := 1, startBead := (0, 0), endBead := (1, 0)\<rparr>)"
proof -
  have wl: "CenterOfMass_wlLength 3
        (ring0\<lparr>success := False, rng := 1, startBead := (0, 0), endBead := (1, 0)\<rparr>) (0, 0) 0 = Some 2"
    by (simp add: inst_defs numeral_3_eq_3)
  have a: "CenterOfMass_attemptMove (env0 0 False) 3 empty0 = Some (False, empty0\<lparr>success := False\<rparr>)"
    using CenterOfMass_rejections [of "env0 0 False" empty0 3] by (simp add: inst_defs Let_def)
  have b: "CenterOfMass_attemptMove (env0 0 False) 3 (worm0 3)
       = Some (False, worm0 3\<lparr>success := False, rng := 1, startBead := (0, 0)\<rparr>)"
    using CenterOfMass_rejections [of "env0 0 False" "worm0 3" 3] by (simp add: inst_defs Let_def)
  have c: "CenterOfMass_attemptMove (env0 0 False) 3 ring0
       = CenterOfMass_propose (env0 0 False) 3
           (ring0\<lparr>success := False, rng := 1, startBead := (0, 0), endBead := (1, 0)\<rparr>)"
    using CenterOfMass_rejections [of "env0 0 False" ring0 3] wl by (simp add: inst_defs Let_def)
  from a b c wl show ?thesis by (simp add: inst_defs Let_def)
qed

section \<open>The proposal of the open move\<close>

lemma cdiv_nonneg: "0 \<le> a \<Longrightarrow> cdiv a 2 = a div 2"
  by (cases "a = 0") (simp_all add: cdiv_def)

lemma nextN_funpow: "nextN s bd n = (nextLink s ^^ n) bd"
  by (induction n arbitrary: bd) (simp_all add: funpow_swap1)

lemma prevN_funpow: "prevN s bd n = (prevLink s ^^ n) bd"
  by (induction n arbitrary: bd) (simp_all add: funpow_swap1)

text \<open>The integers \<open>0, \<dots>, m div 2 - 1\<close> correspond one to one to the even numbers from
  \<open>2\<close> to \<open>m\<close>, and to the even numbers from \<open>0\<close> to \<open>m - 2\<close>.\<close>

lemma even_gaps_bij:
  fixes m :: int
  assumes "2 \<le> m"
  shows "bij_betw (\<lambda>r. 2 * (1 + r)) {0 .. m div 2 - 1} {g. even g \<and> 2 \<le> g \<and> g \<le> m}"
proof (rule bij_betw_byWitness [where f' = "\<lambda>g. g div 2 - 1"])
  show "\<forall>r\<in>{0 .. m div 2 - 1}. 2 * (1 + r) div 2 - 1 = r"
    by simp
  show "\<forall>g\<in>{g. even g \<and> 2 \<le> g \<and> g \<le> m}. 2 * (1 + (g div 2 - 1)) = g"
    by auto
  show "(\<lambda>r. 2 * (1 + r)) ` {0 .. m div 2 - 1} \<subseteq> {g. even g \<and> 2 \<le> g \<and> g \<le> m}"
    by auto
  show "(\<lambda>g. g div 2 - 1) ` {g. even g \<and> 2 \<le> g \<and> g \<le> m} \<subseteq> {0 .. m div 2 - 1}"
    by auto
qed

lemma even_slices_bij:
  fixes m :: int
  assumes "2 \<le> m"
  shows "bij_betw (\<lambda>r. 2 * r) {0 .. m div 2 - 1} {t. even t \<and> 0 \<le> t \<and> t \<le> m - 2}"
proof (rule bij_betw_byWitness [where f' = "\<lambda>t. t div 2"])
  show "\<forall>r\<in>{0 .. m div 2 - 1}. 2 * r div 2 = r"
    by simp
  show "\<forall>t\<in>{t. even t \<and> 0 \<le> t \<and> t \<le> m - 2}. 2 * (t div 2) = t"
    by auto
  show "(\<lambda>r. 2 * r) ` {0 .. m div 2 - 1} \<subseteq> {t. even t \<and> 0 \<le> t \<and> t \<le> m - 2}"
    by auto
  show "(\<lambda>t. t div 2) ` {t. even t \<and> 0 \<le> t \<and> t \<le> m - 2} \<subseteq> {0 .. m div 2 - 1}"
    by auto
qed

text \<open>
  Claim C6.  With \<open>Mbar \<ge> 2\<close>, at least two time slices, and a generator whose
  \<^verbatim>\<open>randInt(n)\<close> lies in \<open>0, \<dots>, n\<close>: the gap length that \<^verbatim>\<open>OpenMove::attemptMove\<close> proposes is
  even and lies in \<open>{2, 4, \<dots>, Mbar}\<close>; it is the image of the first draw, an integer of
  \<open>0, \<dots>, Mbar div 2 - 1\<close>, under a one to one correspondence with that set (so a uniform
  draw gives a uniform gap length); the slice of the head bead is even and lies in
  \<open>{0, 2, \<dots>, M - 2}\<close>, in the same way the image of the second draw; and the tail bead is
  reached from the head bead by following \<open>next\<close> exactly \<open>gapLength\<close> times.
\<close>

theorem Open_proposal:
  assumes Mbar: "2 \<le> Mbar (constants env)"
    and M: "2 \<le> numTimeSlices (constants env)"
    and gen: "\<forall>i n. 0 \<le> n \<longrightarrow> 0 \<le> randInt (random env) i n \<and> randInt (random env) i n \<le> n"
    and sel: "Open_propose env s = (gapLength, s')"
  shows "even gapLength \<and> 2 \<le> gapLength \<and> gapLength \<le> Mbar (constants env)
     \<and> gapLength = 2 * (1 + randInt (random env) (rng s) (Mbar (constants env) div 2 - 1))
     \<and> bij_betw (\<lambda>r. 2 * (1 + r)) {0 .. Mbar (constants env) div 2 - 1}
          {g. even g \<and> 2 \<le> g \<and> g \<le> Mbar (constants env)}
     \<and> even (fst (headBead s')) \<and> 0 \<le> fst (headBead s')
     \<and> fst (headBead s') \<le> numTimeSlices (constants env) - 2
     \<and> fst (headBead s')
         = 2 * randInt (random env) (rng s + 1) (numTimeSlices (constants env) div 2 - 1)
     \<and> bij_betw (\<lambda>r. 2 * r) {0 .. numTimeSlices (constants env) div 2 - 1}
          {t. even t \<and> 0 \<le> t \<and> t \<le> numTimeSlices (constants env) - 2}
     \<and> tailBead s' = (nextLink s' ^^ nat gapLength) (headBead s')
     \<and> tailBead s' = nextN s' (headBead s') (nat gapLength)"
proof -
  let ?rg = "randInt (random env) (rng s) (Mbar (constants env) div 2 - 1)"
  let ?rh = "randInt (random env) (rng s + 1) (numTimeSlices (constants env) div 2 - 1)"
  have b1: "0 \<le> Mbar (constants env) div 2 - 1" using Mbar by simp
  have b2: "0 \<le> numTimeSlices (constants env) div 2 - 1" using M by simp
  have r: "0 \<le> ?rg \<and> ?rg \<le> Mbar (constants env) div 2 - 1"
    using gen [rule_format, OF b1, of "rng s"] .
  have r0: "0 \<le> ?rh \<and> ?rh \<le> numTimeSlices (constants env) div 2 - 1"
    using gen [rule_format, OF b2, of "rng s + 1"] .
  have c1: "cdiv (Mbar (constants env)) 2 = Mbar (constants env) div 2"
    using Mbar by (simp add: cdiv_nonneg)
  have c2: "cdiv (numTimeSlices (constants env)) 2 = numTimeSlices (constants env) div 2"
    using M by (simp add: cdiv_nonneg)
  have g: "gapLength = 2 * (1 + ?rg)"
    using sel by (simp add: Open_propose_def draw_randInt_def Let_def c1 c2)
  have h: "fst (headBead s') = 2 * ?rh"
    using sel by (auto simp: Open_propose_def draw_randInt_def Let_def c1 c2)
  have t: "tailBead s' = nextN s' (headBead s') (nat gapLength)"
    using sel by (auto simp: Open_propose_def draw_randInt_def Let_def c1 c2 nextN_funpow)
  have "even gapLength \<and> 2 \<le> gapLength \<and> gapLength \<le> Mbar (constants env)"
    using g r by auto
  moreover have "even (fst (headBead s')) \<and> 0 \<le> fst (headBead s')
     \<and> fst (headBead s') \<le> numTimeSlices (constants env) - 2"
    using h r0 by auto
  moreover have "tailBead s' = (nextLink s' ^^ nat gapLength) (headBead s')"
    using t by (simp add: nextN_funpow)
  ultimately show ?thesis
    using g h t even_gaps_bij [OF Mbar] even_slices_bij [OF M] by blast
qed

theorem Open_proposal_witness:
  "2 \<le> Mbar (constants (env0 0 False)) \<and> 2 \<le> numTimeSlices (constants (env0 0 False))
   \<and> randInt (random (env0 0 False)) 0 0 = 0
   \<and> fst (Open_propose (env0 0 False) ring0) = 2
   \<and> headBead (snd (Open_propose (env0 0 False) ring0)) = (0, 0)
   \<and> tailBead (snd (Open_propose (env0 0 False) ring0)) = (0, 0)"
proof -
  have a: "2 \<le> Mbar (constants (env0 0 False))" "2 \<le> numTimeSlices (constants (env0 0 False))"
    by (simp_all add: inst_defs)
  have g: "\<forall>i n. 0 \<le> n \<longrightarrow> 0 \<le> randInt (random (env0 0 False)) i n
                         \<and> randInt (random (env0 0 False)) i n \<le> n"
    by (simp add: inst_defs)
  obtain gl t where p: "Open_propose (env0 0 False) ring0 = (gl, t)"
    by (cases "Open_propose (env0 0 False) ring0")
  have gl: "gl = 2"
    using Open_proposal [OF a g p] by (simp add: inst_defs)
  have hd: "headBead t = (0, 0)"
    using p by (auto simp: Open_propose_def draw_randInt_def Let_def inst_defs)
  have nl: "nextLink t = nextLink ring0"
    using p by (auto simp: Open_propose_def draw_randInt_def Let_def)
  have "tailBead t = (nextLink t ^^ nat gl) (headBead t)"
    using Open_proposal [OF a g p] by blast
  then have tl: "tailBead t = (0, 0)"
    unfolding gl hd nl by (simp add: numeral_2_eq_2 inst_defs)
  have "randInt (random (env0 0 False)) 0 0 = 0"
    by (simp add: inst_defs)
  with a gl hd tl p show ?thesis by simp
qed

section \<open>The staging position\<close>






section \<open>The rejections of the remove move\<close>

lemma worldlines_same:
  "worldlines t = worldlines s \<Longrightarrow>
     same_path s t \<and> worm_head t = worm_head s \<and> worm_tail t = worm_tail s
     \<and> worm_length t = worm_length s \<and> worm_gap t = worm_gap s
     \<and> special1 t = special1 s \<and> special2 t = special2 s"
  by (simp add: same_path_def worldlines_def)

lemma worldlines_update [simp]:
  "worldlines (isConfigDiagonal_update f_isConfigDiagonal s) = worldlines s"
  "worldlines (fullBeadList_update f_fullBeadList s) = worldlines s"
  "worldlines (shift_update f_shift s) = worldlines s"
  "worldlines (rng_update f_rng s) = worldlines s"
  "worldlines (success_update f_success s) = worldlines s"
  "worldlines (numAccepted_update f_numAccepted s) = worldlines s"
  "worldlines (numAttempted_update f_numAttempted s) = worldlines s"
  "worldlines (totAccepted_update f_totAccepted s) = worldlines s"
  "worldlines (totAttempted_update f_totAttempted s) = worldlines s"
  "worldlines (numAcceptedLevel_update f_numAcceptedLevel s) = worldlines s"
  "worldlines (numAttemptedLevel_update f_numAttemptedLevel s) = worldlines s"
  "worldlines (numLevels_update f_numLevels s) = worldlines s"
  "worldlines (originalPos_update f_originalPos s) = worldlines s"
  "worldlines (newPos_update f_newPos s) = worldlines s"
  "worldlines (include_flag_update f_include_flag s) = worldlines s"
  "worldlines (startBead_update f_startBead s) = worldlines s"
  "worldlines (endBead_update f_endBead s) = worldlines s"
  "worldlines (headBead_update f_headBead s) = worldlines s"
  "worldlines (tailBead_update f_tailBead s) = worldlines s"
  "worldlines (pivot_update f_pivot s) = worldlines s"
  "worldlines (swapBead_update f_swapBead s) = worldlines s"
  "worldlines (nextSwap_update f_nextSwap s) = worldlines s"
  "worldlines (prevSwap_update f_prevSwap s) = worldlines s"
  "worldlines (cumulant_update f_cumulant s) = worldlines s"
  "worldlines (calls_update f_calls s) = worldlines s"
  by (simp_all add: worldlines_def)

lemma worldlines_draw_rand [simp]: "worldlines (snd (draw_rand env s)) = worldlines s"
  by (simp add: draw_rand_def)

lemma worldlines_Remove_undoMove [simp]: "worldlines (Remove_undoMove s) = worldlines s"
  by (simp add: Remove_undoMove_def)

text \<open>The slice loop of the remove move draws deviates and, when a slice refuses, calls
  \<^verbatim>\<open>undoMove\<close>; the worldline data stay as they are.\<close>

lemma Remove_sliceLoop_worldlines:
  "P (worldlines s) \<Longrightarrow>
     holds_opt (case_sum (\<lambda>s'. P (worldlines s')) (\<lambda>r. P (worldlines (fst r))))
       (Remove_sliceLoop env fuel s aShift bi dA PNorm fac)"
proof (induction fuel arbitrary: s bi dA PNorm fac)
  case 0
  show ?case by simp
next
  case (Suc fuel)
  show ?case
    using Suc.prems by (simp add: Let_def case_prod_beta Suc.IH)
qed

lemma Remove_sliceLoop_frameD:
  assumes "Remove_sliceLoop env fuel s aShift bi dA PNorm fac = Some res"
  shows "case res of
           Inl s' \<Rightarrow> ctl s' = after_call UndoMove (fst (ctl s)) (ctl s)
                      \<and> worldlines s' = worldlines s
         | Inr r \<Rightarrow> ctl (fst r) = ctl s \<and> worldlines (fst r) = worldlines s"
proof -
  have "holds_opt (case_sum (\<lambda>s'. worldlines s' = worldlines s)
                            (\<lambda>r. worldlines (fst r) = worldlines s))
          (Remove_sliceLoop env fuel s aShift bi dA PNorm fac)"
    by (rule Remove_sliceLoop_worldlines [where P = "\<lambda>w. w = worldlines s"]) simp
  with assms Remove_sliceLoop_ctlD [OF assms] show ?thesis
    by (auto split: sum.splits)
qed

lemma Remove_local_rejection:
  assumes "Remove_local env fuel nrm muShift s = Some (False, s')"
  shows "worldlines s' = worldlines s \<and> calls s' = calls s @ [UndoMove]"
  using assms
  unfolding Remove_local_def
  by (auto simp: ctl_sel ctl_set Let_def case_prod_beta after_call_def
      split: if_splits Option.bind_splits sum.splits
      dest!: Remove_sliceLoop_frameD Remove_keepMove_ctlD)

lemma Remove_nonlocal_rejection:
  assumes "Remove_nonlocal env fuel nrm muShift s = Some (False, s')"
  shows "worldlines s' = worldlines s \<and> calls s' = calls s @ [UndoMove]"
  using assms
  unfolding Remove_nonlocal_def
  by (auto simp: ctl_sel ctl_set Let_def case_prod_beta after_call_def
      split: if_splits Option.bind_splits
      dest!: Remove_keepMove_ctlD)

text \<open>
  Claim C8.  \<^verbatim>\<open>RemoveMove::attemptMove\<close> returns false and leaves the whole state as it is
  when the worm is longer than \<open>Mbar\<close>, shorter than one, or there is less than one true
  particle.  \<^verbatim>\<open>undoMove\<close> changes no worldline data (it resets the diagonality flag and
  \<^verbatim>\<open>success\<close>).  Whenever \<^verbatim>\<open>attemptMove\<close> returns false, the positions, the links, the
  bead counts and the bead-on bits are those of the state it started from, and the worm's
  head, tail, length and gap too; after the precondition has passed, the rejection has
  gone through \<^verbatim>\<open>undoMove\<close>, once.  The rejections are: the test of the whole trajectory
  refusing (non-local action), and a slice of the slice loop or the final test refusing
  (local action); the first two are spelled out.
\<close>

theorem Remove_rejections_leave_the_path:
  "(worm_length s > Mbar (constants env) \<or> worm_length s < 1 \<or> getTrueNumParticles env s < 1
      \<longrightarrow> Remove_attemptMove env fuel s = Some (False, s))
   \<and> same_path s (Remove_undoMove s)
   \<and> (Remove_attemptMove env fuel s = Some (False, s') \<longrightarrow>
        same_path s s' \<and> worm_head s' = worm_head s \<and> worm_tail s' = worm_tail s
        \<and> worm_length s' = worm_length s \<and> worm_gap s' = worm_gap s
        \<and> special1 s' = special1 s \<and> special2 s' = special2 s)
   \<and> (\<not> (worm_length s > Mbar (constants env) \<or> worm_length s < 1
            \<or> getTrueNumParticles env s < 1)
        \<and> Remove_attemptMove env fuel s = Some (False, s') \<longrightarrow>
        calls s' = calls s @ [UndoMove])
   \<and> (\<not> rand (random env) (rng s)
            < nrm * exp (potentialAction (actionPtr env) s (worm_tail s) (worm_head s) - muShift)
        \<longrightarrow> Remove_nonlocal env fuel nrm muShift s
              = Some (False, Remove_undoMove (s\<lparr>rng := rng s + 1\<rparr>)))
   \<and> (rand (random env) (rng s)
          \<ge> min (exp (- (dA - (barePotentialAction (actionPtr env) s bi - fac * aShift)))
                    / PNorm) 1
        \<longrightarrow> Remove_sliceLoop env (Suc fuel) s aShift bi dA PNorm fac
              = Some (Inl (Remove_undoMove (s\<lparr>rng := rng s + 1\<rparr>))))"
proof -
  have a: "Remove_attemptMove env fuel s = Some (False, s)"
    if "worm_length s > Mbar (constants env) \<or> worm_length s < 1
            \<or> getTrueNumParticles env s < 1"
    using that by (auto simp: Remove_attemptMove_def)
  have "worldlines (Remove_undoMove s) = worldlines s"
    by simp
  from worldlines_same [OF this] have b: "same_path s (Remove_undoMove s)"
    by simp
  have c: "same_path s s' \<and> worm_head s' = worm_head s \<and> worm_tail s' = worm_tail s
        \<and> worm_length s' = worm_length s \<and> worm_gap s' = worm_gap s
        \<and> special1 s' = special1 s \<and> special2 s' = special2 s"
    if run: "Remove_attemptMove env fuel s = Some (False, s')"
  proof -
    from run have "worldlines s' = worldlines s"
      unfolding Remove_attemptMove_def
      by (auto simp: Let_def split: if_splits
          dest!: Remove_local_rejection Remove_nonlocal_rejection)
    from worldlines_same [OF this] show ?thesis
      by simp
  qed
  have d: "calls s' = calls s @ [UndoMove]"
    if "\<not> (worm_length s > Mbar (constants env) \<or> worm_length s < 1
            \<or> getTrueNumParticles env s < 1)
        \<and> Remove_attemptMove env fuel s = Some (False, s')"
    using that
    unfolding Remove_attemptMove_def
    by (auto simp: Let_def ctl_sel ctl_set split: if_splits
        dest!: Remove_local_rejection Remove_nonlocal_rejection)
  have e: "Remove_nonlocal env fuel nrm muShift s
              = Some (False, Remove_undoMove (s\<lparr>rng := rng s + 1\<rparr>))"
    if "\<not> rand (random env) (rng s)
            < nrm * exp (potentialAction (actionPtr env) s (worm_tail s) (worm_head s) - muShift)"
    using that by (simp add: Remove_nonlocal_def draw_rand_def Remove_undoMove_def Let_def)
  have f: "Remove_sliceLoop env (Suc fuel) s aShift bi dA PNorm fac
              = Some (Inl (Remove_undoMove (s\<lparr>rng := rng s + 1\<rparr>)))"
    if "rand (random env) (rng s)
          \<ge> min (exp (- (dA - (barePotentialAction (actionPtr env) s bi - fac * aShift)))
                    / PNorm) 1"
    using that by (simp add: draw_rand_def Let_def)
  from a b c d e f show ?thesis by blast
qed

theorem Remove_rejections_leave_the_path_witness:
  "worm_length (worm0 3) > Mbar (constants (env0 1 False))
   \<and> Remove_attemptMove (env0 1 False) 3 (worm0 3) = Some (False, worm0 3)
   \<and> \<not> (worm_length (worm0 1) > Mbar (constants (env0 1 False)) \<or> worm_length (worm0 1) < 1
          \<or> getTrueNumParticles (env0 1 False) (worm0 1) < 1)
   \<and> Remove_attemptMove (env0 1 False) 3 (worm0 1)
       = Some (False, Remove_undoMove (worm0 1\<lparr>numAttempted := 1, totAttempted := 1,
            numAttemptedLevel := (\<lambda>l. if l = 0 then 1 else 0), rng := 1\<rparr>))
   \<and> same_path (worm0 1) (Remove_undoMove (worm0 1\<lparr>numAttempted := 1, totAttempted := 1,
            numAttemptedLevel := (\<lambda>l. if l = 0 then 1 else 0), rng := 1\<rparr>))"
proof -
  have pre: "worm_length (worm0 3) > Mbar (constants (env0 1 False))"
    "\<not> (worm_length (worm0 1) > Mbar (constants (env0 1 False)) \<or> worm_length (worm0 1) < 1
          \<or> getTrueNumParticles (env0 1 False) (worm0 1) < 1)"
    by (simp_all add: inst_defs)
  have a: "Remove_attemptMove (env0 1 False) 3 (worm0 3) = Some (False, worm0 3)"
    using Remove_rejections_leave_the_path [where s = "worm0 3" and env = "env0 1 False" and fuel = 3]
      pre(1) by blast
  have lv: "levelsOf 1 = 0"
    by (simp add: levelsOf_def EPS_def ceiling_eq_iff)
  have run: "Remove_attemptMove (env0 1 False) 3 (worm0 1)
       = Some (False, Remove_undoMove (worm0 1\<lparr>numAttempted := 1, totAttempted := 1,
            numAttemptedLevel := (\<lambda>l. if l = 0 then 1 else 0), rng := 1\<rparr>))"
    by (simp add: Remove_attemptMove_def Remove_nonlocal_def Remove_undoMove_def draw_rand_def
        inst_defs lv Let_def fun_eq_iff)
  from Remove_rejections_leave_the_path
    [where s = "worm0 1" and env = "env0 1 False" and fuel = 3
       and s' = "Remove_undoMove (worm0 1\<lparr>numAttempted := 1, totAttempted := 1,
            numAttemptedLevel := (\<lambda>l. if l = 0 then 1 else 0), rng := 1\<rparr>)"] run
  have b: "same_path (worm0 1) (Remove_undoMove (worm0 1\<lparr>numAttempted := 1, totAttempted := 1,
            numAttemptedLevel := (\<lambda>l. if l = 0 then 1 else 0), rng := 1\<rparr>))"
    by blast
  from pre a run b show ?thesis by blast
qed

section \<open>The acceptance tests\<close>

lemma ring0_shifted:
  "CenterOfMass_shiftLoop steep0 (Suc (Suc (Suc 0))) ring0_proposed (0, 0)
     = Some (ring0_proposed\<lparr>beads := (beads ring0_proposed)((0, 0) := [- 1 / 2], (1, 0) := [- 1 / 2])\<rparr>)"
  by (simp add: ring0_proposed_def steep0_def inst_defs updateBead_def vadd_def Let_def)

text \<open>
  Claim C3, as stated, fails.  The centre of mass move on the closed worldline of the steep
  system proposes a shift that raises the action by \<open>70\<close>, more than \<^verbatim>\<open>LBIG\<close>; a test
  saturated at zero refuses it, but the move compares the deviate, here zero, with
  \<open>exp (- 70)\<close> and accepts.
\<close>

theorem acceptance_not_saturated_above_LBIG:
  "map_option fst (CenterOfMass_attemptMove steep0 (Suc (Suc (Suc 0))) ring0) = Some True
   \<and> potentialAction (actionPtr steep0)
        (ring0_proposed\<lparr>beads := (beads ring0_proposed)((0, 0) := [- 1 / 2], (1, 0) := [- 1 / 2])\<rparr>)
        (0, 0) (1, 0)
       - potentialAction (actionPtr steep0) ring0_proposed (0, 0) (1, 0) = 70
   \<and> LBIG < 70
   \<and> rand (random steep0) 2 = 0
   \<and> \<not> saturated_test 0 70"
proof -
  have run: "map_option fst (CenterOfMass_attemptMove steep0 (Suc (Suc (Suc 0))) ring0) = Some True"
    by (simp add: CenterOfMass_attemptMove_def CenterOfMass_propose_def steep0_def inst_defs
        draw_randInt_def draw_rand_def MoveBase_keepMove_def updateBead_def vadd_def Let_def)
  have dS: "potentialAction (actionPtr steep0)
        (ring0_proposed\<lparr>beads := (beads ring0_proposed)((0, 0) := [- 1 / 2], (1, 0) := [- 1 / 2])\<rparr>)
        (0, 0) (1, 0)
       - potentialAction (actionPtr steep0) ring0_proposed (0, 0) (1, 0) = 70"
    by (simp add: ring0_proposed_def steep0_def inst_defs)
  have big: "LBIG < 70"
    by (simp add: LBIG_def)
  have u: "rand (random steep0) 2 = 0"
    by (simp add: steep0_def inst_defs)
  from big have "\<not> saturated_test 0 70"
    by (simp add: saturated_test_def)
  with run dS big u show ?thesis by blast
qed

text \<open>
  Claim C3, amended.  The acceptance tests of \<^verbatim>\<open>CenterOfMassMove::attemptMove\<close> and of
  \<^verbatim>\<open>OpenMove::attemptMove\<close> have no branch for large action differences and do not use
  \<^verbatim>\<open>LBIG\<close>: whatever the size of the action difference, the move is accepted exactly when
  the uniform deviate is below the exponential itself,

  \<^item> \<open>exp (- (newAction - oldAction))\<close> in the centre of mass move,
  \<^item> \<open>norm * exp (oldAction - muShift)\<close> in the open move with a non-local action,
  \<^item> \<open>exp (- deltaAction) / PNorm\<close> in the final test of the open move with a local
    action, whose slice loop refuses a slice when the deviate is not below
    \<open>min (exp (- deltaAction) / PNorm) 1\<close>.
\<close>

theorem acceptance_tests_compare_directly:
  "(let s1 = s\<lparr>numAttempted := numAttempted s + 1, totAttempted := totAttempted s + 1\<rparr>;
        s3 = (snd (CenterOfMass_randomShift env (NDIM (constants env)) s1))
               \<lparr>originalPos := (originalPos (snd (CenterOfMass_randomShift env (NDIM (constants env)) s1)))
                  (0 := fst (CenterOfMass_randomShift env (NDIM (constants env)) s1))\<rparr>
    in \<forall>s4. (if int (sum_list (periodic (boxPtr env))) \<noteq> int (NDIM (constants env))
              then CenterOfMass_leavesBox env fuel s3 (startBead s3) else Some False) = Some False
            \<and> CenterOfMass_shiftLoop env fuel s3 (startBead s3) = Some s4
            \<and> CenterOfMass_propose env fuel s = Some (r, s') \<longrightarrow>
         r = (rand (random env) (rng s4)
                < exp (- (potentialAction (actionPtr env) s4 (startBead s4) (endBead s4)
                          - potentialAction (actionPtr env) s3 (startBead s3) (endBead s3)))))
   \<and> (Open_nonlocal env fuel gapLength nrm muShift s = Some (r, s') \<longrightarrow>
        r = (rand (random env) (rng s)
               < nrm * exp (potentialAction (actionPtr env) s (headBead s) (tailBead s) - muShift)))
   \<and> (\<forall>t dA PNorm.
        Open_sliceLoop env fuel s ((- ln nrm + muShift) / real_of_int gapLength) (headBead s) 0 1 0.5
          = Some (Inr (t, dA, PNorm))
        \<and> Open_local env fuel gapLength nrm muShift s = Some (r, s') \<longrightarrow>
        r = (rand (random env) (rng t)
               < exp (- (dA - (barePotentialAction (actionPtr env) t (tailBead t)
                               - 0.5 * ((- ln nrm + muShift) / real_of_int gapLength))
                            - potentialActionCorrection (actionPtr env) t (headBead t) (tailBead t)))
                 / PNorm))
   \<and> (rand (random env) (rng s)
          \<ge> min (exp (- (dA0 - (barePotentialAction (actionPtr env) s bi - fac * aShift))) / PNorm0) 1
        \<longrightarrow> Open_sliceLoop env (Suc fuel) s aShift bi dA0 PNorm0 fac
              = Some (Inl (Open_undoMove (s\<lparr>rng := rng s + 1\<rparr>))))"
proof -
  have com: "r = (rand (random env) (rng s4)
                < exp (- (potentialAction (actionPtr env) s4 (startBead s4) (endBead s4)
                          - potentialAction (actionPtr env) s3 (startBead s3) (endBead s3))))"
    if "s3 = (snd (CenterOfMass_randomShift env (NDIM (constants env))
                (s\<lparr>numAttempted := numAttempted s + 1, totAttempted := totAttempted s + 1\<rparr>)))
               \<lparr>originalPos := (originalPos (snd (CenterOfMass_randomShift env (NDIM (constants env))
                    (s\<lparr>numAttempted := numAttempted s + 1, totAttempted := totAttempted s + 1\<rparr>))))
                  (0 := fst (CenterOfMass_randomShift env (NDIM (constants env))
                    (s\<lparr>numAttempted := numAttempted s + 1, totAttempted := totAttempted s + 1\<rparr>)))\<rparr>"
      and "(if int (sum_list (periodic (boxPtr env))) \<noteq> int (NDIM (constants env))
              then CenterOfMass_leavesBox env fuel s3 (startBead s3) else Some False) = Some False"
      and "CenterOfMass_shiftLoop env fuel s3 (startBead s3) = Some s4"
      and "CenterOfMass_propose env fuel s = Some (r, s')"
    for s3 s4
    using that(4) that(2,3) unfolding CenterOfMass_propose_def that(1) [symmetric] Let_def case_prod_beta
    by (auto simp: draw_rand_def ctl_sel ctl_set after_call_def MoveBase_keepMove_def
        split: if_splits Option.bind_splits dest!: CenterOfMass_undoMove_ctlD)
  have nonlocal: "r = (rand (random env) (rng s)
               < nrm * exp (potentialAction (actionPtr env) s (headBead s) (tailBead s) - muShift))"
    if "Open_nonlocal env fuel gapLength nrm muShift s = Some (r, s')"
    using that unfolding Open_nonlocal_def Let_def case_prod_beta
    by (auto simp: draw_rand_def ctl_sel ctl_set after_call_def
        split: if_splits Option.bind_splits dest!: Open_keepMove_ctlD)
  have loc: "r = (rand (random env) (rng t)
               < exp (- (dA - (barePotentialAction (actionPtr env) t (tailBead t)
                               - 0.5 * ((- ln nrm + muShift) / real_of_int gapLength))
                            - potentialActionCorrection (actionPtr env) t (headBead t) (tailBead t)))
                 / PNorm)"
    if "Open_sliceLoop env fuel s ((- ln nrm + muShift) / real_of_int gapLength) (headBead s) 0 1 0.5
          = Some (Inr (t, dA, PNorm))"
      and "Open_local env fuel gapLength nrm muShift s = Some (r, s')"
    for t dA PNorm
    using that(2) unfolding Open_local_def Let_def case_prod_beta that(1)
    by (auto simp: draw_rand_def ctl_sel ctl_set after_call_def
        split: if_splits Option.bind_splits dest!: Open_keepMove_ctlD)
  have slice: "Open_sliceLoop env (Suc fuel) s aShift bi dA0 PNorm0 fac
              = Some (Inl (Open_undoMove (s\<lparr>rng := rng s + 1\<rparr>)))"
    if "rand (random env) (rng s)
          \<ge> min (exp (- (dA0 - (barePotentialAction (actionPtr env) s bi - fac * aShift))) / PNorm0) 1"
    using that by (simp add: draw_rand_def Let_def)
  from com nonlocal loc slice show ?thesis
    unfolding Let_def by blast
qed

theorem acceptance_tests_compare_directly_witness:
  "map_option fst (CenterOfMass_propose steep0 (Suc (Suc (Suc 0)))
       (ring0\<lparr>rng := 1, startBead := (0, 0), endBead := (1, 0)\<rparr>)) = Some True
   \<and> rand (random steep0) 2 < exp (- (70 - 0))
   \<and> Open_nonlocal (env0 1 False) 1 2 (1 / 2) 0 ring0
       = Some (False, Open_undoMove (ring0\<lparr>rng := 1\<rparr>))
   \<and> \<not> rand (random (env0 1 False)) 0 < 1 / 2 * exp (0 - 0)
   \<and> Open_sliceLoop (env0 1 False) (Suc 0) ring0 0 (0, 0) 0 1 (1 / 2)
       = Some (Inl (Open_undoMove (ring0\<lparr>rng := 1\<rparr>)))"
proof -
  let ?sP = "ring0\<lparr>rng := 1, startBead := (0, 0), endBead := (1, 0)\<rparr>"
  have s3: "(snd (CenterOfMass_randomShift steep0 (NDIM (constants steep0))
               (?sP\<lparr>numAttempted := numAttempted ?sP + 1, totAttempted := totAttempted ?sP + 1\<rparr>)))
             \<lparr>originalPos := (originalPos (snd (CenterOfMass_randomShift steep0 (NDIM (constants steep0))
               (?sP\<lparr>numAttempted := numAttempted ?sP + 1, totAttempted := totAttempted ?sP + 1\<rparr>))))
                (0 := fst (CenterOfMass_randomShift steep0 (NDIM (constants steep0))
               (?sP\<lparr>numAttempted := numAttempted ?sP + 1, totAttempted := totAttempted ?sP + 1\<rparr>)))\<rparr>
            = ring0_proposed"
    by (simp add: ring0_proposed_def steep0_def inst_defs draw_rand_def Let_def fun_eq_iff)
  have per: "int (sum_list (periodic (boxPtr steep0))) = int (NDIM (constants steep0))"
    by (simp add: steep0_def inst_defs)
  have sb: "startBead ring0_proposed = (0, 0)" "endBead ring0_proposed = (1, 0)"
    by (simp_all add: ring0_proposed_def)
  obtain t where run: "CenterOfMass_propose steep0 (Suc (Suc (Suc 0))) ?sP = Some (True, t)"
    by (simp add: CenterOfMass_propose_def steep0_def inst_defs
        draw_rand_def MoveBase_keepMove_def updateBead_def vadd_def Let_def)
  have a: "rand (random steep0) 2 < exp (- (70 - 0))"
    using acceptance_tests_compare_directly
      [where env = steep0 and s = ?sP and fuel = "Suc (Suc (Suc 0))" and r = True and s' = t]
      run ring0_shifted per
    unfolding Let_def s3 sb
    by (simp add: ring0_proposed_def steep0_def inst_defs)
  have b: "Open_nonlocal (env0 1 False) 1 2 (1 / 2) 0 ring0
       = Some (False, Open_undoMove (ring0\<lparr>rng := 1\<rparr>))"
    by (simp add: Open_nonlocal_def Open_undoMove_def draw_rand_def inst_defs Let_def)
  have c: "\<not> rand (random (env0 1 False)) 0 < 1 / 2 * exp (0 - 0)"
    using acceptance_tests_compare_directly
      [where env = "env0 1 False" and s = ring0 and fuel = 1 and gapLength = 2 and nrm = "1 / 2"
         and muShift = 0 and r = False and s' = "Open_undoMove (ring0\<lparr>rng := 1\<rparr>)"] b
    by (simp add: inst_defs)
  have d: "Open_sliceLoop (env0 1 False) (Suc 0) ring0 0 (0, 0) 0 1 (1 / 2)
       = Some (Inl (Open_undoMove (ring0\<lparr>rng := 1\<rparr>)))"
    using acceptance_tests_compare_directly
      [where env = "env0 1 False" and s = ring0 and fuel = 0 and aShift = 0 and bi = "(0, 0)"
         and ?dA0.0 = 0 and ?PNorm0.0 = 1 and fac = "1 / 2"]
    by (simp add: inst_defs)
  from run a b c d show ?thesis by simp
qed

end
